theory Spec2Isabelle
  imports Complex_Main "HOL-Library.Sublist"
begin

section \<open>Values, errors and configuration\<close>

text \<open>
  The model follows \<^verbatim>\<open>lib/tracing/index.js\<close>. JavaScript exceptions are values of
  \<open>js_error\<close>; a function that may throw returns \<open>js_error + 'a\<close>.
\<close>

datatype js_error = Error string | TypeError string

text \<open>
  A JavaScript value as far as the code tells values apart: by truthiness (\<^verbatim>\<open>!x\<close>,
  \<^verbatim>\<open>a || b\<close>, \<^verbatim>\<open>a && b\<close>), by being nullish (\<^verbatim>\<open>??=\<close>, \<^verbatim>\<open>?.\<close>), by its rendering in a
  template literal, and by object identity (\<open>Ref\<close> is the address of an object in the store).
  \<open>Native n\<close> is the member \<open>n\<close> every object inherits from \<^verbatim>\<open>Object.prototype\<close>.
\<close>

datatype jsval = Undefined | Null | Bool bool | Str string | Ref nat | Native string

fun truthy :: "jsval \<Rightarrow> bool" where
  "truthy Undefined = False"
| "truthy Null = False"
| "truthy (Bool b) = b"
| "truthy (Str s) = (s \<noteq> [])"
| "truthy (Ref a) = True"
| "truthy (Native n) = True"

fun nullish :: "jsval \<Rightarrow> bool" where
  "nullish Undefined = True"
| "nullish Null = True"
| "nullish v = False"

text \<open>
  The text a template literal \<^verbatim>\<open>`${v}`\<close> inserts for a value (plain objects only; an
  inherited member is a built-in function, except \<^verbatim>\<open>__proto__\<close>, which is an object).
\<close>

fun to_string :: "jsval \<Rightarrow> string" where
  "to_string Undefined = ''undefined''"
| "to_string Null = ''null''"
| "to_string (Bool b) = (if b then ''true'' else ''false'')"
| "to_string (Str s) = s"
| "to_string (Ref a) = ''[object Object]''"
| "to_string (Native n) =
     (if n = ''__proto__'' then ''[object Object]''
      else ''function '' @ (if n = ''constructor'' then ''Object'' else n)
           @ ''() { [native code] }'')"

definition quoted :: "string \<Rightarrow> string" where
  "quoted s = CHR 0x22 # s @ [CHR 0x22]"

text \<open>
  What a module exports under a name, or an object inherits: a class, which \<^verbatim>\<open>new\<close>
  constructs, or another truthy value, on which \<^verbatim>\<open>new\<close> throws a TypeError. A module is
  its own exports with a truthy value. \<^verbatim>\<open>m[name]\<close> reads an own export or else a member
  of \<^verbatim>\<open>Object.prototype\<close>, of which only \<^verbatim>\<open>constructor\<close> (that is \<^verbatim>\<open>Object\<close>) is a
  class.
\<close>

datatype export = Class | Value

type_synonym js_module = "(string \<times> export) list"

definition object_prototype :: js_module where
  "object_prototype =
     [(''constructor'', Class), (''__defineGetter__'', Value), (''__defineSetter__'', Value),
      (''hasOwnProperty'', Value), (''__lookupGetter__'', Value), (''__lookupSetter__'', Value),
      (''isPrototypeOf'', Value), (''propertyIsEnumerable'', Value), (''toString'', Value),
      (''valueOf'', Value), (''__proto__'', Value), (''toLocaleString'', Value)]"

definition member :: "js_module \<Rightarrow> string \<Rightarrow> export option" where
  "member m name =
     (case map_of m name of Some e \<Rightarrow> Some e | None \<Rightarrow> map_of object_prototype name)"

definition not_a_constructor :: "string \<Rightarrow> js_error" where
  "not_a_constructor what = TypeError (what @ '' is not a constructor'')"

text \<open>
  An object is its own properties; a property that was never set is \<open>Undefined\<close> there.
  The store holds every object; \<^verbatim>\<open>{}\<close> and \<^verbatim>\<open>{ ...o }\<close> allocate a new one at the end.
\<close>

type_synonym obj = "string \<Rightarrow> jsval"
type_synonym store = "obj list"

definition empty_obj :: obj where
  "empty_obj = (\<lambda>k. Undefined)"

definition alloc :: "obj \<Rightarrow> store \<Rightarrow> nat \<times> store" where
  "alloc ob h = (length h, h @ [ob])"

text \<open>
  \<^verbatim>\<open>v.k\<close> and \<^verbatim>\<open>v[k]\<close>: the own property, or else what \<^verbatim>\<open>Object.prototype\<close> has under
  that name. The code reads a property of a value only after it found the value truthy or
  not nullish. Of a primitive only the members of \<^verbatim>\<open>Object.prototype\<close> are modelled.
  \<^verbatim>\<open>v.k = x\<close> on a primitive is dropped without an error (the file is not in strict mode).
\<close>

definition inherited :: "string \<Rightarrow> jsval" where
  "inherited k = (case map_of object_prototype k of None \<Rightarrow> Undefined | Some e \<Rightarrow> Native k)"

definition own_or_inherited :: "jsval \<Rightarrow> string \<Rightarrow> jsval" where
  "own_or_inherited x k = (case x of Undefined \<Rightarrow> inherited k | _ \<Rightarrow> x)"

definition get_prop :: "store \<Rightarrow> jsval \<Rightarrow> string \<Rightarrow> jsval" where
  "get_prop h v k =
     (case v of
        Ref a \<Rightarrow> (if a < length h then own_or_inherited ((h ! a) k) k else Undefined)
      | Undefined \<Rightarrow> Undefined
      | Null \<Rightarrow> Undefined
      | _ \<Rightarrow> inherited k)"

definition set_prop :: "store \<Rightarrow> jsval \<Rightarrow> string \<Rightarrow> jsval \<Rightarrow> store" where
  "set_prop h v k x =
     (case v of Ref a \<Rightarrow> (if a < length h then h[a := (h ! a)(k := x)] else h) | _ \<Rightarrow> h)"

text \<open>\<^verbatim>\<open>v.k ??= x\<close>: assigns only where the property reads as null or undefined.\<close>

definition assign_if_nullish :: "store \<Rightarrow> jsval \<Rightarrow> string \<Rightarrow> jsval \<Rightarrow> store" where
  "assign_if_nullish h v k x = (if nullish (get_prop h v k) then set_prop h v k x else h)"

text \<open>\<^verbatim>\<open>v.k ??= {}\<close>: the new object is allocated only where the assignment happens.\<close>

definition assign_object_if_nullish :: "store \<Rightarrow> jsval \<Rightarrow> string \<Rightarrow> store" where
  "assign_object_if_nullish h v k =
     (if nullish (get_prop h v k)
      then (case alloc empty_obj h of (a, h') \<Rightarrow> set_prop h' v k (Ref a))
      else h)"

subsection \<open>The configuration \<^verbatim>\<open>cds.env.requires.telemetry\<close>\<close>

datatype cfg_value = CStr string | CBool bool | CArr "string list"

type_synonym settings = "(string \<times> cfg_value) list"

record class_spec =
  mod_name :: string
  cls_name :: string
  config :: "settings option"

record sampler_spec =
  kind :: string
  root :: "string option"
  ratio :: "rat option"

datatype propagator_entry = Builtin string | Custom class_spec

text \<open>
  The exporter's \<^verbatim>\<open>config\<close> is an object in the store (or absent), because exporter
  assembly copies it and writes to the copy.
\<close>

record exporter_spec =
  exporter_module :: string
  exporter_class :: string
  exporter_config :: "nat option"

record tracing_cfg =
  sampler :: sampler_spec
  propagators :: "propagator_entry list"
  exporter :: "exporter_spec option"

record telemetry_cfg =
  telemetry_kind :: string
  token_name :: string
  instrumentations :: "(string \<times> class_spec) list option"
  tracing :: "tracing_cfg option"

subsection \<open>What the code takes from outside this file\<close>

text \<open>
  The modules the code looks classes up in are given by what they export;
  \<open>load_module\<close> is \<^verbatim>\<open>_require\<close> of \<^verbatim>\<open>../utils\<close>, which returns the module or
  throws. The credential getters of \<^verbatim>\<open>../utils\<close> return an object of the store or
  \<open>Undefined\<close>. \<open>LOG_warn\<close>, \<open>LOG_info\<close> and \<open>LOG_debug\<close> are the logger's level flags,
  and the three \<open>env_\<close> fields are the variables of \<^verbatim>\<open>process.env\<close> the code reads.
\<close>

datatype resource = Resource "(string \<times> string) list" | Merge resource resource

record externals =
  sdk_trace_base :: js_module
  otel_core :: js_module
  own_exporter :: js_module
  load_module :: "string \<Rightarrow> js_error + js_module"
  getDynatraceCredentials :: jsval
  getCloudLoggingCredentials :: jsval
  getDynatraceMetadata :: resource
  LOG_warn :: bool
  LOG_info :: bool
  LOG_debug :: bool
  env_DT_NODE_PRELOAD_OPTIONS :: "string option"
  env_NODE_ENV :: "string option"
  env_TRACE_OKRA :: "string option"
  package_version :: string

section \<open>The sampler\<close>

datatype SamplingDecision = NOT_RECORD | RECORD | RECORD_AND_SAMPLED

record sampling_result =
  decision :: SamplingDecision
  result_attributes :: "(string \<times> string) list option"
  traceState :: "string option"

record span_request =
  ctx :: nat
  traceId :: string
  span_name :: string
  spanKind :: nat
  attributes :: "(string \<times> string) list option"
  links :: "nat list"

text \<open>
  The objects the three \<^verbatim>\<open>new\<close> expressions of \<^verbatim>\<open>_getSampler\<close> build:
  \<^verbatim>\<open>new base[kind]()\<close>, \<^verbatim>\<open>new base[root](ratio || 0)\<close> and
  \<^verbatim>\<open>new base[kind]({ root: ... })\<close>.
\<close>

datatype sdk_sampler =
    New_sampler string
  | New_ratio_sampler string rat
  | New_rooted_sampler string sdk_sampler

text \<open>The two closures \<^verbatim>\<open>_shouldSample\<close> can be bound to.\<close>

datatype should_sample = Always_true | Ignore_paths "string list"

fun run_shouldSample :: "should_sample \<Rightarrow> span_request \<Rightarrow> bool" where
  "run_shouldSample Always_true req = True"
| "run_shouldSample (Ignore_paths ignoreIncomingPaths) req =
     (case attributes req of
        None \<Rightarrow> True
      | Some attrs \<Rightarrow>
          (case map_of attrs ''http.originalUrl'' of
             None \<Rightarrow> True
           | Some originalUrl \<Rightarrow>
               (if originalUrl = [] then True
                else \<not> list_ex (\<lambda>p. prefix p originalUrl) ignoreIncomingPaths)))"

datatype filter_sampler = FilterSampler should_sample sdk_sampler

text \<open>
  \<^verbatim>\<open>shouldSample\<close> of the object \<^verbatim>\<open>_filterSampler\<close> returns. The parent sampler belongs
  to the SDK: \<open>sdk\<close> gives its decision, and the list records every request the parent
  was asked about.
\<close>

fun shouldSample ::
  "(sdk_sampler \<Rightarrow> span_request \<Rightarrow> sampling_result) \<Rightarrow> filter_sampler \<Rightarrow> span_request
     \<Rightarrow> span_request list \<Rightarrow> sampling_result \<times> span_request list" where
  "shouldSample sdk (FilterSampler f parent) req asked =
     (if \<not> run_shouldSample f req
      then (\<lparr>decision = NOT_RECORD, result_attributes = None, traceState = None\<rparr>, asked)
      else (sdk parent req, asked @ [req]))"

text \<open>
  \<^verbatim>\<open>instrumentations?.http?.config || {}\<close>, then its \<^verbatim>\<open>ignoreIncomingPaths\<close>: \<open>None\<close>
  stands for every value that is not an array.
\<close>

definition http_ignoreIncomingPaths :: "telemetry_cfg \<Rightarrow> string list option" where
  "http_ignoreIncomingPaths t =
     (case instrumentations t of
        None \<Rightarrow> None
      | Some is \<Rightarrow>
          (case map_of is ''http'' of
             None \<Rightarrow> None
           | Some http \<Rightarrow>
               (case config http of
                  None \<Rightarrow> None
                | Some c \<Rightarrow>
                    (case map_of c ''ignoreIncomingPaths'' of
                       Some (CArr ps) \<Rightarrow> Some ps
                     | _ \<Rightarrow> None))))"

definition select_shouldSample :: "string list option \<Rightarrow> should_sample" where
  "select_shouldSample ignoreIncomingPaths =
     (case ignoreIncomingPaths of
        None \<Rightarrow> Always_true
      | Some ps \<Rightarrow> (if ps = [] then Always_true else Ignore_paths ps))"

text \<open>
  A missing \<^verbatim>\<open>root\<close> is looked up, and printed, as the key \<^verbatim>\<open>undefined\<close>. In
  \<^verbatim>\<open>ratio || 0\<close> a missing ratio and the ratio 0 both give 0.
\<close>

definition undefined_or :: "string option \<Rightarrow> string" where
  "undefined_or s = (case s of None \<Rightarrow> ''undefined'' | Some x \<Rightarrow> x)"

definition getSampler :: "externals \<Rightarrow> telemetry_cfg \<Rightarrow> sampler_spec \<Rightarrow> js_error + filter_sampler" where
  "getSampler ext t s =
     (let should = select_shouldSample (http_ignoreIncomingPaths t);
          base = sdk_trace_base ext
      in case member base (kind s) of
           None \<Rightarrow> Inl (Error (''Unknown sampler '' @ kind s))
         | Some base_kind \<Rightarrow>
             (if kind s = ''ParentBasedSampler'' then
                (case member base (undefined_or (root s)) of
                   None \<Rightarrow> Inl (Error (''Unknown sampler '' @ undefined_or (root s)))
                 | Some base_root \<Rightarrow>
                     (if base_root \<noteq> Class then Inl (not_a_constructor ''base[root]'')
                      else if base_kind \<noteq> Class then Inl (not_a_constructor ''base[kind]'')
                      else Inr (FilterSampler should
                             (New_rooted_sampler (kind s)
                                (New_ratio_sampler (undefined_or (root s))
                                   (case ratio s of None \<Rightarrow> 0 | Some r \<Rightarrow> r))))))
              else if base_kind \<noteq> Class then Inl (not_a_constructor ''base[kind]'')
              else Inr (FilterSampler should (New_sampler (kind s)))))"

section \<open>Propagators and instrumentations\<close>

datatype propagator = Core_propagator string | Module_propagator string string settings

datatype composite_propagator = CompositePropagator "propagator list"

definition spread :: "settings option \<Rightarrow> settings" where
  "spread c = (case c of None \<Rightarrow> [] | Some s \<Rightarrow> s)"

definition unknown_in_module :: "string \<Rightarrow> string \<Rightarrow> string \<Rightarrow> js_error" where
  "unknown_in_module what cls m =
     Error (''Unknown '' @ what @ '' '' @ quoted cls @ '' in module '' @ quoted m)"

fun new_propagator :: "externals \<Rightarrow> propagator_entry \<Rightarrow> js_error + propagator" where
  "new_propagator ext (Builtin each) =
     (case member (otel_core ext) each of
        None \<Rightarrow> Inl (unknown_in_module ''propagator'' each ''@opentelemetry/core'')
      | Some Value \<Rightarrow> Inl (not_a_constructor ''core[each]'')
      | Some Class \<Rightarrow> Inr (Core_propagator each))"
| "new_propagator ext (Custom each) =
     (case load_module ext (mod_name each) of
        Inl e \<Rightarrow> Inl e
      | Inr m \<Rightarrow>
          (case member m (cls_name each) of
             None \<Rightarrow> Inl (unknown_in_module ''propagator'' (cls_name each) (mod_name each))
           | Some Value \<Rightarrow> Inl (not_a_constructor ''module[each.class]'')
           | Some Class \<Rightarrow>
               Inr (Module_propagator (mod_name each) (cls_name each) (spread (config each)))))"

fun push_propagators ::
  "externals \<Rightarrow> propagator_entry list \<Rightarrow> propagator list \<Rightarrow> js_error + propagator list" where
  "push_propagators ext [] acc = Inr acc"
| "push_propagators ext (each # rest) acc =
     (case new_propagator ext each of
        Inl e \<Rightarrow> Inl e
      | Inr p \<Rightarrow> push_propagators ext rest (acc @ [p]))"

definition getPropagator :: "externals \<Rightarrow> propagator_entry list \<Rightarrow> js_error + composite_propagator" where
  "getPropagator ext entries =
     (case push_propagators ext entries [] of
        Inl e \<Rightarrow> Inl e
      | Inr ps \<Rightarrow> Inr (CompositePropagator ps))"

datatype instrumentation = Instrumentation string string settings

definition new_instrumentation :: "externals \<Rightarrow> class_spec \<Rightarrow> js_error + instrumentation" where
  "new_instrumentation ext each =
     (case load_module ext (mod_name each) of
        Inl e \<Rightarrow> Inl e
      | Inr m \<Rightarrow>
          (case member m (cls_name each) of
             None \<Rightarrow> Inl (unknown_in_module ''instrumentation'' (cls_name each) (mod_name each))
           | Some Value \<Rightarrow> Inl (not_a_constructor ''module[each.class]'')
           | Some Class \<Rightarrow>
               Inr (Instrumentation (mod_name each) (cls_name each) (spread (config each)))))"

fun push_instrumentations ::
  "externals \<Rightarrow> class_spec list \<Rightarrow> instrumentation list \<Rightarrow> js_error + instrumentation list" where
  "push_instrumentations ext [] acc = Inr acc"
| "push_instrumentations ext (each # rest) acc =
     (case new_instrumentation ext each of
        Inl e \<Rightarrow> Inl e
      | Inr i \<Rightarrow> push_instrumentations ext rest (acc @ [i]))"

text \<open>\<^verbatim>\<open>Object.values\<close> of a missing \<^verbatim>\<open>instrumentations\<close> throws a TypeError.\<close>

definition getInstrumentations :: "externals \<Rightarrow> telemetry_cfg \<Rightarrow> js_error + instrumentation list" where
  "getInstrumentations ext t =
     (case instrumentations t of
        None \<Rightarrow> Inl (TypeError ''Cannot convert undefined or null to object'')
      | Some is \<Rightarrow> push_instrumentations ext (map snd is) [])"

section \<open>The exporter\<close>

datatype span_exporter = Exporter string string nat

datatype span_processor = BatchSpanProcessor span_exporter | SimpleSpanProcessor span_exporter

datatype log_entry = Log_warn string | Log_info string | Log_debug string span_exporter

text \<open>
  A tracer provider is either the \<^verbatim>\<open>NodeTracerProvider\<close> this file builds or one another
  module installed, of which only the span processors added here are known.
\<close>

datatype provider_kind = NodeTracerProvider resource filter_sampler | Other_provider string

record tracer_provider =
  provider_kind :: provider_kind
  processors :: "span_processor list"

record tracer =
  tracer_name :: string
  tracer_version :: string
  active :: bool

text \<open>
  The state of the process the code reads and writes: the object store, the delegate of
  the global proxy tracer provider, how many \<^verbatim>\<open>NodeTracerProvider\<close> objects were
  constructed, the global propagator, the instrumentations registered, the log,
  \<^verbatim>\<open>cds._telemetry.tracer\<close>, the number of \<^verbatim>\<open>served\<close> handlers and the CAP
  instrumentation modules that were run.
\<close>

record world =
  heap :: store
  delegate :: "tracer_provider option"
  providers_constructed :: nat
  global_propagator :: "composite_propagator option"
  registered_instrumentations :: "instrumentation list"
  log_lines :: "log_entry list"
  telemetry_tracer :: "tracer option"
  served_handlers :: nat
  cap_instrumentations :: "string list"

definition kind_matches :: "string \<Rightarrow> telemetry_cfg \<Rightarrow> bool" where
  "kind_matches pat t = sublist pat (telemetry_kind t)"

definition no_token_error :: "string \<Rightarrow> js_error" where
  "no_token_error tn =
     Error (''Neither '' @ quoted tn @ '' nor deprecated '' @ quoted ''rest_apitoken.token''
            @ '' found in Dynatrace credentials'')"

text \<open>\<^verbatim>\<open>dynatrace[token_name] || dynatrace.rest_apitoken?.token\<close>\<close>

definition dynatrace_token :: "store \<Rightarrow> jsval \<Rightarrow> string \<Rightarrow> jsval" where
  "dynatrace_token h dynatrace tn =
     (let named = get_prop h dynatrace tn
      in if truthy named then named
         else (let rest_apitoken = get_prop h dynatrace ''rest_apitoken''
               in if nullish rest_apitoken then Undefined
                  else get_prop h rest_apitoken ''token''))"

text \<open>
  The Dynatrace block of \<^verbatim>\<open>_getExporter\<close> on the object \<open>tracingConfig\<close>. It returns
  the error thrown, if any, and the store as it is at that moment.
\<close>

definition inject_dynatrace ::
  "externals \<Rightarrow> telemetry_cfg \<Rightarrow> nat \<Rightarrow> store \<Rightarrow> js_error option \<times> store" where
  "inject_dynatrace ext t tracingConfig h =
     (let dynatrace = getDynatraceCredentials ext
      in if truthy dynatrace \<and> kind_matches ''dynatrace'' t then
           (let h1 = assign_if_nullish h (Ref tracingConfig) ''url''
                       (Str (to_string (get_prop h dynatrace ''apiurl'') @ ''/v2/otlp/v1/traces''));
                h2 = assign_object_if_nullish h1 (Ref tracingConfig) ''headers'';
                token = dynatrace_token h2 dynatrace (token_name t)
            in if \<not> truthy token then (Some (no_token_error (token_name t)), h2)
               else (None,
                     assign_if_nullish h2 (get_prop h2 (Ref tracingConfig) ''headers'')
                       ''authorization'' (Str (''Api-Token '' @ to_string token))))
         else (None, h))"

definition inject_cloud_logging :: "externals \<Rightarrow> telemetry_cfg \<Rightarrow> nat \<Rightarrow> store \<Rightarrow> store" where
  "inject_cloud_logging ext t tracingConfig h =
     (let clc = getCloudLoggingCredentials ext
      in if truthy clc \<and> kind_matches ''cloud-logging'' t then
           (let h1 = assign_if_nullish h (Ref tracingConfig) ''url'' (get_prop h clc ''url'')
            in assign_if_nullish h1 (Ref tracingConfig) ''credentials''
                 (get_prop h1 clc ''credentials''))
         else h)"

definition exporter_module_of :: "externals \<Rightarrow> exporter_spec \<Rightarrow> js_error + js_module" where
  "exporter_module_of ext tracingExporter =
     (if exporter_module tracingExporter = ''@cap-js/telemetry'' then Inr (own_exporter ext)
      else load_module ext (exporter_module tracingExporter))"

text \<open>\<^verbatim>\<open>{ ...(tracingExporter.config || {}) }\<close>: the properties of the new object.\<close>

definition config_copy :: "store \<Rightarrow> nat option \<Rightarrow> obj" where
  "config_copy h c =
     (case c of None \<Rightarrow> empty_obj | Some a \<Rightarrow> (if a < length h then h ! a else empty_obj))"

text \<open>
  The class is looked up on line 81 and constructed on line 103, after both injections:
  a TypeError of \<^verbatim>\<open>new\<close> comes after the writes to the store.
\<close>

definition getExporter ::
  "externals \<Rightarrow> telemetry_cfg \<Rightarrow> exporter_spec \<Rightarrow> world \<Rightarrow> (js_error + span_exporter) \<times> world" where
  "getExporter ext t tracingExporter w =
     (case exporter_module_of ext tracingExporter of
        Inl e \<Rightarrow> (Inl e, w)
      | Inr tracingExporterModule \<Rightarrow>
          (case member tracingExporterModule (exporter_class tracingExporter) of
             None \<Rightarrow>
               (Inl (unknown_in_module ''tracing exporter'' (exporter_class tracingExporter)
                       (exporter_module tracingExporter)), w)
           | Some exporter_export \<Rightarrow>
             (case alloc (config_copy (heap w) (exporter_config tracingExporter)) (heap w) of
                (tracingConfig, h0) \<Rightarrow>
                  (case inject_dynatrace ext t tracingConfig h0 of
                     (Some e, h1) \<Rightarrow> (Inl e, w\<lparr>heap := h1\<rparr>)
                   | (None, h1) \<Rightarrow>
                       (let h2 = inject_cloud_logging ext t tracingConfig h1;
                            ex = Exporter (exporter_module tracingExporter)
                                   (exporter_class tracingExporter) tracingConfig
                        in if exporter_export \<noteq> Class
                           then (Inl (not_a_constructor
                                        ''tracingExporterModule[tracingExporter.class]''),
                                 w\<lparr>heap := h2\<rparr>)
                           else (Inr ex,
                                 w\<lparr>heap := h2,
                                   log_lines := log_lines w @
                                     (if LOG_debug ext
                                      then [Log_debug ''Using tracing exporter:'' ex]
                                      else [])\<rparr>))))))"

section \<open>The bootstrap function \<^verbatim>\<open>module.exports\<close>\<close>

text \<open>
  Lines 114 to 125: the provider. \<^verbatim>\<open>_getSampler()\<close> runs before the provider is
  constructed, \<^verbatim>\<open>_getPropagator()\<close> after that and before \<^verbatim>\<open>register\<close>, and
  \<^verbatim>\<open>_getInstrumentations()\<close> after \<^verbatim>\<open>register\<close>.
\<close>

definition already_initialized :: string where
  "already_initialized =
     ''TracerProvider already initialized by a different module. It will be used as is.''"

definition install_provider ::
  "externals \<Rightarrow> telemetry_cfg \<Rightarrow> tracing_cfg \<Rightarrow> resource \<Rightarrow> world \<Rightarrow> (js_error + unit) \<times> world" where
  "install_provider ext t tr res w =
     (case delegate w of
        None \<Rightarrow>
          (let dtmetadata = getDynatraceMetadata ext;
               res' = Merge (Merge (Resource []) res) dtmetadata
           in case getSampler ext t (sampler tr) of
                Inl e \<Rightarrow> (Inl e, w)
              | Inr s \<Rightarrow>
                  (let tracerProvider = \<lparr>provider_kind = NodeTracerProvider res' s, processors = []\<rparr>;
                       w1 = w\<lparr>providers_constructed := providers_constructed w + 1\<rparr>
                   in case getPropagator ext (propagators tr) of
                        Inl e \<Rightarrow> (Inl e, w1)
                      | Inr p \<Rightarrow>
                          (let w2 = w1\<lparr>delegate := Some tracerProvider,
                                       global_propagator := Some p\<rparr>
                           in case getInstrumentations ext t of
                                Inl e \<Rightarrow> (Inl e, w2)
                              | Inr is \<Rightarrow>
                                  (Inr (), w2\<lparr>registered_instrumentations :=
                                                registered_instrumentations w2 @ is\<rparr>))))
      | Some existing \<Rightarrow>
          (Inr (), w\<lparr>log_lines := log_lines w @
                       (if LOG_warn ext then [Log_warn already_initialized] else [])\<rparr>))"

definition env_truthy :: "string option \<Rightarrow> bool" where
  "env_truthy v = (case v of None \<Rightarrow> False | Some s \<Rightarrow> s \<noteq> [])"

definition oneagent_bypass :: "externals \<Rightarrow> telemetry_cfg \<Rightarrow> bool" where
  "oneagent_bypass ext t =
     (env_truthy (env_DT_NODE_PRELOAD_OPTIONS ext) \<and> kind_matches ''dynatrace'' t)"

definition new_spanProcessor :: "externals \<Rightarrow> span_exporter \<Rightarrow> span_processor" where
  "new_spanProcessor ext ex =
     (if env_NODE_ENV ext = Some ''production'' then BatchSpanProcessor ex
      else SimpleSpanProcessor ex)"

text \<open>
  \<^verbatim>\<open>tracerProvider\<close> of line 133 is the delegate in both branches of line 115: the
  provider just registered, or the one that was found.
\<close>

definition addSpanProcessor :: "span_processor \<Rightarrow> world \<Rightarrow> world" where
  "addSpanProcessor sp w =
     w\<lparr>delegate := map_option (\<lambda>p. p\<lparr>processors := processors p @ [sp]\<rparr>) (delegate w)\<rparr>"

text \<open>Lines 126 to 134: the exporter and the span processor, on the provider in use.\<close>

definition attach_processor ::
  "externals \<Rightarrow> telemetry_cfg \<Rightarrow> exporter_spec \<Rightarrow> world \<Rightarrow> (js_error + unit) \<times> world" where
  "attach_processor ext t tracingExporter w =
     (if oneagent_bypass ext t
      then (Inr (), w\<lparr>log_lines := log_lines w @
                        (if LOG_info ext
                         then [Log_info ''Dynatrace OneAgent detected, disabling tracing exporter'']
                         else [])\<rparr>)
      else (case getExporter ext t tracingExporter w of
              (Inl e, w1) \<Rightarrow> (Inl e, w1)
            | (Inr ex, w1) \<Rightarrow>
                (Inr (), addSpanProcessor (new_spanProcessor ext ex) w1)))"

text \<open>Lines 137 to 150: the tracer handle, the \<^verbatim>\<open>served\<close> handler, the CAP instrumentations.\<close>

definition expose_tracer :: "externals \<Rightarrow> world \<Rightarrow> world" where
  "expose_tracer ext w =
     w\<lparr>telemetry_tracer :=
         Some \<lparr>tracer_name = ''@cap-js/telemetry'', tracer_version = package_version ext,
               active = False\<rparr>,
       served_handlers := served_handlers w + 1,
       cap_instrumentations := cap_instrumentations w @ [''cds'']
         @ (if env_truthy (env_TRACE_OKRA ext) then [''okra''] else []) @ [''cloud_sdk'']\<rparr>"

definition module_exports ::
  "externals \<Rightarrow> telemetry_cfg \<Rightarrow> resource \<Rightarrow> world \<Rightarrow> (js_error + unit) \<times> world" where
  "module_exports ext t res w =
     (case tracing t of
        None \<Rightarrow> (Inr (), w)
      | Some tr \<Rightarrow>
          (case exporter tr of
             None \<Rightarrow> (Inr (), w)
           | Some tracingExporter \<Rightarrow>
               (case install_provider ext t tr res w of
                  (Inl e, w1) \<Rightarrow> (Inl e, w1)
                | (Inr u, w1) \<Rightarrow>
                    (case attach_processor ext t tracingExporter w1 of
                       (Inl e, w2) \<Rightarrow> (Inl e, w2)
                     | (Inr u', w2) \<Rightarrow> (Inr (), expose_tracer ext w2)))))"

section \<open>Notions used in the statements\<close>

text \<open>
  A value is a valid reference of a store if it is a primitive or the address of an object
  that exists: JavaScript has no dangling references.
\<close>

definition valid_ref :: "store \<Rightarrow> jsval \<Rightarrow> bool" where
  "valid_ref h v = (case v of Ref a \<Rightarrow> a < length h | _ \<Rightarrow> True)"

text \<open>\<open>extends h h'\<close>: every object of \<open>h\<close> is the same in \<open>h'\<close>.\<close>

definition extends :: "store \<Rightarrow> store \<Rightarrow> bool" where
  "extends h h' = (length h \<le> length h' \<and> (\<forall>a < length h. h' ! a = h ! a))"

text \<open>\<open>keeps_set_values h h'\<close>: every property that reads as a value in \<open>h\<close> reads the same in \<open>h'\<close>.\<close>

definition keeps_set_values :: "store \<Rightarrow> store \<Rightarrow> bool" where
  "keeps_set_values h h' =
     (length h \<le> length h' \<and>
      (\<forall>a < length h. \<forall>k. \<not> nullish (get_prop h (Ref a) k) \<longrightarrow>
           get_prop h' (Ref a) k = get_prop h (Ref a) k))"

text \<open>
  The condition under which the filter of the sampler denies a request: an ignore list
  that is a non-empty array, an \<^verbatim>\<open>http.originalUrl\<close> attribute that is a non-empty
  string, and a prefix of it in the list.
\<close>

definition path_ignored :: "string list option \<Rightarrow> span_request \<Rightarrow> bool" where
  "path_ignored ignoreIncomingPaths req =
     (case ignoreIncomingPaths of
        None \<Rightarrow> False
      | Some ps \<Rightarrow>
          (case attributes req of
             None \<Rightarrow> False
           | Some attrs \<Rightarrow>
               (case map_of attrs ''http.originalUrl'' of
                  None \<Rightarrow> False
                | Some u \<Rightarrow> u \<noteq> [] \<and> list_ex (\<lambda>p. prefix p u) ps)))"

text \<open>
  Modelled from the spec: \<^verbatim>\<open>CompositePropagator\<close> of \<^verbatim>\<open>@opentelemetry/core\<close> is not part
  of this repository. By the spec the order of the list decides which propagator's fields
  win when several write the same key, the last applied winning: the composite lets its
  propagators write to the carrier one after the other, in the order of its list.
  \<open>write\<close> is what a single propagator writes.
\<close>

type_synonym carrier = "string \<Rightarrow> string option"

fun composite_inject ::
  "(propagator \<Rightarrow> carrier \<Rightarrow> carrier) \<Rightarrow> composite_propagator \<Rightarrow> carrier \<Rightarrow> carrier" where
  "composite_inject write (CompositePropagator ps) c = fold write ps c"

text \<open>The span processors on the provider in use.\<close>

definition attached :: "world \<Rightarrow> span_processor list" where
  "attached w = (case delegate w of None \<Rightarrow> [] | Some p \<Rightarrow> processors p)"

text \<open>A result that is an \<^verbatim>\<open>Error\<close> whose message contains the given text.\<close>

definition fails_naming :: "js_error + 'a \<Rightarrow> string \<Rightarrow> bool" where
  "fails_naming r s = (case r of Inl (Error msg) \<Rightarrow> sublist s msg | _ \<Rightarrow> False)"

section \<open>A worked configuration\<close>

text \<open>
  The inputs the closed theorems below are evaluated at: an SDK with its usual samplers
  and propagators, three loadable modules, and a store with Dynatrace credentials with a
  token (object 0) and without one (object 3), an exporter config whose \<^verbatim>\<open>headers\<close> is
  object 2 (object 1), one with its own \<^verbatim>\<open>url\<close> and \<^verbatim>\<open>headers.authorization\<close> (objects
  4 and 5), and Cloud Logging credentials (objects 6 and 7).
\<close>

definition example_ext :: externals where
  "example_ext =
     \<lparr>sdk_trace_base = [(''AlwaysOnSampler'', Class), (''AlwaysOffSampler'', Class),
                        (''ParentBasedSampler'', Class), (''TraceIdRatioBasedSampler'', Class),
                        (''SamplingDecision'', Value)],
      otel_core = [(''W3CTraceContextPropagator'', Class), (''W3CBaggagePropagator'', Class)],
      own_exporter = [(''ConsoleSpanExporter'', Class)],
      load_module = (\<lambda>m. if m = ''@opentelemetry/instrumentation-http''
                          then Inr [(''HttpInstrumentation'', Class)]
                          else if m = ''@opentelemetry/exporter-trace-otlp-proto''
                          then Inr [(''OTLPTraceExporter'', Class)]
                          else if m = ''@opentelemetry/propagator-b3''
                          then Inr [(''B3Propagator'', Class)]
                          else Inl (Error (''Cannot find module '' @ m))),
      getDynatraceCredentials = Undefined,
      getCloudLoggingCredentials = Undefined,
      getDynatraceMetadata = Resource [],
      LOG_warn = True, LOG_info = True, LOG_debug = False,
      env_DT_NODE_PRELOAD_OPTIONS = None,
      env_NODE_ENV = None,
      env_TRACE_OKRA = None,
      package_version = ''1.0.0''\<rparr>"

definition example_heap :: store where
  "example_heap =
     [empty_obj(''apiurl'' := Str ''https://abc.live.dynatrace.com/api'',
                ''ingest_apitoken'' := Str ''dt0c01.XYZ''),
      empty_obj(''headers'' := Ref 2),
      empty_obj(''x-tenant'' := Str ''t1''),
      empty_obj(''apiurl'' := Str ''https://abc.live.dynatrace.com/api''),
      empty_obj(''url'' := Str ''http://localhost:4318/v1/traces'', ''headers'' := Ref 5),
      empty_obj(''authorization'' := Str ''Bearer mine''),
      empty_obj(''url'' := Str ''https://clc.example/traces'', ''credentials'' := Ref 7),
      empty_obj]"

text \<open>
  Three more objects: credentials with only the legacy token (objects 8 and 9),
  credentials with an empty token under the configured name (object 10), and an exporter
  config whose \<^verbatim>\<open>headers\<close> is \<^verbatim>\<open>false\<close> (object 11).
\<close>

definition legacy_heap :: store where
  "legacy_heap = example_heap @
     [empty_obj(''apiurl'' := Str ''https://abc.live.dynatrace.com/api'',
                ''rest_apitoken'' := Ref 9),
      empty_obj(''token'' := Str ''dt0c01.OLD''),
      empty_obj(''apiurl'' := Str ''https://abc.live.dynatrace.com/api'',
                ''ingest_apitoken'' := Str ''''),
      empty_obj(''headers'' := Bool False)]"

definition example_world :: world where
  "example_world =
     \<lparr>heap = example_heap, delegate = None, providers_constructed = 0,
      global_propagator = None, registered_instrumentations = [], log_lines = [],
      telemetry_tracer = None, served_handlers = 0, cap_instrumentations = []\<rparr>"

definition other_provider :: tracer_provider where
  "other_provider = \<lparr>provider_kind = Other_provider ''another module'', processors = []\<rparr>"

definition legacy_world :: world where
  "legacy_world = example_world\<lparr>heap := legacy_heap\<rparr>"

text \<open>The same process after another module has installed its tracer provider.\<close>

definition provided_world :: world where
  "provided_world = example_world\<lparr>delegate := Some other_provider\<rparr>"

definition otlp_exporter :: "nat option \<Rightarrow> exporter_spec" where
  "otlp_exporter c =
     \<lparr>exporter_module = ''@opentelemetry/exporter-trace-otlp-proto'',
      exporter_class = ''OTLPTraceExporter'', exporter_config = c\<rparr>"

definition example_sampler :: sampler_spec where
  "example_sampler = \<lparr>kind = ''ParentBasedSampler'', root = Some ''AlwaysOnSampler'', ratio = None\<rparr>"

definition b3_propagator :: class_spec where
  "b3_propagator = \<lparr>mod_name = ''@opentelemetry/propagator-b3'', cls_name = ''B3Propagator'',
                    config = None\<rparr>"

definition example_tracing :: "nat option \<Rightarrow> tracing_cfg" where
  "example_tracing c =
     \<lparr>sampler = example_sampler,
      propagators = [Builtin ''W3CTraceContextPropagator'', Custom b3_propagator],
      exporter = Some (otlp_exporter c)\<rparr>"

definition http_instrumentation :: "string list \<Rightarrow> class_spec" where
  "http_instrumentation ps =
     \<lparr>mod_name = ''@opentelemetry/instrumentation-http'', cls_name = ''HttpInstrumentation'',
      config = Some [(''ignoreIncomingPaths'', CArr ps)]\<rparr>"

definition example_cfg :: "string \<Rightarrow> nat option \<Rightarrow> telemetry_cfg" where
  "example_cfg k c =
     \<lparr>telemetry_kind = k, token_name = ''ingest_apitoken'',
      instrumentations = Some [(''http'', http_instrumentation [''/health''])],
      tracing = Some (example_tracing c)\<rparr>"

definition request :: "string \<Rightarrow> span_request" where
  "request url = \<lparr>ctx = 0, traceId = ''4bf92f3577b34da6'', span_name = ''GET'', spanKind = 1,
                  attributes = Some [(''http.originalUrl'', url)], links = []\<rparr>"

text \<open>
  The decisions of the SDK's samplers in the examples: \<^verbatim>\<open>AlwaysOffSampler\<close> does not
  record, the others record and sample.
\<close>

definition recorded :: sampling_result where
  "recorded = \<lparr>decision = RECORD_AND_SAMPLED, result_attributes = None, traceState = None\<rparr>"

definition not_recorded :: sampling_result where
  "not_recorded = \<lparr>decision = NOT_RECORD, result_attributes = None, traceState = None\<rparr>"

fun example_sdk :: "sdk_sampler \<Rightarrow> span_request \<Rightarrow> sampling_result" where
  "example_sdk (New_sampler k) req = (if k = ''AlwaysOffSampler'' then not_recorded else recorded)"
| "example_sdk s req = recorded"

text \<open>Writers for two propagators that both set the header \<^verbatim>\<open>traceparent\<close>.\<close>

fun example_write :: "propagator \<Rightarrow> carrier \<Rightarrow> carrier" where
  "example_write (Core_propagator n) c = c(''traceparent'' \<mapsto> ''w3c'')"
| "example_write (Module_propagator m n cfg) c = c(''traceparent'' \<mapsto> ''b3'', ''b3'' \<mapsto> ''1'')"

section \<open>Stores\<close>

lemma inherited_fixed [simp]:
  "inherited ''url'' = Undefined" "inherited ''headers'' = Undefined"
  "inherited ''credentials'' = Undefined" "inherited ''authorization'' = Undefined"
  "inherited ''apiurl'' = Undefined" "inherited ''rest_apitoken'' = Undefined"
  "inherited ''token'' = Undefined"
  by (simp_all add: inherited_def object_prototype_def)

lemma own_or_inherited_set [simp]: "x \<noteq> Undefined \<Longrightarrow> own_or_inherited x k = x"
  by (cases x) (simp_all add: own_or_inherited_def)

lemma own_or_inherited_unset [simp]: "own_or_inherited Undefined k = inherited k"
  by (simp add: own_or_inherited_def)

lemma length_set_prop [simp]: "length (set_prop h v k x) = length h"
  by (simp add: set_prop_def split: jsval.splits)

lemma length_assign_if_nullish [simp]: "length (assign_if_nullish h v k x) = length h"
  by (simp add: assign_if_nullish_def)

lemma get_set_prop:
  "get_prop (set_prop h (Ref a) k x) (Ref b) k' =
     (if a = b \<and> a < length h \<and> k = k' then own_or_inherited x k else get_prop h (Ref b) k')"
  by (auto simp: get_prop_def set_prop_def nth_list_update)

lemma get_prop_primitive [simp]:
  "get_prop h Undefined k = Undefined" "get_prop h Null k = Undefined"
  "get_prop h (Bool b) k = inherited k" "get_prop h (Str s) k = inherited k"
  "get_prop h (Native n) k = inherited k"
  by (simp_all add: get_prop_def)

lemma set_prop_primitive [simp]:
  "set_prop h Undefined k x = h" "set_prop h Null k x = h"
  "set_prop h (Bool b) k x = h" "set_prop h (Str s) k x = h" "set_prop h (Native n) k x = h"
  by (simp_all add: set_prop_def)

lemma extends_refl [simp]: "extends h h"
  by (simp add: extends_def)

lemma extends_trans: "extends h h' \<Longrightarrow> extends h' h'' \<Longrightarrow> extends h h''"
  by (auto simp: extends_def)

lemma extends_append [simp]: "extends h (h @ xs)"
  by (simp add: extends_def nth_append)

lemma extends_set_prop_new:
  "extends h h' \<Longrightarrow> length h \<le> c \<Longrightarrow> extends h (set_prop h' (Ref c) k x)"
  by (auto simp: extends_def set_prop_def)

lemma extends_assign_new:
  "extends h h' \<Longrightarrow> length h \<le> c \<Longrightarrow> extends h (assign_if_nullish h' (Ref c) k x)"
  by (simp add: assign_if_nullish_def extends_set_prop_new)

lemma extends_get_prop:
  "extends h h' \<Longrightarrow> valid_ref h v \<Longrightarrow> get_prop h' v k = get_prop h v k"
  by (cases v) (auto simp: extends_def valid_ref_def get_prop_def)

lemma extends_dynatrace_token:
  assumes "extends h h'" "valid_ref h d" "valid_ref h (get_prop h d ''rest_apitoken'')"
  shows "dynatrace_token h' d tn = dynatrace_token h d tn"
  using assms by (simp add: dynatrace_token_def extends_get_prop Let_def)

lemma keeps_refl [simp]: "keeps_set_values h h"
  by (simp add: keeps_set_values_def)

lemma keeps_trans:
  assumes "keeps_set_values h h'" "keeps_set_values h' h''"
  shows "keeps_set_values h h''"
  unfolding keeps_set_values_def
proof (intro conjI allI impI)
  show "length h \<le> length h''"
    using assms by (simp add: keeps_set_values_def)
next
  fix a k
  assume a: "a < length h" and n: "\<not> nullish (get_prop h (Ref a) k)"
  have 1: "get_prop h' (Ref a) k = get_prop h (Ref a) k"
    using assms(1) a n by (simp add: keeps_set_values_def)
  have "a < length h'" using assms(1) a by (simp add: keeps_set_values_def)
  then have "get_prop h'' (Ref a) k = get_prop h' (Ref a) k"
    using assms(2) n 1 by (simp add: keeps_set_values_def)
  then show "get_prop h'' (Ref a) k = get_prop h (Ref a) k" using 1 by simp
qed

lemma get_prop_append_new [simp]:
  "get_prop (h @ [ob]) (Ref (length h)) k = own_or_inherited (ob k) k"
  by (simp add: get_prop_def)

lemma get_prop_append_old: "a < length h \<Longrightarrow> get_prop (h @ xs) (Ref a) k = get_prop h (Ref a) k"
  by (simp add: get_prop_def nth_append)

lemma keeps_append [simp]: "keeps_set_values h (h @ xs)"
  by (simp add: keeps_set_values_def get_prop_append_old)

lemma keeps_assign [simp]: "keeps_set_values h (assign_if_nullish h v k x)"
  by (cases v) (auto simp: keeps_set_values_def assign_if_nullish_def get_set_prop)

lemma get_assign_other:
  "\<not> (v = v' \<and> k = k') \<Longrightarrow> get_prop (assign_if_nullish h v' k' x) v k = get_prop h v k"
  by (cases v; cases v') (auto simp: assign_if_nullish_def get_set_prop)

lemma get_assign_set:
  "\<not> nullish (get_prop h v k) \<Longrightarrow> get_prop (assign_if_nullish h v' k' x) v k = get_prop h v k"
  by (cases v; cases v') (auto simp: assign_if_nullish_def get_set_prop)

lemma get_assign_same:
  "a < length h \<Longrightarrow> nullish (get_prop h (Ref a) k) \<Longrightarrow> x \<noteq> Undefined \<Longrightarrow>
     get_prop (assign_if_nullish h (Ref a) k x) (Ref a) k = x"
  by (simp add: assign_if_nullish_def get_set_prop)

lemma length_assign_object: "length h \<le> length (assign_object_if_nullish h v k)"
  by (simp add: assign_object_if_nullish_def alloc_def)

lemma extends_assign_object_new:
  "extends h h' \<Longrightarrow> length h \<le> c \<Longrightarrow> extends h (assign_object_if_nullish h' (Ref c) k)"
proof -
  assume e: "extends h h'" and c: "length h \<le> c"
  have "extends h (h' @ [empty_obj])"
    by (rule extends_trans[OF e extends_append])
  then have "extends h (set_prop (h' @ [empty_obj]) (Ref c) k (Ref (length h')))"
    using c by (rule extends_set_prop_new)
  then show ?thesis using e by (simp add: assign_object_if_nullish_def alloc_def)
qed

lemma get_assign_object_other:
  "a < length h \<Longrightarrow> \<not> (v = Ref a \<and> k = k') \<Longrightarrow>
     get_prop (assign_object_if_nullish h v k) (Ref a) k' = get_prop h (Ref a) k'"
  by (cases v) (auto simp: assign_object_if_nullish_def alloc_def get_set_prop get_prop_append_old)

lemma get_assign_object_set:
  "\<not> nullish (get_prop h v k) \<Longrightarrow> assign_object_if_nullish h v k = h"
  by (simp add: assign_object_if_nullish_def)

lemma get_assign_object_new:
  assumes "c < length h" "nullish (get_prop h (Ref c) k)"
  shows "get_prop (assign_object_if_nullish h (Ref c) k) (Ref c) k = Ref (length h)"
    and "get_prop (assign_object_if_nullish h (Ref c) k) (Ref (length h)) k' = inherited k'"
    and "length (assign_object_if_nullish h (Ref c) k) = Suc (length h)"
  using assms
  by (simp_all add: assign_object_if_nullish_def alloc_def get_set_prop empty_obj_def)

lemma keeps_assign_object [simp]: "keeps_set_values h (assign_object_if_nullish h v k)"
  by (cases v) (auto simp: keeps_set_values_def assign_object_if_nullish_def alloc_def
      get_set_prop get_prop_append_old)

section \<open>Exporter assembly\<close>

lemma cloud_logging_other:
  "\<not> (v = Ref c \<and> (k = ''url'' \<or> k = ''credentials'')) \<Longrightarrow>
     get_prop (inject_cloud_logging ext t c h) v k = get_prop h v k"
  by (auto simp: inject_cloud_logging_def Let_def get_assign_other)

lemma cloud_logging_set:
  "\<not> nullish (get_prop h v k) \<Longrightarrow> get_prop (inject_cloud_logging ext t c h) v k = get_prop h v k"
  by (simp add: inject_cloud_logging_def Let_def get_assign_set)

lemma length_cloud_logging [simp]: "length (inject_cloud_logging ext t c h) = length h"
  by (simp add: inject_cloud_logging_def Let_def)

lemma keeps_cloud_logging: "keeps_set_values h (inject_cloud_logging ext t c h)"
  unfolding inject_cloud_logging_def Let_def
  by (auto intro: keeps_trans[OF keeps_assign keeps_assign])

lemma keeps_dynatrace:
  assumes "inject_dynatrace ext t c h = (r, h')"
  shows "keeps_set_values h h'"
proof -
  define h1 where "h1 = assign_if_nullish h (Ref c) ''url''
     (Str (to_string (get_prop h (getDynatraceCredentials ext) ''apiurl'') @ ''/v2/otlp/v1/traces''))"
  define h2 where "h2 = assign_object_if_nullish h1 (Ref c) ''headers''"
  have k2: "keeps_set_values h h2"
    unfolding h1_def h2_def by (rule keeps_trans[OF keeps_assign keeps_assign_object])
  have "h' = h \<or> h' = h2 \<or> (\<exists>v x. h' = assign_if_nullish h2 v ''authorization'' x)"
    using assms unfolding inject_dynatrace_def Let_def h1_def h2_def
    by (auto split: if_splits)
  then show ?thesis using k2 keeps_trans[OF k2 keeps_assign] by auto
qed

lemma getExporter_Inr:
  assumes "getExporter ext t x w = (Inr ex, w')"
  obtains m h1 where "exporter_module_of ext x = Inr m" "member m (exporter_class x) = Some Class"
    "inject_dynatrace ext t (length (heap w)) (heap w @ [config_copy (heap w) (exporter_config x)])
       = (None, h1)"
    "ex = Exporter (exporter_module x) (exporter_class x) (length (heap w))"
    "heap w' = inject_cloud_logging ext t (length (heap w)) h1"
    "delegate w' = delegate w" "providers_constructed w' = providers_constructed w"
  using assms unfolding getExporter_def alloc_def Let_def
  by (auto split: sum.splits if_splits prod.splits option.splits)

lemma keeps_getExporter:
  assumes "getExporter ext t x w = (Inr ex, w')"
  shows "keeps_set_values (heap w @ [config_copy (heap w) (exporter_config x)]) (heap w')"
proof -
  from assms obtain h1 where
    d: "inject_dynatrace ext t (length (heap w)) (heap w @ [config_copy (heap w) (exporter_config x)])
       = (None, h1)"
    and h': "heap w' = inject_cloud_logging ext t (length (heap w)) h1"
    by (rule getExporter_Inr)
  show ?thesis
    unfolding h' by (rule keeps_trans[OF keeps_dynatrace[OF d] keeps_cloud_logging])
qed

text \<open>The Dynatrace block reads the credentials as they were before the copy was made.\<close>

lemma inject_dynatrace_on_copy:
  assumes "truthy (getDynatraceCredentials ext)" "kind_matches ''dynatrace'' t"
    and "valid_ref h (getDynatraceCredentials ext)"
    and "valid_ref h (get_prop h (getDynatraceCredentials ext) ''rest_apitoken'')"
  shows "inject_dynatrace ext t (length h) (h @ [cfg]) =
     (let h1 = assign_if_nullish (h @ [cfg]) (Ref (length h)) ''url''
                 (Str (to_string (get_prop h (getDynatraceCredentials ext) ''apiurl'')
                       @ ''/v2/otlp/v1/traces''));
          h2 = assign_object_if_nullish h1 (Ref (length h)) ''headers'';
          token = dynatrace_token h (getDynatraceCredentials ext) (token_name t)
      in if \<not> truthy token then (Some (no_token_error (token_name t)), h2)
         else (None, assign_if_nullish h2 (get_prop h2 (Ref (length h)) ''headers'')
                       ''authorization'' (Str (''Api-Token '' @ to_string token))))"
proof -
  let ?d = "getDynatraceCredentials ext"
  have url: "get_prop (h @ [cfg]) ?d ''apiurl'' = get_prop h ?d ''apiurl''"
    by (rule extends_get_prop[OF extends_append assms(3)])
  have "extends h (assign_object_if_nullish (assign_if_nullish (h @ [cfg]) (Ref (length h)) ''url'' u)
           (Ref (length h)) ''headers'')" for u
    by (intro extends_assign_object_new extends_assign_new extends_append order_refl)
  then have tok: "dynatrace_token (assign_object_if_nullish
           (assign_if_nullish (h @ [cfg]) (Ref (length h)) ''url'' u) (Ref (length h)) ''headers'')
           ?d tn = dynatrace_token h ?d tn" for u tn
    by (rule extends_dynatrace_token[OF _ assms(3,4)])
  show ?thesis
    unfolding inject_dynatrace_def Let_def url tok using assms(1,2) by simp
qed

section \<open>Propagators, instrumentations and error messages\<close>

lemma push_propagators_ok:
  "list_all2 (\<lambda>e p. new_propagator ext e = Inr p) es ps \<Longrightarrow>
     push_propagators ext es acc = Inr (acc @ ps)"
proof (induction es arbitrary: ps acc)
  case Nil
  then show ?case by simp
next
  case (Cons e es)
  then obtain p ps' where ps: "ps = p # ps'" and p: "new_propagator ext e = Inr p"
    and rest: "list_all2 (\<lambda>e p. new_propagator ext e = Inr p) es ps'"
    by (auto simp: list_all2_Cons1)
  show ?case using Cons.IH[OF rest, of "acc @ [p]"] by (simp add: p ps)
qed

lemma push_propagators_sound:
  "push_propagators ext es acc = Inr r \<Longrightarrow>
     \<exists>ps. r = acc @ ps \<and> list_all2 (\<lambda>e p. new_propagator ext e = Inr p) es ps"
proof (induction es arbitrary: acc)
  case Nil
  then show ?case by simp
next
  case (Cons e es)
  from Cons.prems obtain p where p: "new_propagator ext e = Inr p"
    and r: "push_propagators ext es (acc @ [p]) = Inr r"
    by (auto split: sum.splits)
  from Cons.IH[OF r] obtain ps where "r = (acc @ [p]) @ ps"
    and "list_all2 (\<lambda>e p. new_propagator ext e = Inr p) es ps" by blast
  then show ?case using p by (intro exI[of _ "p # ps"]) simp
qed

lemma push_propagators_fail:
  "list_all2 (\<lambda>e p. new_propagator ext e = Inr p) pre ps \<Longrightarrow> new_propagator ext e = Inl err \<Longrightarrow>
     push_propagators ext (pre @ e # post) acc = Inl err"
proof (induction pre arbitrary: ps acc)
  case Nil
  then show ?case by simp
next
  case (Cons x pre)
  then obtain p ps' where p: "new_propagator ext x = Inr p"
    and rest: "list_all2 (\<lambda>e p. new_propagator ext e = Inr p) pre ps'"
    by (auto simp: list_all2_Cons1)
  show ?case using Cons.IH[OF rest Cons.prems(2), of "acc @ [p]"] by (simp add: p)
qed

lemma getPropagator_iff:
  "getPropagator ext es = Inr (CompositePropagator ps)
     \<longleftrightarrow> list_all2 (\<lambda>e p. new_propagator ext e = Inr p) es ps"
  using push_propagators_ok[of ext es ps "[]"] push_propagators_sound[of ext es "[]"]
  by (auto simp: getPropagator_def split: sum.splits)

lemma push_instrumentations_fail:
  "list_all2 (\<lambda>e i. new_instrumentation ext e = Inr i) pre is \<Longrightarrow> new_instrumentation ext e = Inl err \<Longrightarrow>
     push_instrumentations ext (pre @ e # post) acc = Inl err"
proof (induction pre arbitrary: "is" acc)
  case Nil
  then show ?case by simp
next
  case (Cons x pre)
  then obtain i is' where i: "new_instrumentation ext x = Inr i"
    and rest: "list_all2 (\<lambda>e i. new_instrumentation ext e = Inr i) pre is'"
    by (auto simp: list_all2_Cons1)
  show ?case using Cons.IH[OF rest Cons.prems(2), of "acc @ [i]"] by (simp add: i)
qed

lemma sublist_quoted: "sublist s (a @ quoted s @ b)"
proof -
  have "a @ quoted s @ b = (a @ [CHR 0x22]) @ s @ (CHR 0x22 # b)" by (simp add: quoted_def)
  then show ?thesis unfolding sublist_def by blast
qed

lemma unknown_in_module_names:
  "unknown_in_module what c m = Error msg \<Longrightarrow> sublist c msg \<and> sublist m msg"
proof -
  assume a: "unknown_in_module what c m = Error msg"
  then have m: "msg = (''Unknown '' @ what @ '' '') @ quoted c @ ('' in module '' @ quoted m)"
    by (simp add: unknown_in_module_def)
  have m2: "msg = (''Unknown '' @ what @ '' '' @ quoted c @ '' in module '') @ quoted m @ []"
    using m by simp
  show ?thesis using sublist_quoted[of c "''Unknown '' @ what @ '' ''" "'' in module '' @ quoted m"]
     sublist_quoted[of m "''Unknown '' @ what @ '' '' @ quoted c @ '' in module ''" "[]"] m m2
    by metis
qed

lemma sublist_no_token_error:
  "no_token_error tn = Error msg \<Longrightarrow> sublist tn msg \<and> sublist ''rest_apitoken.token'' msg"
proof -
  assume "no_token_error tn = Error msg"
  then have m: "msg = ''Neither '' @ quoted tn @ ('' nor deprecated '' @ quoted ''rest_apitoken.token''
            @ '' found in Dynatrace credentials'')"
    and m2: "msg = (''Neither '' @ quoted tn @ '' nor deprecated '') @ quoted ''rest_apitoken.token''
            @ '' found in Dynatrace credentials''"
    by (simp_all add: no_token_error_def)
  show ?thesis
    using sublist_quoted[of tn "''Neither ''"] sublist_quoted[of "''rest_apitoken.token''"] m m2
    by metis
qed

lemma member_unknown:
  "n \<notin> fst ` set m \<Longrightarrow> n \<notin> fst ` set object_prototype \<Longrightarrow> member m n = None"
  by (simp add: member_def map_of_eq_None_iff[THEN iffD2])

lemma member_own: "map_of m n = Some e \<Longrightarrow> member m n = Some e"
  by (simp add: member_def)

lemma getExporter_dynatrace:
  assumes "truthy (getDynatraceCredentials ext)" "kind_matches ''dynatrace'' t"
    and "valid_ref (heap w) (getDynatraceCredentials ext)"
    and "valid_ref (heap w) (get_prop (heap w) (getDynatraceCredentials ext) ''rest_apitoken'')"
    and "exporter_module_of ext x = Inr m" "member m (exporter_class x) = Some e"
  shows "getExporter ext t x w =
     (let h = heap w; c = length h;
          h1 = assign_if_nullish (h @ [config_copy h (exporter_config x)]) (Ref c) ''url''
                 (Str (to_string (get_prop h (getDynatraceCredentials ext) ''apiurl'')
                       @ ''/v2/otlp/v1/traces''));
          h2 = assign_object_if_nullish h1 (Ref c) ''headers'';
          token = dynatrace_token h (getDynatraceCredentials ext) (token_name t);
          h4 = inject_cloud_logging ext t c
                   (assign_if_nullish h2 (get_prop h2 (Ref c) ''headers'')
                       ''authorization'' (Str (''Api-Token '' @ to_string token)))
      in if \<not> truthy token then (Inl (no_token_error (token_name t)), w\<lparr>heap := h2\<rparr>)
         else if e \<noteq> Class
         then (Inl (not_a_constructor ''tracingExporterModule[tracingExporter.class]''),
               w\<lparr>heap := h4\<rparr>)
         else (Inr (Exporter (exporter_module x) (exporter_class x) c),
               w\<lparr>heap := h4,
                 log_lines := log_lines w @
                   (if LOG_debug ext
                    then [Log_debug ''Using tracing exporter:''
                            (Exporter (exporter_module x) (exporter_class x) c)]
                    else [])\<rparr>))"
  unfolding getExporter_def alloc_def
  by (simp add: assms(5,6) inject_dynatrace_on_copy[OF assms(1-4)] Let_def)

section \<open>The bootstrap function, step by step\<close>

lemma install_provider_existing:
  "delegate w = Some p \<Longrightarrow>
     install_provider ext t tr res w =
       (Inr (), w\<lparr>log_lines := log_lines w @
                    (if LOG_warn ext then [Log_warn already_initialized] else [])\<rparr>)"
  by (simp add: install_provider_def)

lemma install_provider_Inr:
  assumes "install_provider ext t tr res w = (Inr u, w1)"
  shows "heap w1 = heap w"
    and "delegate w1 \<noteq> None"
    and "attached w1 = attached w"
    and "providers_constructed w1 =
           providers_constructed w + (if delegate w = None then 1 else 0)"
    and "\<forall>p. delegate w = Some p \<longrightarrow> delegate w1 = Some p"
  using assms unfolding install_provider_def Let_def attached_def
  by (auto split: option.splits sum.splits)

lemma getExporter_frame:
  assumes "getExporter ext t x w = (r, w')"
  shows "delegate w' = delegate w" "providers_constructed w' = providers_constructed w"
    "global_propagator w' = global_propagator w"
    "registered_instrumentations w' = registered_instrumentations w"
  using assms unfolding getExporter_def alloc_def Let_def
  by (auto split: sum.splits if_splits prod.splits option.splits)

lemma attach_processor_frame:
  assumes "attach_processor ext t x w = (r, w')"
  shows "providers_constructed w' = providers_constructed w"
    "global_propagator w' = global_propagator w"
    "registered_instrumentations w' = registered_instrumentations w"
    "\<exists>sps. length sps \<le> 1 \<and>
       delegate w' = map_option (\<lambda>p. p\<lparr>processors := processors p @ sps\<rparr>) (delegate w)"
proof -
  show "providers_constructed w' = providers_constructed w"
    "global_propagator w' = global_propagator w"
    "registered_instrumentations w' = registered_instrumentations w"
    using assms unfolding attach_processor_def addSpanProcessor_def
    by (auto split: if_splits prod.splits sum.splits dest: getExporter_frame)
  have id: "delegate w = map_option (\<lambda>p. p\<lparr>processors := processors p @ []\<rparr>) (delegate w)"
    by (cases "delegate w") simp_all
  show "\<exists>sps. length sps \<le> 1 \<and>
       delegate w' = map_option (\<lambda>p. p\<lparr>processors := processors p @ sps\<rparr>) (delegate w)"
  proof (cases "oneagent_bypass ext t")
    case True
    then have "delegate w' = delegate w" using assms by (auto simp: attach_processor_def)
    then show ?thesis using id by (intro exI[of _ "[]"]) simp
  next
    case False
    obtain r1 w1 where g: "getExporter ext t x w = (r1, w1)" by (cases "getExporter ext t x w")
    show ?thesis
    proof (cases r1)
      case (Inl e)
      then have "delegate w' = delegate w"
        using assms False g getExporter_frame(1)[OF g] by (auto simp: attach_processor_def)
      then show ?thesis using id by (intro exI[of _ "[]"]) simp
    next
      case (Inr ex)
      then have "delegate w' = map_option (\<lambda>p. p\<lparr>processors := processors p @ [new_spanProcessor ext ex]\<rparr>) (delegate w)"
        using assms False g getExporter_frame(1)[OF g]
        by (auto simp: attach_processor_def addSpanProcessor_def)
      then show ?thesis by (intro exI[of _ "[new_spanProcessor ext ex]"]) simp
    qed
  qed
qed

lemma attach_processor_Inr:
  assumes "attach_processor ext t x w = (Inr u, w')" and some: "delegate w \<noteq> None"
  shows "attached w' = attached w @
     (if oneagent_bypass ext t then []
      else [new_spanProcessor ext
              (Exporter (exporter_module x) (exporter_class x) (length (heap w)))])"
    and "oneagent_bypass ext t \<longrightarrow> heap w' = heap w"
    and "\<not> oneagent_bypass ext t \<longrightarrow>
           fst (getExporter ext t x w)
             = Inr (Exporter (exporter_module x) (exporter_class x) (length (heap w)))"
    and "delegate w' = None \<longleftrightarrow> delegate w = None"
proof -
  show "oneagent_bypass ext t \<longrightarrow> heap w' = heap w"
    using assms by (auto simp: attach_processor_def)
  {
    assume nb: "\<not> oneagent_bypass ext t"
    obtain r1 w1 where g: "getExporter ext t x w = (r1, w1)" by (cases "getExporter ext t x w")
    with assms nb obtain ex where r1: "r1 = Inr ex"
      and w': "w' = addSpanProcessor (new_spanProcessor ext ex) w1"
      by (auto simp: attach_processor_def split: sum.splits)
    have ex: "ex = Exporter (exporter_module x) (exporter_class x) (length (heap w))"
      using g[unfolded r1] by (rule getExporter_Inr)
    have d: "delegate w1 = delegate w" using getExporter_frame(1)[OF g] .
    have "attached w' = attached w @ [new_spanProcessor ext ex]"
      unfolding w' attached_def addSpanProcessor_def using d some
      by (cases "delegate w") simp_all
    moreover have "delegate w' = None \<longleftrightarrow> delegate w = None"
      unfolding w' addSpanProcessor_def using d by simp
    ultimately have "attached w' = attached w @ [new_spanProcessor ext
              (Exporter (exporter_module x) (exporter_class x) (length (heap w)))]"
      "fst (getExporter ext t x w) = Inr (Exporter (exporter_module x) (exporter_class x) (length (heap w)))"
      "delegate w' = None \<longleftrightarrow> delegate w = None"
      using ex g r1 by simp_all
  } note nb = this
  show "\<not> oneagent_bypass ext t \<longrightarrow>
           fst (getExporter ext t x w)
             = Inr (Exporter (exporter_module x) (exporter_class x) (length (heap w)))"
    using nb by blast
  have b: "w' = w\<lparr>log_lines := log_lines w @
              (if LOG_info ext
               then [Log_info ''Dynatrace OneAgent detected, disabling tracing exporter'']
               else [])\<rparr>" if "oneagent_bypass ext t"
    using assms(1) that by (simp add: attach_processor_def)
  show "attached w' = attached w @
     (if oneagent_bypass ext t then []
      else [new_spanProcessor ext
              (Exporter (exporter_module x) (exporter_class x) (length (heap w)))])"
    using nb(1) b by (cases "oneagent_bypass ext t") (simp_all add: attached_def)
  show "delegate w' = None \<longleftrightarrow> delegate w = None"
    using nb(3) b by (cases "oneagent_bypass ext t") simp_all
qed

lemma expose_tracer_frame [simp]:
  "delegate (expose_tracer ext w) = delegate w"
  "heap (expose_tracer ext w) = heap w"
  "providers_constructed (expose_tracer ext w) = providers_constructed w"
  "global_propagator (expose_tracer ext w) = global_propagator w"
  "registered_instrumentations (expose_tracer ext w) = registered_instrumentations w"
  "attached (expose_tracer ext w) = attached w"
  by (simp_all add: expose_tracer_def attached_def)

lemma module_exports_Inr:
  assumes "tracing t = Some tr" "exporter tr = Some x"
    and "module_exports ext t res w = (Inr u, w')"
  obtains w1 w2 where "install_provider ext t tr res w = (Inr (), w1)"
    "attach_processor ext t x w1 = (Inr (), w2)" "w' = expose_tracer ext w2"
  using assms unfolding module_exports_def
  by (auto split: prod.splits sum.splits)

lemma inject_reads:
  "inject_dynatrace ext (t\<lparr>instrumentations := i, tracing := tr'\<rparr>) = inject_dynatrace ext t"
  "inject_cloud_logging ext (t\<lparr>instrumentations := i, tracing := tr'\<rparr>)
     = inject_cloud_logging ext t"
  by (intro ext, simp add: inject_dynatrace_def inject_cloud_logging_def kind_matches_def Let_def)+

lemma getExporter_reads:
  "getExporter ext (t\<lparr>instrumentations := i, tracing := tr'\<rparr>) x w = getExporter ext t x w"
  unfolding getExporter_def inject_reads ..

lemma attach_processor_reads:
  "attach_processor ext (t\<lparr>instrumentations := i, tracing := tr'\<rparr>) x w
     = attach_processor ext t x w"
  by (simp add: attach_processor_def getExporter_reads oneagent_bypass_def kind_matches_def)

lemma module_exports_existing:
  assumes "tracing t = Some tr" "exporter tr = Some x" "delegate w = Some p"
  shows "module_exports ext t res w =
     (case attach_processor ext t x
             (w\<lparr>log_lines := log_lines w @
                   (if LOG_warn ext then [Log_warn already_initialized] else [])\<rparr>) of
        (Inl e, w2) \<Rightarrow> (Inl e, w2)
      | (Inr u, w2) \<Rightarrow> (Inr (), expose_tracer ext w2))"
  using assms by (simp add: module_exports_def install_provider_existing)

lemma module_exports_constructs:
  assumes "tracing t = Some tr" "exporter tr = Some x"
    and "module_exports ext t res w = (r, w')" and "delegate w = Some p"
  shows "providers_constructed w' = providers_constructed w"
    and "\<exists>sps. length sps \<le> 1 \<and> delegate w' = Some (p\<lparr>processors := processors p @ sps\<rparr>)"
    and "global_propagator w' = global_propagator w"
    and "registered_instrumentations w' = registered_instrumentations w"
proof -
  let ?w1 = "w\<lparr>log_lines := log_lines w @
                   (if LOG_warn ext then [Log_warn already_initialized] else [])\<rparr>"
  obtain r2 w2 where a: "attach_processor ext t x ?w1 = (r2, w2)"
    by (cases "attach_processor ext t x ?w1")
  have w': "w' = w2 \<or> w' = expose_tracer ext w2"
    using assms(3) a unfolding module_exports_existing[OF assms(1,2,4)]
    by (auto split: sum.splits)
  note f = attach_processor_frame[OF a]
  show "providers_constructed w' = providers_constructed w"
    "global_propagator w' = global_propagator w"
    "registered_instrumentations w' = registered_instrumentations w"
    using w' f(1,2,3) by auto
  from f(4) obtain sps where "length sps \<le> 1"
    "delegate w2 = Some (p\<lparr>processors := processors p @ sps\<rparr>)"
    using assms(4) by auto
  then show "\<exists>sps. length sps \<le> 1 \<and> delegate w' = Some (p\<lparr>processors := processors p @ sps\<rparr>)"
    using w' by auto
qed

lemma module_exports_first_run:
  assumes "tracing t = Some tr" "exporter tr = Some x" "delegate w0 = None"
    and "module_exports ext t res w0 = (Inr (), w1)"
  shows "delegate w1 \<noteq> None" "providers_constructed w1 = providers_constructed w0 + 1"
proof -
  from assms(1,2,4) obtain v1 v2 where i: "install_provider ext t tr res w0 = (Inr (), v1)"
    and a: "attach_processor ext t x v1 = (Inr (), v2)" and w1: "w1 = expose_tracer ext v2"
    by (rule module_exports_Inr)
  note i' = install_provider_Inr[OF i]
  note a' = attach_processor_Inr[OF a i'(2)]
  show "delegate w1 \<noteq> None" unfolding w1 using a'(4) i'(2) by simp
  show "providers_constructed w1 = providers_constructed w0 + 1"
    unfolding w1 using attach_processor_frame(1)[OF a] i'(4) assms(3) by simp
qed

lemma fails_naming_unknown:
  "fails_naming (Inl (unknown_in_module what c m)) c"
  "fails_naming (Inl (unknown_in_module what c m)) m"
  using unknown_in_module_names[of what c m]
  by (simp_all add: fails_naming_def unknown_in_module_def)

lemma fails_naming_suffix: "fails_naming (Inl (Error (pre @ s))) s"
  by (simp add: fails_naming_def)

lemma getExporter_keeps:
  assumes "fst (getExporter ext t x w) = Inr ex"
  shows "ex = Exporter (exporter_module x) (exporter_class x) (length (heap w))"
    and "length (heap w) < length (heap (snd (getExporter ext t x w)))"
    and "\<not> nullish (config_copy (heap w) (exporter_config x) k) \<Longrightarrow>
          get_prop (heap (snd (getExporter ext t x w))) (Ref (length (heap w))) k
            = config_copy (heap w) (exporter_config x) k"
    and "a < length (heap w) \<Longrightarrow> \<not> nullish (get_prop (heap w) (Ref a) k) \<Longrightarrow>
          get_prop (heap (snd (getExporter ext t x w))) (Ref a) k = get_prop (heap w) (Ref a) k"
proof -
  let ?h = "heap w" and ?cfg = "config_copy (heap w) (exporter_config x)"
  let ?w' = "snd (getExporter ext t x w)"
  have g: "getExporter ext t x w = (Inr ex, ?w')"
    using assms by (simp add: prod_eq_iff)
  have k: "keeps_set_values (?h @ [?cfg]) (heap ?w')"
    by (rule keeps_getExporter[OF g])
  show "ex = Exporter (exporter_module x) (exporter_class x) (length ?h)"
    using g by (rule getExporter_Inr)
  show len: "length ?h < length (heap ?w')"
    using k by (simp add: keeps_set_values_def)
  show "get_prop (heap ?w') (Ref (length ?h)) k = ?cfg k" if n: "\<not> nullish (?cfg k)"
  proof -
    have u: "?cfg k \<noteq> Undefined" using n by auto
    have c: "get_prop (?h @ [?cfg]) (Ref (length ?h)) k = ?cfg k"
      using u by simp
    have "\<not> nullish (get_prop (?h @ [?cfg]) (Ref (length ?h)) k)"
      unfolding c by (rule n)
    moreover have "length ?h < length (?h @ [?cfg])" by simp
    ultimately have "get_prop (heap ?w') (Ref (length ?h)) k
        = get_prop (?h @ [?cfg]) (Ref (length ?h)) k"
      using k unfolding keeps_set_values_def by blast
    then show ?thesis unfolding c .
  qed
  show "get_prop (heap ?w') (Ref a) k = get_prop ?h (Ref a) k"
    if a: "a < length ?h" and n: "\<not> nullish (get_prop ?h (Ref a) k)"
  proof -
    have c: "get_prop (?h @ [?cfg]) (Ref a) k = get_prop ?h (Ref a) k"
      using a by (rule get_prop_append_old)
    have "\<not> nullish (get_prop (?h @ [?cfg]) (Ref a) k)"
      unfolding c by (rule n)
    moreover have "a < length (?h @ [?cfg])" using a by simp
    ultimately have "get_prop (heap ?w') (Ref a) k = get_prop (?h @ [?cfg]) (Ref a) k"
      using k unfolding keeps_set_values_def by blast
    then show ?thesis unfolding c .
  qed
qed

lemma install_provider_Inl:
  assumes "install_provider ext t tr res w = (Inl e, w1)"
  shows "attached w1 = attached w" and "delegate w = None"
    and "telemetry_tracer w1 = telemetry_tracer w"
  using assms unfolding install_provider_def Let_def attached_def
  by (auto split: option.splits sum.splits)

lemma getExporter_tracer:
  assumes "getExporter ext t x w = (r, w')"
  shows "telemetry_tracer w' = telemetry_tracer w"
  using assms unfolding getExporter_def alloc_def Let_def
  by (auto split: sum.splits if_splits prod.splits option.splits)

lemma attach_processor_Inl:
  assumes "attach_processor ext t x w = (Inl e, w')"
  shows "delegate w' = delegate w" and "attached w' = attached w"
    and "telemetry_tracer w' = telemetry_tracer w"
proof -
  have nb: "\<not> oneagent_bypass ext t"
    using assms by (auto simp: attach_processor_def split: if_splits)
  obtain r1 w1 where g: "getExporter ext t x w = (r1, w1)" by (cases "getExporter ext t x w")
  have w': "w' = w1"
    using assms nb g by (auto simp: attach_processor_def split: sum.splits)
  show "delegate w' = delegate w" unfolding w' by (rule getExporter_frame(1)[OF g])
  then show "attached w' = attached w" by (simp add: attached_def)
  show "telemetry_tracer w' = telemetry_tracer w" unfolding w' by (rule getExporter_tracer[OF g])
qed

lemma module_exports_Inl:
  assumes "tracing t = Some tr" "exporter tr = Some x"
    and "module_exports ext t res w = (Inl e, w')"
  shows "attached w' = attached w \<and> telemetry_tracer w' = telemetry_tracer w"
proof -
  obtain r1 w1 where i: "install_provider ext t tr res w = (r1, w1)"
    by (cases "install_provider ext t tr res w")
  show ?thesis
  proof (cases r1)
    case (Inl e1)
    then have "w' = w1" using assms i by (simp add: module_exports_def)
    then show ?thesis
      using install_provider_Inl[OF i[unfolded Inl]] by simp
  next
    case (Inr u)
    obtain r2 w2 where a: "attach_processor ext t x w1 = (r2, w2)"
      by (cases "attach_processor ext t x w1")
    from assms i Inr a obtain e2 where r2: "r2 = Inl e2" and w': "w' = w2"
      by (cases r2) (auto simp: module_exports_def)
    have tt: "telemetry_tracer w1 = telemetry_tracer w"
      using i[unfolded Inr] unfolding install_provider_def Let_def
      by (auto split: option.splits sum.splits)
    show ?thesis
      unfolding w'
      using attach_processor_Inl[OF a[unfolded r2]] install_provider_Inr(3)[OF i[unfolded Inr]] tt
      by simp
  qed
qed

lemma expose_tracer_sets [simp]:
  "telemetry_tracer (expose_tracer ext w) =
     Some \<lparr>tracer_name = ''@cap-js/telemetry'', tracer_version = package_version ext,
           active = False\<rparr>"
  by (simp add: expose_tracer_def)

lemma module_exports_existing_Inr:
  assumes "tracing t = Some tr" "exporter tr = Some x" "delegate w = Some p"
    and "fst (module_exports ext t res w) = Inr u"
  shows "telemetry_tracer (snd (module_exports ext t res w)) =
     Some \<lparr>tracer_name = ''@cap-js/telemetry'', tracer_version = package_version ext,
           active = False\<rparr>"
    and "attached (snd (module_exports ext t res w)) = processors p @
       (if oneagent_bypass ext t then []
        else [new_spanProcessor ext
                (Exporter (exporter_module x) (exporter_class x) (length (heap w)))])"
proof -
  have m: "module_exports ext t res w = (Inr (), snd (module_exports ext t res w))"
    using assms(4) by (simp add: prod_eq_iff)
  from assms(1,2) m obtain w1 w2 where i: "install_provider ext t tr res w = (Inr (), w1)"
    and a: "attach_processor ext t x w1 = (Inr (), w2)"
    and w': "snd (module_exports ext t res w) = expose_tracer ext w2"
    by (rule module_exports_Inr)
  note i' = install_provider_Inr[OF i]
  note a' = attach_processor_Inr[OF a i'(2)]
  show "telemetry_tracer (snd (module_exports ext t res w)) =
     Some \<lparr>tracer_name = ''@cap-js/telemetry'', tracer_version = package_version ext,
           active = False\<rparr>"
    unfolding w' by simp
  have "attached w = processors p" using assms(3) by (simp add: attached_def)
  then show "attached (snd (module_exports ext t res w)) = processors p @
       (if oneagent_bypass ext t then []
        else [new_spanProcessor ext
                (Exporter (exporter_module x) (exporter_class x) (length (heap w)))])"
    unfolding w' using a'(1) i'(1,3) by simp
qed

lemma module_exports_existing_Inl:
  assumes "tracing t = Some tr" "exporter tr = Some x" "delegate w = Some p"
    and "fst (module_exports ext t res w) = Inl e"
  shows "delegate (snd (module_exports ext t res w)) = Some p"
    and "telemetry_tracer (snd (module_exports ext t res w)) = telemetry_tracer w"
proof -
  let ?w1 = "w\<lparr>log_lines := log_lines w @
                   (if LOG_warn ext then [Log_warn already_initialized] else [])\<rparr>"
  obtain r2 w2 where a: "attach_processor ext t x ?w1 = (r2, w2)"
    by (cases "attach_processor ext t x ?w1")
  have r2: "r2 = Inl e" and w': "snd (module_exports ext t res w) = w2"
    using assms(4) a unfolding module_exports_existing[OF assms(1,2,3)]
    by (cases r2; simp)+
  note f = attach_processor_Inl[OF a[unfolded r2]]
  show "delegate (snd (module_exports ext t res w)) = Some p"
    unfolding w' using f(1) assms(3) by simp
  show "telemetry_tracer (snd (module_exports ext t res w)) = telemetry_tracer w"
    unfolding w' using f(3) by simp
qed

section \<open>The token of the Dynatrace block\<close>

lemma inherited_none: "k \<notin> fst ` set object_prototype \<Longrightarrow> inherited k = Undefined"
  by (simp add: inherited_def map_of_eq_None_iff[THEN iffD2])

lemma own_or_inherited_none [simp]: "inherited k = Undefined \<Longrightarrow> own_or_inherited x k = x"
  by (cases x) (simp_all add: own_or_inherited_def)

lemma get_prop_own:
  "a < length h \<Longrightarrow> inherited k = Undefined \<Longrightarrow> get_prop h (Ref a) k = (h ! a) k"
  by (simp add: get_prop_def)

text \<open>
  The token of line 91 in terms of the fields of the credentials object, for a field name
  that no object inherits.
\<close>

lemma dynatrace_token_fields:
  assumes "d < length h" "tn \<notin> fst ` set object_prototype"
  shows "dynatrace_token h (Ref d) tn =
     (if truthy ((h ! d) tn) then (h ! d) tn
      else if nullish ((h ! d) ''rest_apitoken'') then Undefined
      else get_prop h ((h ! d) ''rest_apitoken'') ''token'')"
  using assms by (simp add: dynatrace_token_def Let_def get_prop_own inherited_none)

lemma dynatrace_success:
  assumes creds: "truthy (getDynatraceCredentials ext)" "kind_matches ''dynatrace'' t"
    and valid: "valid_ref (heap w) (getDynatraceCredentials ext)"
      "valid_ref (heap w) (get_prop (heap w) (getDynatraceCredentials ext) ''rest_apitoken'')"
    and cls: "exporter_module_of ext x = Inr m" "member m (exporter_class x) = Some Class"
    and no_url: "nullish (config_copy (heap w) (exporter_config x) ''url'')"
    and no_auth: "nullish (config_copy (heap w) (exporter_config x) ''headers'') \<or>
       (\<exists>a. config_copy (heap w) (exporter_config x) ''headers'' = Ref a \<and> a < length (heap w)
            \<and> nullish (get_prop (heap w) (Ref a) ''authorization''))"
    and tok: "truthy (dynatrace_token (heap w) (getDynatraceCredentials ext) (token_name t))"
  shows "fst (getExporter ext t x w)
          = Inr (Exporter (exporter_module x) (exporter_class x) (length (heap w)))
      \<and> get_prop (heap (snd (getExporter ext t x w))) (Ref (length (heap w))) ''url''
          = Str (to_string (get_prop (heap w) (getDynatraceCredentials ext) ''apiurl'')
                 @ ''/v2/otlp/v1/traces'')
      \<and> get_prop (heap (snd (getExporter ext t x w)))
           (get_prop (heap (snd (getExporter ext t x w))) (Ref (length (heap w))) ''headers'')
           ''authorization''
          = Str (''Api-Token '' @
                 to_string (dynatrace_token (heap w) (getDynatraceCredentials ext) (token_name t)))"
proof -
  let ?h = "heap w" and ?c = "length (heap w)" and ?cfg = "config_copy (heap w) (exporter_config x)"
  let ?d = "getDynatraceCredentials ext"
  let ?tok = "dynatrace_token ?h ?d (token_name t)"
  let ?U = "Str (to_string (get_prop ?h ?d ''apiurl'') @ ''/v2/otlp/v1/traces'')"
  let ?A = "Str (''Api-Token '' @ to_string ?tok)"
  define h1 where "h1 = assign_if_nullish (?h @ [?cfg]) (Ref ?c) ''url'' ?U"
  define h2 where "h2 = assign_object_if_nullish h1 (Ref ?c) ''headers''"
  define hd where "hd = get_prop h2 (Ref ?c) ''headers''"
  define h3 where "h3 = assign_if_nullish h2 hd ''authorization'' ?A"
  note g = getExporter_dynatrace[OF creds valid cls, unfolded Let_def, folded h1_def,
      folded h2_def, folded hd_def, folded h3_def]
  have r: "fst (getExporter ext t x w) = Inr (Exporter (exporter_module x) (exporter_class x) ?c)"
    and w': "heap (snd (getExporter ext t x w)) = inject_cloud_logging ext t ?c h3"
    using tok by (simp_all add: g)
  have len1: "length h1 = Suc ?c" by (simp add: h1_def)
  have url1: "get_prop h1 (Ref ?c) ''url'' = ?U"
    unfolding h1_def using no_url by (intro get_assign_same) simp_all
  have hdr1: "get_prop h1 (Ref ?c) ''headers'' = ?cfg ''headers''"
    unfolding h1_def by (simp add: get_assign_other)
  have ext1: "extends ?h h1"
    unfolding h1_def by (intro extends_assign_new extends_append order_refl)
  have url2: "get_prop h2 (Ref ?c) ''url'' = ?U"
    unfolding h2_def using url1 len1 by (simp add: get_assign_object_other)
  have ext2: "extends ?h h2"
    unfolding h2_def by (intro extends_assign_object_new ext1 order_refl)
  have "nullish (get_prop h2 hd ''authorization'') \<and> (\<exists>a. hd = Ref a \<and> a < length h2 \<and> a \<noteq> ?c)"
  proof (cases "nullish (?cfg ''headers'')")
    case True
    then have n: "nullish (get_prop h1 (Ref ?c) ''headers'')" using hdr1 by simp
    have c: "?c < length h1" using len1 by simp
    show ?thesis
      unfolding hd_def h2_def
      using get_assign_object_new[OF c n] len1 by simp
  next
    case False
    with no_auth obtain a where a: "?cfg ''headers'' = Ref a" "a < ?c"
      "nullish (get_prop ?h (Ref a) ''authorization'')" by blast
    have "h2 = h1" unfolding h2_def using hdr1 a by (simp add: get_assign_object_set)
    then have "hd = Ref a" using hdr1 a by (simp add: hd_def)
    moreover have "get_prop h2 (Ref a) ''authorization'' = get_prop ?h (Ref a) ''authorization''"
      using a(2) by (intro extends_get_prop[OF ext2]) (simp add: valid_ref_def)
    moreover have "a < length h2" using ext2 a(2) by (simp add: extends_def)
    ultimately show ?thesis using a by auto
  qed
  then obtain a where a: "hd = Ref a" "a < length h2" "a \<noteq> ?c"
    and n: "nullish (get_prop h2 (Ref a) ''authorization'')" by auto
  have auth3: "get_prop h3 hd ''authorization'' = ?A"
    unfolding h3_def a(1) using a(2) n by (intro get_assign_same) simp_all
  have url3: "get_prop h3 (Ref ?c) ''url'' = ?U"
    unfolding h3_def using url2 by (simp add: get_assign_other)
  have hdr3: "get_prop h3 (Ref ?c) ''headers'' = hd"
    unfolding h3_def hd_def by (simp add: get_assign_other)
  have url4: "get_prop (heap (snd (getExporter ext t x w))) (Ref ?c) ''url'' = ?U"
    unfolding w' using url3 by (simp add: cloud_logging_set)
  have hdr4: "get_prop (heap (snd (getExporter ext t x w))) (Ref ?c) ''headers'' = hd"
    unfolding w' using hdr3 by (simp add: cloud_logging_other)
  have auth4: "get_prop (heap (snd (getExporter ext t x w))) hd ''authorization'' = ?A"
    unfolding w' using auth3 by (simp add: cloud_logging_other)
  show ?thesis using r url4 hdr4 auth4 by simp
qed

lemma dynatrace_failure:
  assumes creds: "truthy (getDynatraceCredentials ext)" "kind_matches ''dynatrace'' t"
    and valid: "valid_ref (heap w) (getDynatraceCredentials ext)"
      "valid_ref (heap w) (get_prop (heap w) (getDynatraceCredentials ext) ''rest_apitoken'')"
    and cls: "exporter_module_of ext x = Inr m" "member m (exporter_class x) = Some e"
    and tok: "\<not> truthy (dynatrace_token (heap w) (getDynatraceCredentials ext) (token_name t))"
  shows "fst (getExporter ext t x w) = Inl (no_token_error (token_name t))"
    and "fails_naming (fst (getExporter ext t x w)) (token_name t)"
    and "fails_naming (fst (getExporter ext t x w)) ''rest_apitoken.token''"
proof -
  show r: "fst (getExporter ext t x w) = Inl (no_token_error (token_name t))"
    using tok by (simp add: getExporter_dynatrace[OF creds valid cls] Let_def)
  show "fails_naming (fst (getExporter ext t x w)) (token_name t)"
    and "fails_naming (fst (getExporter ext t x w)) ''rest_apitoken.token''"
    unfolding r using sublist_no_token_error[of "token_name t"]
    by (simp_all add: fails_naming_def no_token_error_def)
qed

section \<open>Runs with and without a provider\<close>

lemma module_exports_no_entry:
  assumes "tracing t = None \<or> (\<exists>tr. tracing t = Some tr \<and> exporter tr = None)"
  shows "module_exports ext t res w = (Inr (), w)"
  using assms by (auto simp: module_exports_def)

lemma install_provider_registers:
  assumes "install_provider ext t tr res w = (r, w1)" "delegate w = None" "delegate w1 \<noteq> None"
  shows "providers_constructed w1 = providers_constructed w + 1"
  using assms unfolding install_provider_def Let_def
  by (auto split: option.splits sum.splits)

lemma module_exports_registers:
  assumes "tracing t = Some tr" "exporter tr = Some x" "delegate w0 = None"
    and "module_exports ext t res w0 = (r, w1)" "delegate w1 \<noteq> None"
  shows "providers_constructed w1 = providers_constructed w0 + 1"
proof -
  obtain r1 v1 where i: "install_provider ext t tr res w0 = (r1, v1)"
    by (cases "install_provider ext t tr res w0")
  show ?thesis
  proof (cases r1)
    case (Inl e)
    then have "w1 = v1" using assms(1,2,4) i by (simp add: module_exports_def)
    then show ?thesis using install_provider_registers[OF i assms(3)] assms(5) by simp
  next
    case (Inr u)
    obtain r2 v2 where a: "attach_processor ext t x v1 = (r2, v2)"
      by (cases "attach_processor ext t x v1")
    have "w1 = v2 \<or> w1 = expose_tracer ext v2"
      using assms(1,2,4) i Inr a by (cases r2) (auto simp: module_exports_def)
    then have "providers_constructed w1 = providers_constructed v1"
      using attach_processor_frame(1)[OF a] by auto
    then show ?thesis using install_provider_Inr(4)[OF i[unfolded Inr]] assms(3) by simp
  qed
qed

section \<open>The claims\<close>

lemmas example_defs = example_ext_def example_heap_def example_world_def otlp_exporter_def
  example_sampler_def b3_propagator_def example_tracing_def http_instrumentation_def
  example_cfg_def request_def other_provider_def provided_world_def member_def

lemmas exporter_eval = getExporter_def exporter_module_of_def alloc_def config_copy_def
  inject_dynatrace_def inject_cloud_logging_def kind_matches_def sublist_Cons_right
  assign_if_nullish_def assign_object_if_nullish_def get_prop_def set_prop_def
  dynatrace_token_def empty_obj_def Let_def member_def own_or_inherited_def inherited_def
  object_prototype_def

lemmas bootstrap_eval = module_exports_def install_provider_def getSampler_def
  getPropagator_def getInstrumentations_def new_instrumentation_def attach_processor_def
  oneagent_bypass_def env_truthy_def addSpanProcessor_def new_spanProcessor_def
  expose_tracer_def select_shouldSample_def http_ignoreIncomingPaths_def undefined_or_def
  spread_def attached_def

text \<open>Three runs of the bootstrap function on the worked configuration return normally.\<close>

lemma example_run:
  "fst (module_exports example_ext (example_cfg ''telemetry-to-dynatrace'' None) (Resource [])
          example_world) = Inr ()"
  by (simp add: example_defs bootstrap_eval exporter_eval)

lemma example_run_production:
  "fst (module_exports (example_ext\<lparr>env_NODE_ENV := Some ''production''\<rparr>)
          (example_cfg ''telemetry-to-dynatrace'' None) (Resource []) example_world) = Inr ()"
  by (simp add: example_defs bootstrap_eval exporter_eval)

lemma example_run_oneagent:
  "fst (module_exports (example_ext\<lparr>env_DT_NODE_PRELOAD_OPTIONS := Some ''-javaagent''\<rparr>)
          (example_cfg ''telemetry-to-dynatrace'' None) (Resource []) example_world) = Inr ()"
  by (simp add: example_defs bootstrap_eval exporter_eval)

lemmas legacy_defs = legacy_world_def legacy_heap_def

text \<open>Runs that fail over an unknown exporter class, and a run on an existing provider.\<close>

lemma example_run_unknown_exporter:
  "fst (module_exports example_ext
        ((example_cfg ''telemetry-to-dynatrace'' None)
           \<lparr>tracing := Some ((example_tracing None)
              \<lparr>exporter := Some ((otlp_exporter None)\<lparr>exporter_class := ''NoSuchExporter''\<rparr>)\<rparr>)\<rparr>)
        (Resource []) example_world)
   = Inl (unknown_in_module ''tracing exporter'' ''NoSuchExporter''
            ''@opentelemetry/exporter-trace-otlp-proto'')"
  by (simp add: example_defs bootstrap_eval exporter_eval)

lemma example_run_provided:
  "fst (module_exports example_ext (example_cfg ''telemetry-to-dynatrace'' None) (Resource [])
          provided_world) = Inr ()"
  by (simp add: example_defs bootstrap_eval exporter_eval)

lemma example_run_provided_unknown_exporter:
  "fst (module_exports example_ext
        ((example_cfg ''telemetry-to-dynatrace'' None)
           \<lparr>tracing := Some ((example_tracing None)
              \<lparr>exporter := Some ((otlp_exporter None)\<lparr>exporter_class := ''NoSuchExporter''\<rparr>)\<rparr>)\<rparr>)
        (Resource []) provided_world)
   = Inl (unknown_in_module ''tracing exporter'' ''NoSuchExporter''
            ''@opentelemetry/exporter-trace-otlp-proto'')"
  by (simp add: example_defs bootstrap_eval exporter_eval)

subsection \<open>C1: a provider that already exists\<close>

text \<open>
  C1, as amended. When a tracer-provider delegate already exists and the configuration has
  an exporter entry, the provider step of the bootstrap function only logs a warning (if
  the warn level is on) and changes nothing else. The whole run gives the same result
  whatever the sampler, propagator and instrumentation configuration and the resource
  are, so none of them is constructed; it constructs no provider, leaves the global
  propagator and the registered instrumentations as they are, and keeps the existing
  provider, to which it adds at most one span processor. If the run returns normally, it
  has set the tracer handle and added exactly one span processor, on the exporter it
  built, or none when \<^verbatim>\<open>DT_NODE_PRELOAD_OPTIONS\<close> is non-empty and the kind contains
  \<^verbatim>\<open>dynatrace\<close>; if it fails, the existing provider and the tracer handle are as they
  were. Hence, starting without a delegate, a first run that returns normally, or that
  fails after it has registered its provider, constructs one provider and a second run
  constructs none: two such runs yield exactly one tracer provider.
\<close>

theorem existing_provider_reused:
  assumes "tracing t = Some tr" "exporter tr = Some x" "delegate w = Some p"
  shows "install_provider ext t tr res w =
       (Inr (), w\<lparr>log_lines := log_lines w @
                    (if LOG_warn ext then [Log_warn already_initialized] else [])\<rparr>)
    \<and> module_exports ext
         (t\<lparr>instrumentations := is', tracing := Some (tr\<lparr>sampler := s', propagators := ps'\<rparr>)\<rparr>)
         res' w = module_exports ext t res w
    \<and> providers_constructed (snd (module_exports ext t res w)) = providers_constructed w
    \<and> (\<exists>sps. length sps \<le> 1 \<and>
          delegate (snd (module_exports ext t res w)) = Some (p\<lparr>processors := processors p @ sps\<rparr>))
    \<and> global_propagator (snd (module_exports ext t res w)) = global_propagator w
    \<and> registered_instrumentations (snd (module_exports ext t res w)) = registered_instrumentations w
    \<and> (fst (module_exports ext t res w) = Inr () \<longrightarrow>
          telemetry_tracer (snd (module_exports ext t res w)) =
            Some \<lparr>tracer_name = ''@cap-js/telemetry'', tracer_version = package_version ext,
                  active = False\<rparr>
          \<and> attached (snd (module_exports ext t res w)) = processors p @
              (if oneagent_bypass ext t then []
               else [new_spanProcessor ext
                       (Exporter (exporter_module x) (exporter_class x) (length (heap w)))]))
    \<and> (\<forall>e. fst (module_exports ext t res w) = Inl e \<longrightarrow>
          delegate (snd (module_exports ext t res w)) = Some p
          \<and> telemetry_tracer (snd (module_exports ext t res w)) = telemetry_tracer w)
    \<and> (\<forall>w0 r w1. delegate w0 = None \<and> module_exports ext t res w0 = (r, w1)
            \<and> (r = Inr () \<or> delegate w1 \<noteq> None) \<longrightarrow>
          delegate w1 \<noteq> None
          \<and> providers_constructed w1 = providers_constructed w0 + 1
          \<and> providers_constructed (snd (module_exports ext t res w1)) = providers_constructed w0 + 1)"
proof -
  let ?t' = "t\<lparr>instrumentations := is', tracing := Some (tr\<lparr>sampler := s', propagators := ps'\<rparr>)\<rparr>"
  have t': "tracing ?t' = Some (tr\<lparr>sampler := s', propagators := ps'\<rparr>)"
    "exporter (tr\<lparr>sampler := s', propagators := ps'\<rparr>) = Some x"
    using assms(2) by simp_all
  have indep: "module_exports ext ?t' res' w = module_exports ext t res w"
    unfolding module_exports_existing[OF t' assms(3)] module_exports_existing[OF assms]
    by (simp add: attach_processor_reads)
  obtain r w' where m: "module_exports ext t res w = (r, w')"
    by (cases "module_exports ext t res w")
  then have s: "snd (module_exports ext t res w) = w'" by simp
  note c = module_exports_constructs[OF assms(1,2) m assms(3), folded s]
  have ok: "fst (module_exports ext t res w) = Inr () \<longrightarrow>
          telemetry_tracer (snd (module_exports ext t res w)) =
            Some \<lparr>tracer_name = ''@cap-js/telemetry'', tracer_version = package_version ext,
                  active = False\<rparr>
          \<and> attached (snd (module_exports ext t res w)) = processors p @
              (if oneagent_bypass ext t then []
               else [new_spanProcessor ext
                       (Exporter (exporter_module x) (exporter_class x) (length (heap w)))])"
    using module_exports_existing_Inr[OF assms] by blast
  have ko: "\<forall>e. fst (module_exports ext t res w) = Inl e \<longrightarrow>
          delegate (snd (module_exports ext t res w)) = Some p
          \<and> telemetry_tracer (snd (module_exports ext t res w)) = telemetry_tracer w"
    using module_exports_existing_Inl[OF assms] by blast
  have "delegate w1 \<noteq> None
          \<and> providers_constructed w1 = providers_constructed w0 + 1
          \<and> providers_constructed (snd (module_exports ext t res w1)) = providers_constructed w0 + 1"
    if h: "delegate w0 = None" "module_exports ext t res w0 = (r0, w1)"
      "r0 = Inr () \<or> delegate w1 \<noteq> None" for w0 r0 w1
  proof -
    have d: "delegate w1 \<noteq> None"
      using h(3) module_exports_first_run(1)[OF assms(1,2) h(1)] h(2) by blast
    then obtain q where q: "delegate w1 = Some q" by auto
    note f = module_exports_registers[OF assms(1,2) h(1,2) d]
    obtain r2 w2 where m2: "module_exports ext t res w1 = (r2, w2)"
      by (cases "module_exports ext t res w1")
    show ?thesis using d f module_exports_constructs(1)[OF assms(1,2) m2 q] m2 by simp
  qed
  then have twice: "\<forall>w0 r w1. delegate w0 = None \<and> module_exports ext t res w0 = (r, w1)
            \<and> (r = Inr () \<or> delegate w1 \<noteq> None) \<longrightarrow>
          delegate w1 \<noteq> None
          \<and> providers_constructed w1 = providers_constructed w0 + 1
          \<and> providers_constructed (snd (module_exports ext t res w1)) = providers_constructed w0 + 1"
    by blast
  have 1: "install_provider ext t tr res w =
       (Inr (), w\<lparr>log_lines := log_lines w @
                    (if LOG_warn ext then [Log_warn already_initialized] else [])\<rparr>)"
    by (rule install_provider_existing[OF assms(3)])
  show ?thesis
    by (intro conjI 1 indep c ok ko twice)
qed

theorem existing_provider_reused_witness:
  "install_provider example_ext (example_cfg ''telemetry-to-dynatrace'' None) (example_tracing None)
       (Resource []) provided_world
     = (Inr (), provided_world\<lparr>log_lines := log_lines provided_world @
                                  [Log_warn already_initialized]\<rparr>)
   \<and> module_exports example_ext
       ((example_cfg ''telemetry-to-dynatrace'' None)
          \<lparr>instrumentations := None,
           tracing := Some ((example_tracing None)
              \<lparr>sampler := \<lparr>kind = ''FooSampler'', root = None, ratio = None\<rparr>,
               propagators := [Builtin ''JaegerPropagator'']\<rparr>)\<rparr>)
       (Resource [(''service.name'', ''bookshop'')]) provided_world
     = module_exports example_ext (example_cfg ''telemetry-to-dynatrace'' None) (Resource [])
         provided_world
   \<and> providers_constructed (snd (module_exports example_ext
         (example_cfg ''telemetry-to-dynatrace'' None) (Resource []) provided_world)) = 0
   \<and> global_propagator (snd (module_exports example_ext
         (example_cfg ''telemetry-to-dynatrace'' None) (Resource []) provided_world)) = None
   \<and> registered_instrumentations (snd (module_exports example_ext
         (example_cfg ''telemetry-to-dynatrace'' None) (Resource []) provided_world)) = []
   \<and> telemetry_tracer (snd (module_exports example_ext
         (example_cfg ''telemetry-to-dynatrace'' None) (Resource []) provided_world))
       = Some \<lparr>tracer_name = ''@cap-js/telemetry'', tracer_version = ''1.0.0'', active = False\<rparr>
   \<and> attached (snd (module_exports example_ext
         (example_cfg ''telemetry-to-dynatrace'' None) (Resource []) provided_world))
       = [SimpleSpanProcessor (Exporter ''@opentelemetry/exporter-trace-otlp-proto''
            ''OTLPTraceExporter'' 8)]
   \<and> delegate (snd (module_exports example_ext
        ((example_cfg ''telemetry-to-dynatrace'' None)
           \<lparr>tracing := Some ((example_tracing None)
              \<lparr>exporter := Some ((otlp_exporter None)\<lparr>exporter_class := ''NoSuchExporter''\<rparr>)\<rparr>)\<rparr>)
        (Resource []) provided_world)) = Some other_provider
   \<and> telemetry_tracer (snd (module_exports example_ext
        ((example_cfg ''telemetry-to-dynatrace'' None)
           \<lparr>tracing := Some ((example_tracing None)
              \<lparr>exporter := Some ((otlp_exporter None)\<lparr>exporter_class := ''NoSuchExporter''\<rparr>)\<rparr>)\<rparr>)
        (Resource []) provided_world)) = None
   \<and> delegate example_world = None
   \<and> providers_constructed (snd (module_exports example_ext
         (example_cfg ''telemetry-to-dynatrace'' None) (Resource []) example_world)) = 1
   \<and> providers_constructed (snd (module_exports example_ext
         (example_cfg ''telemetry-to-dynatrace'' None) (Resource [])
         (snd (module_exports example_ext
            (example_cfg ''telemetry-to-dynatrace'' None) (Resource []) example_world)))) = 1"
proof -
  let ?t = "example_cfg ''telemetry-to-dynatrace'' None"
  let ?bx = "(otlp_exporter None)\<lparr>exporter_class := ''NoSuchExporter''\<rparr>"
  let ?btr = "(example_tracing None)\<lparr>exporter := Some ?bx\<rparr>"
  let ?bad = "?t\<lparr>tracing := Some ?btr\<rparr>"
  let ?run = "\<lambda>w. module_exports example_ext ?t (Resource []) w"
  have t: "tracing ?t = Some (example_tracing None)"
    "exporter (example_tracing None) = Some (otlp_exporter None)"
    by (simp_all add: example_cfg_def example_tracing_def)
  have b: "tracing ?bad = Some ?btr" "exporter ?btr = Some ?bx"
    by simp_all
  have d: "delegate provided_world = Some other_provider"
    by (simp add: provided_world_def)
  have facts: "LOG_warn example_ext" "providers_constructed provided_world = 0"
    "global_propagator provided_world = None" "registered_instrumentations provided_world = []"
    "delegate example_world = None" "providers_constructed example_world = 0"
    "telemetry_tracer provided_world = None" "package_version example_ext = ''1.0.0''"
    "processors other_provider = []" "length (heap provided_world) = 8"
    "exporter_module (otlp_exporter None) = ''@opentelemetry/exporter-trace-otlp-proto''"
    "exporter_class (otlp_exporter None) = ''OTLPTraceExporter''"
    "env_NODE_ENV example_ext = None"
    by (simp_all add: example_ext_def provided_world_def example_world_def other_provider_def
        example_heap_def otlp_exporter_def)
  have by_pass: "\<not> oneagent_bypass example_ext ?t"
    by (simp add: oneagent_bypass_def env_truthy_def example_ext_def)
  note r = existing_provider_reused[OF t d, of example_ext "Resource []"]
  note rb = existing_provider_reused[OF b d, of example_ext "Resource []"]
  have 1: "install_provider example_ext ?t (example_tracing None) (Resource []) provided_world
     = (Inr (), provided_world\<lparr>log_lines := log_lines provided_world @
                                  [Log_warn already_initialized]\<rparr>)"
    using r[THEN conjunct1] by (simp add: facts)
  have 2: "module_exports example_ext
       (?t\<lparr>instrumentations := None,
           tracing := Some ((example_tracing None)
              \<lparr>sampler := \<lparr>kind = ''FooSampler'', root = None, ratio = None\<rparr>,
               propagators := [Builtin ''JaegerPropagator'']\<rparr>)\<rparr>)
       (Resource [(''service.name'', ''bookshop'')]) provided_world = ?run provided_world"
    by (rule r[THEN conjunct2, THEN conjunct1])
  have 3: "providers_constructed (snd (?run provided_world)) = 0"
    using r[THEN conjunct2, THEN conjunct2, THEN conjunct1] by (simp add: facts)
  have 4: "global_propagator (snd (?run provided_world)) = None"
    using r[THEN conjunct2, THEN conjunct2, THEN conjunct2, THEN conjunct2, THEN conjunct1]
    by (simp add: facts)
  have 5: "registered_instrumentations (snd (?run provided_world)) = []"
    using r[THEN conjunct2, THEN conjunct2, THEN conjunct2, THEN conjunct2, THEN conjunct2,
        THEN conjunct1]
    by (simp add: facts)
  note ok = r[THEN conjunct2, THEN conjunct2, THEN conjunct2, THEN conjunct2, THEN conjunct2,
        THEN conjunct2, THEN conjunct1, THEN mp, OF example_run_provided]
  have 6: "telemetry_tracer (snd (?run provided_world))
       = Some \<lparr>tracer_name = ''@cap-js/telemetry'', tracer_version = ''1.0.0'', active = False\<rparr>"
    using ok[THEN conjunct1] by (simp add: facts)
  have 7: "attached (snd (?run provided_world))
       = [SimpleSpanProcessor (Exporter ''@opentelemetry/exporter-trace-otlp-proto''
            ''OTLPTraceExporter'' 8)]"
    using ok[THEN conjunct2] by (simp add: facts by_pass new_spanProcessor_def)
  note ko = rb[THEN conjunct2, THEN conjunct2, THEN conjunct2, THEN conjunct2, THEN conjunct2,
        THEN conjunct2, THEN conjunct2, THEN conjunct1, THEN spec, THEN mp,
        OF example_run_provided_unknown_exporter]
  have 8: "delegate (snd (module_exports example_ext ?bad (Resource []) provided_world))
       = Some other_provider"
    by (rule ko[THEN conjunct1])
  have 9: "telemetry_tracer (snd (module_exports example_ext ?bad (Resource []) provided_world))
       = None"
    using ko[THEN conjunct2] by (simp add: facts)
  have first: "?run example_world = (Inr (), snd (?run example_world))"
    using example_run by (simp add: prod_eq_iff)
  note twice = r[THEN conjunct2, THEN conjunct2, THEN conjunct2, THEN conjunct2, THEN conjunct2,
      THEN conjunct2, THEN conjunct2, THEN conjunct2, THEN spec, THEN spec, THEN spec, THEN mp,
      OF conjI[OF facts(5) conjI[OF first disjI1[OF refl]]]]
  have 10: "providers_constructed (snd (?run example_world)) = 1"
    using twice[THEN conjunct2, THEN conjunct1] by (simp add: facts)
  have 11: "providers_constructed (snd (?run (snd (?run example_world)))) = 1"
    using twice[THEN conjunct2, THEN conjunct2] by (simp add: facts)
  show ?thesis
    by (rule conjI[OF 1 conjI[OF 2 conjI[OF 3 conjI[OF 4 conjI[OF 5 conjI[OF 6 conjI[OF 7
          conjI[OF 8 conjI[OF 9 conjI[OF facts(5) conjI[OF 10 11]]]]]]]]]]])
qed

text \<open>
  C1 as stated fails in two places. The existing provider is not reused as it is and the
  warning is not the only side effect: lines 130 to 133 go on to build the exporter and
  add a span processor to the provider the other module installed, and line 137 sets the
  tracer handle. And two runs need not leave one provider: when the propagator step of
  line 119 throws, the provider of line 118 has been constructed but is not registered, so
  the second run constructs another one, and no provider is registered after either run.
\<close>

theorem existing_provider_counterexample:
  "delegate provided_world = Some other_provider
   \<and> telemetry_tracer provided_world = None
   \<and> fst (module_exports example_ext (example_cfg ''telemetry-to-dynatrace'' None) (Resource [])
          provided_world) = Inr ()
   \<and> delegate (snd (module_exports example_ext (example_cfg ''telemetry-to-dynatrace'' None)
          (Resource []) provided_world))
       = Some (other_provider\<lparr>processors :=
           [SimpleSpanProcessor (Exporter ''@opentelemetry/exporter-trace-otlp-proto''
              ''OTLPTraceExporter'' 8)]\<rparr>)
   \<and> telemetry_tracer (snd (module_exports example_ext (example_cfg ''telemetry-to-dynatrace'' None)
          (Resource []) provided_world))
       = Some \<lparr>tracer_name = ''@cap-js/telemetry'', tracer_version = ''1.0.0'', active = False\<rparr>
   \<and> log_lines (snd (module_exports example_ext (example_cfg ''telemetry-to-dynatrace'' None)
          (Resource []) provided_world)) = [Log_warn already_initialized]
   \<and> delegate example_world = None
   \<and> providers_constructed example_world = 0
   \<and> fst (module_exports example_ext
        ((example_cfg ''telemetry-to-dynatrace'' None)
           \<lparr>tracing := Some ((example_tracing None)
              \<lparr>propagators := [Builtin ''JaegerPropagator'']\<rparr>)\<rparr>)
        (Resource []) example_world)
     = Inl (Error (''Unknown propagator '' @ quoted ''JaegerPropagator'' @ '' in module ''
                   @ quoted ''@opentelemetry/core''))
   \<and> providers_constructed (snd (module_exports example_ext
        ((example_cfg ''telemetry-to-dynatrace'' None)
           \<lparr>tracing := Some ((example_tracing None)
              \<lparr>propagators := [Builtin ''JaegerPropagator'']\<rparr>)\<rparr>)
        (Resource [])
        (snd (module_exports example_ext
           ((example_cfg ''telemetry-to-dynatrace'' None)
              \<lparr>tracing := Some ((example_tracing None)
                 \<lparr>propagators := [Builtin ''JaegerPropagator'']\<rparr>)\<rparr>)
           (Resource []) example_world)))) = 2
   \<and> delegate (snd (module_exports example_ext
        ((example_cfg ''telemetry-to-dynatrace'' None)
           \<lparr>tracing := Some ((example_tracing None)
              \<lparr>propagators := [Builtin ''JaegerPropagator'']\<rparr>)\<rparr>)
        (Resource [])
        (snd (module_exports example_ext
           ((example_cfg ''telemetry-to-dynatrace'' None)
              \<lparr>tracing := Some ((example_tracing None)
                 \<lparr>propagators := [Builtin ''JaegerPropagator'']\<rparr>)\<rparr>)
           (Resource []) example_world)))) = None"
  by (simp add: example_defs bootstrap_eval exporter_eval unknown_in_module_def)

subsection \<open>C2: the decision of the composite sampler\<close>

text \<open>
  C2, as amended. For every configuration for which \<^verbatim>\<open>_getSampler\<close> returns a sampler and
  for every span-start request: if the ignore list is a non-empty array and the request
  has an \<^verbatim>\<open>http.originalUrl\<close> attribute that is a non-empty string starting with one of
  the configured prefixes, the composite sampler returns \<^verbatim>\<open>{ decision: NOT_RECORD }\<close>
  and the parent sampler is not asked; in every other case (attribute absent or empty, no
  prefix matches, list empty or not an array) the parent is asked exactly once and its
  result, which may itself be \<^verbatim>\<open>NOT_RECORD\<close>, is returned unchanged.
\<close>

theorem filter_sampler_decision:
  assumes "getSampler ext t s = Inr (FilterSampler f parent)"
  shows "shouldSample sdk (FilterSampler f parent) req asked =
     (if path_ignored (http_ignoreIncomingPaths t) req
      then (\<lparr>decision = NOT_RECORD, result_attributes = None, traceState = None\<rparr>, asked)
      else (sdk parent req, asked @ [req]))"
proof -
  have f: "f = select_shouldSample (http_ignoreIncomingPaths t)"
    using assms by (auto simp: getSampler_def Let_def split: if_splits option.splits)
  show ?thesis
    unfolding f
    by (auto simp: select_shouldSample_def path_ignored_def split: option.splits)
qed

theorem filter_sampler_decision_witness:
  "getSampler example_ext (example_cfg ''telemetry-to-dynatrace'' None) example_sampler
     = Inr (FilterSampler (Ignore_paths [''/health''])
             (New_rooted_sampler ''ParentBasedSampler'' (New_ratio_sampler ''AlwaysOnSampler'' 0)))
   \<and> shouldSample example_sdk
        (FilterSampler (Ignore_paths [''/health''])
           (New_rooted_sampler ''ParentBasedSampler'' (New_ratio_sampler ''AlwaysOnSampler'' 0)))
        (request ''/health/live'') []
      = (not_recorded, [])
   \<and> shouldSample example_sdk
        (FilterSampler (Ignore_paths [''/health''])
           (New_rooted_sampler ''ParentBasedSampler'' (New_ratio_sampler ''AlwaysOnSampler'' 0)))
        (request ''/odata/v4/Books'') []
      = (recorded, [request ''/odata/v4/Books''])"
proof -
  have g: "getSampler example_ext (example_cfg ''telemetry-to-dynatrace'' None) example_sampler
     = Inr (FilterSampler (Ignore_paths [''/health''])
             (New_rooted_sampler ''ParentBasedSampler'' (New_ratio_sampler ''AlwaysOnSampler'' 0)))"
    by (simp add: getSampler_def example_defs http_ignoreIncomingPaths_def
        select_shouldSample_def undefined_or_def)
  have p: "path_ignored (http_ignoreIncomingPaths (example_cfg ''telemetry-to-dynatrace'' None))
             (request ''/health/live'')"
    "\<not> path_ignored (http_ignoreIncomingPaths (example_cfg ''telemetry-to-dynatrace'' None))
             (request ''/odata/v4/Books'')"
    by (simp_all add: path_ignored_def example_defs http_ignoreIncomingPaths_def)
  show ?thesis
    using filter_sampler_decision[OF g, of example_sdk "request ''/health/live''" "[]"]
      filter_sampler_decision[OF g, of example_sdk "request ''/odata/v4/Books''" "[]"] g p
    by (simp add: not_recorded_def)
qed

text \<open>
  C2 as stated fails in both directions of its "if and only if". With no ignore list and
  the sampler kind \<^verbatim>\<open>AlwaysOffSampler\<close> the composite returns \<^verbatim>\<open>NOT_RECORD\<close> for a
  request whose path matches nothing; and with the ignore list \<^verbatim>\<open>['']\<close> a request whose
  \<^verbatim>\<open>http.originalUrl\<close> is the empty string, which is present and starts with the
  configured prefix, is passed on to the parent, because line 21 treats every falsy
  attribute value as absent.
\<close>

theorem not_record_iff_counterexample:
  "getSampler example_ext
     ((example_cfg ''telemetry-to-dynatrace'' None)\<lparr>instrumentations := Some []\<rparr>)
     \<lparr>kind = ''AlwaysOffSampler'', root = None, ratio = None\<rparr>
     = Inr (FilterSampler Always_true (New_sampler ''AlwaysOffSampler''))
   \<and> decision (fst (shouldSample example_sdk
        (FilterSampler Always_true (New_sampler ''AlwaysOffSampler''))
        (request ''/odata/v4/Books'') [])) = NOT_RECORD
   \<and> getSampler example_ext
       ((example_cfg ''telemetry-to-dynatrace'' None)
          \<lparr>instrumentations := Some [(''http'', http_instrumentation [''''])]\<rparr>)
       \<lparr>kind = ''AlwaysOnSampler'', root = None, ratio = None\<rparr>
     = Inr (FilterSampler (Ignore_paths ['''']) (New_sampler ''AlwaysOnSampler''))
   \<and> attributes (request '''') = Some [(''http.originalUrl'', '''')]
   \<and> prefix '''' ''''
   \<and> decision (fst (shouldSample example_sdk
        (FilterSampler (Ignore_paths ['''']) (New_sampler ''AlwaysOnSampler''))
        (request '''') [])) = RECORD_AND_SAMPLED"
  by (simp add: getSampler_def example_defs http_ignoreIncomingPaths_def
      select_shouldSample_def not_recorded_def recorded_def)

subsection \<open>C3: what the Dynatrace credentials add\<close>

text \<open>
  C3, as amended. Let the Dynatrace credentials be present, the telemetry kind contain
  \<^verbatim>\<open>dynatrace\<close>, the exporter class be a class of its module, the configured token field
  name be none of the names that every object inherits, and the exporter config have no
  \<^verbatim>\<open>url\<close> and no \<^verbatim>\<open>headers.authorization\<close>, its \<^verbatim>\<open>headers\<close> being absent or an object
  without \<^verbatim>\<open>authorization\<close>. If the credentials hold a token, that is a value that is not
  falsy, under the configured field name, the config object handed to the exporter has
  \<^verbatim>\<open>url\<close> equal to the credentials' \<^verbatim>\<open>apiurl\<close> followed by \<^verbatim>\<open>/v2/otlp/v1/traces\<close> and
  \<^verbatim>\<open>headers.authorization\<close> equal to \<^verbatim>\<open>Api-Token\<close>, a space and that token. If they hold
  none there but one under \<^verbatim>\<open>rest_apitoken.token\<close>, the same holds with that token. If
  neither field holds a token, and in particular if neither is present, construction
  fails with an error whose message names the configured field and
  \<^verbatim>\<open>rest_apitoken.token\<close>.
\<close>

theorem dynatrace_injection:
  assumes creds: "getDynatraceCredentials ext = Ref d" "d < length (heap w)"
    and kind: "kind_matches ''dynatrace'' t"
    and name: "token_name t \<notin> fst ` set object_prototype"
    and rest: "valid_ref (heap w) ((heap w ! d) ''rest_apitoken'')"
    and cls: "exporter_module_of ext x = Inr m" "member m (exporter_class x) = Some Class"
    and no_url: "nullish (config_copy (heap w) (exporter_config x) ''url'')"
    and no_auth: "nullish (config_copy (heap w) (exporter_config x) ''headers'') \<or>
       (\<exists>a. config_copy (heap w) (exporter_config x) ''headers'' = Ref a \<and> a < length (heap w)
            \<and> nullish ((heap w ! a) ''authorization''))"
  shows "(truthy ((heap w ! d) (token_name t)) \<longrightarrow>
        fst (getExporter ext t x w)
          = Inr (Exporter (exporter_module x) (exporter_class x) (length (heap w)))
      \<and> get_prop (heap (snd (getExporter ext t x w))) (Ref (length (heap w))) ''url''
          = Str (to_string ((heap w ! d) ''apiurl'') @ ''/v2/otlp/v1/traces'')
      \<and> get_prop (heap (snd (getExporter ext t x w)))
           (get_prop (heap (snd (getExporter ext t x w))) (Ref (length (heap w))) ''headers'')
           ''authorization''
          = Str (''Api-Token '' @ to_string ((heap w ! d) (token_name t))))
    \<and> (\<not> truthy ((heap w ! d) (token_name t)) \<and> \<not> nullish ((heap w ! d) ''rest_apitoken'')
        \<and> truthy (get_prop (heap w) ((heap w ! d) ''rest_apitoken'') ''token'') \<longrightarrow>
        fst (getExporter ext t x w)
          = Inr (Exporter (exporter_module x) (exporter_class x) (length (heap w)))
      \<and> get_prop (heap (snd (getExporter ext t x w))) (Ref (length (heap w))) ''url''
          = Str (to_string ((heap w ! d) ''apiurl'') @ ''/v2/otlp/v1/traces'')
      \<and> get_prop (heap (snd (getExporter ext t x w)))
           (get_prop (heap (snd (getExporter ext t x w))) (Ref (length (heap w))) ''headers'')
           ''authorization''
          = Str (''Api-Token '' @
                 to_string (get_prop (heap w) ((heap w ! d) ''rest_apitoken'') ''token'')))
    \<and> (\<not> truthy ((heap w ! d) (token_name t))
        \<and> (nullish ((heap w ! d) ''rest_apitoken'')
            \<or> \<not> truthy (get_prop (heap w) ((heap w ! d) ''rest_apitoken'') ''token'')) \<longrightarrow>
        fst (getExporter ext t x w) = Inl (no_token_error (token_name t))
      \<and> fails_naming (fst (getExporter ext t x w)) (token_name t)
      \<and> fails_naming (fst (getExporter ext t x w)) ''rest_apitoken.token'')"
proof -
  let ?h = "heap w"
  have tr: "truthy (getDynatraceCredentials ext)"
    and v1: "valid_ref ?h (getDynatraceCredentials ext)"
    using creds by (simp_all add: valid_ref_def)
  have ra: "get_prop ?h (getDynatraceCredentials ext) ''rest_apitoken'' = (?h ! d) ''rest_apitoken''"
    and api: "get_prop ?h (getDynatraceCredentials ext) ''apiurl'' = (?h ! d) ''apiurl''"
    using creds by (simp_all add: get_prop_own)
  have v2: "valid_ref ?h (get_prop ?h (getDynatraceCredentials ext) ''rest_apitoken'')"
    unfolding ra by (rule rest)
  have na: "nullish (config_copy ?h (exporter_config x) ''headers'') \<or>
       (\<exists>a. config_copy ?h (exporter_config x) ''headers'' = Ref a \<and> a < length ?h
            \<and> nullish (get_prop ?h (Ref a) ''authorization''))"
    using no_auth by (auto simp: get_prop_own)
  have tok: "dynatrace_token ?h (getDynatraceCredentials ext) (token_name t) =
     (if truthy ((?h ! d) (token_name t)) then (?h ! d) (token_name t)
      else if nullish ((?h ! d) ''rest_apitoken'') then Undefined
      else get_prop ?h ((?h ! d) ''rest_apitoken'') ''token'')"
    unfolding creds(1) by (rule dynatrace_token_fields[OF creds(2) name])
  note s = dynatrace_success[OF tr kind v1 v2 cls no_url na, unfolded api]
  note f = dynatrace_failure[OF tr kind v1 v2 cls]
  have 1: "truthy ((heap w ! d) (token_name t)) \<longrightarrow>
        fst (getExporter ext t x w)
          = Inr (Exporter (exporter_module x) (exporter_class x) (length (heap w)))
      \<and> get_prop (heap (snd (getExporter ext t x w))) (Ref (length (heap w))) ''url''
          = Str (to_string ((heap w ! d) ''apiurl'') @ ''/v2/otlp/v1/traces'')
      \<and> get_prop (heap (snd (getExporter ext t x w)))
           (get_prop (heap (snd (getExporter ext t x w))) (Ref (length (heap w))) ''headers'')
           ''authorization''
          = Str (''Api-Token '' @ to_string ((heap w ! d) (token_name t)))"
  proof
    assume a: "truthy ((heap w ! d) (token_name t))"
    then have t: "dynatrace_token ?h (getDynatraceCredentials ext) (token_name t)
        = (?h ! d) (token_name t)" by (simp add: tok)
    show "fst (getExporter ext t x w)
          = Inr (Exporter (exporter_module x) (exporter_class x) (length (heap w)))
      \<and> get_prop (heap (snd (getExporter ext t x w))) (Ref (length (heap w))) ''url''
          = Str (to_string ((heap w ! d) ''apiurl'') @ ''/v2/otlp/v1/traces'')
      \<and> get_prop (heap (snd (getExporter ext t x w)))
           (get_prop (heap (snd (getExporter ext t x w))) (Ref (length (heap w))) ''headers'')
           ''authorization''
          = Str (''Api-Token '' @ to_string ((heap w ! d) (token_name t)))"
      using s[unfolded t, OF a] .
  qed
  have 2: "\<not> truthy ((heap w ! d) (token_name t)) \<and> \<not> nullish ((heap w ! d) ''rest_apitoken'')
        \<and> truthy (get_prop (heap w) ((heap w ! d) ''rest_apitoken'') ''token'') \<longrightarrow>
        fst (getExporter ext t x w)
          = Inr (Exporter (exporter_module x) (exporter_class x) (length (heap w)))
      \<and> get_prop (heap (snd (getExporter ext t x w))) (Ref (length (heap w))) ''url''
          = Str (to_string ((heap w ! d) ''apiurl'') @ ''/v2/otlp/v1/traces'')
      \<and> get_prop (heap (snd (getExporter ext t x w)))
           (get_prop (heap (snd (getExporter ext t x w))) (Ref (length (heap w))) ''headers'')
           ''authorization''
          = Str (''Api-Token '' @
                 to_string (get_prop (heap w) ((heap w ! d) ''rest_apitoken'') ''token''))"
  proof (intro impI, elim conjE)
    assume a: "\<not> truthy ((heap w ! d) (token_name t))"
      "\<not> nullish ((heap w ! d) ''rest_apitoken'')"
      "truthy (get_prop (heap w) ((heap w ! d) ''rest_apitoken'') ''token'')"
    then have t: "dynatrace_token ?h (getDynatraceCredentials ext) (token_name t)
        = get_prop ?h ((?h ! d) ''rest_apitoken'') ''token''" by (simp add: tok)
    show "fst (getExporter ext t x w)
          = Inr (Exporter (exporter_module x) (exporter_class x) (length (heap w)))
      \<and> get_prop (heap (snd (getExporter ext t x w))) (Ref (length (heap w))) ''url''
          = Str (to_string ((heap w ! d) ''apiurl'') @ ''/v2/otlp/v1/traces'')
      \<and> get_prop (heap (snd (getExporter ext t x w)))
           (get_prop (heap (snd (getExporter ext t x w))) (Ref (length (heap w))) ''headers'')
           ''authorization''
          = Str (''Api-Token '' @
                 to_string (get_prop (heap w) ((heap w ! d) ''rest_apitoken'') ''token''))"
      using s[unfolded t, OF a(3)] .
  qed
  have 3: "\<not> truthy ((heap w ! d) (token_name t))
        \<and> (nullish ((heap w ! d) ''rest_apitoken'')
            \<or> \<not> truthy (get_prop (heap w) ((heap w ! d) ''rest_apitoken'') ''token'')) \<longrightarrow>
        fst (getExporter ext t x w) = Inl (no_token_error (token_name t))
      \<and> fails_naming (fst (getExporter ext t x w)) (token_name t)
      \<and> fails_naming (fst (getExporter ext t x w)) ''rest_apitoken.token''"
  proof (intro impI, elim conjE)
    assume a: "\<not> truthy ((heap w ! d) (token_name t))"
      "nullish ((heap w ! d) ''rest_apitoken'')
            \<or> \<not> truthy (get_prop (heap w) ((heap w ! d) ''rest_apitoken'') ''token'')"
    then have t: "\<not> truthy (dynatrace_token ?h (getDynatraceCredentials ext) (token_name t))"
      by (auto simp: tok)
    show "fst (getExporter ext t x w) = Inl (no_token_error (token_name t))
      \<and> fails_naming (fst (getExporter ext t x w)) (token_name t)
      \<and> fails_naming (fst (getExporter ext t x w)) ''rest_apitoken.token''"
      using f[OF t] by simp
  qed
  show ?thesis by (rule conjI[OF 1 conjI[OF 2 3]])
qed

theorem dynatrace_injection_witness:
  "fst (getExporter (example_ext\<lparr>getDynatraceCredentials := Ref 0\<rparr>)
          (example_cfg ''telemetry-to-dynatrace'' (Some 1)) (otlp_exporter (Some 1)) example_world)
     = Inr (Exporter ''@opentelemetry/exporter-trace-otlp-proto'' ''OTLPTraceExporter'' 8)
   \<and> get_prop (heap (snd (getExporter (example_ext\<lparr>getDynatraceCredentials := Ref 0\<rparr>)
          (example_cfg ''telemetry-to-dynatrace'' (Some 1)) (otlp_exporter (Some 1)) example_world)))
        (Ref 8) ''url'' = Str ''https://abc.live.dynatrace.com/api/v2/otlp/v1/traces''
   \<and> get_prop (heap (snd (getExporter (example_ext\<lparr>getDynatraceCredentials := Ref 0\<rparr>)
          (example_cfg ''telemetry-to-dynatrace'' (Some 1)) (otlp_exporter (Some 1)) example_world)))
        (get_prop (heap (snd (getExporter (example_ext\<lparr>getDynatraceCredentials := Ref 0\<rparr>)
          (example_cfg ''telemetry-to-dynatrace'' (Some 1)) (otlp_exporter (Some 1)) example_world)))
           (Ref 8) ''headers'') ''authorization'' = Str ''Api-Token dt0c01.XYZ''
   \<and> fst (getExporter (example_ext\<lparr>getDynatraceCredentials := Ref 8\<rparr>)
          (example_cfg ''telemetry-to-dynatrace'' None) (otlp_exporter None) legacy_world)
     = Inr (Exporter ''@opentelemetry/exporter-trace-otlp-proto'' ''OTLPTraceExporter'' 12)
   \<and> get_prop (heap (snd (getExporter (example_ext\<lparr>getDynatraceCredentials := Ref 8\<rparr>)
          (example_cfg ''telemetry-to-dynatrace'' None) (otlp_exporter None) legacy_world)))
        (get_prop (heap (snd (getExporter (example_ext\<lparr>getDynatraceCredentials := Ref 8\<rparr>)
          (example_cfg ''telemetry-to-dynatrace'' None) (otlp_exporter None) legacy_world)))
           (Ref 12) ''headers'') ''authorization'' = Str ''Api-Token dt0c01.OLD''
   \<and> fst (getExporter (example_ext\<lparr>getDynatraceCredentials := Ref 3\<rparr>)
          (example_cfg ''telemetry-to-dynatrace'' None) (otlp_exporter None) example_world)
     = Inl (no_token_error ''ingest_apitoken'')
   \<and> fails_naming (fst (getExporter (example_ext\<lparr>getDynatraceCredentials := Ref 3\<rparr>)
          (example_cfg ''telemetry-to-dynatrace'' None) (otlp_exporter None) example_world))
        ''ingest_apitoken''"
proof -
  let ?t = "example_cfg ''telemetry-to-dynatrace''"
  let ?e0 = "example_ext\<lparr>getDynatraceCredentials := Ref 0\<rparr>"
  let ?e3 = "example_ext\<lparr>getDynatraceCredentials := Ref 3\<rparr>"
  let ?e8 = "example_ext\<lparr>getDynatraceCredentials := Ref 8\<rparr>"
  let ?m = "[(''OTLPTraceExporter'', Class)]"
  have k: "kind_matches ''dynatrace'' (?t c)" for c
    by (simp add: kind_matches_def example_cfg_def sublist_Cons_right)
  have n: "token_name (?t c) \<notin> fst ` set object_prototype" for c
    by (simp add: example_cfg_def object_prototype_def)
  have c0: "getDynatraceCredentials ?e0 = Ref 0" "0 < length (heap example_world)"
    and c3: "getDynatraceCredentials ?e3 = Ref 3" "3 < length (heap example_world)"
    and c8: "getDynatraceCredentials ?e8 = Ref 8" "8 < length (heap legacy_world)"
    by (simp_all add: example_world_def example_heap_def legacy_defs)
  have r0: "valid_ref (heap example_world) ((heap example_world ! 0) ''rest_apitoken'')"
    and r3: "valid_ref (heap example_world) ((heap example_world ! 3) ''rest_apitoken'')"
    and r8: "valid_ref (heap legacy_world) ((heap legacy_world ! 8) ''rest_apitoken'')"
    by (simp_all add: valid_ref_def example_world_def example_heap_def legacy_defs empty_obj_def)
  have cls0: "exporter_module_of ?e0 (otlp_exporter c) = Inr ?m"
    and cls3: "exporter_module_of ?e3 (otlp_exporter c) = Inr ?m"
    and cls8: "exporter_module_of ?e8 (otlp_exporter c) = Inr ?m"
    and cls: "member ?m (exporter_class (otlp_exporter c)) = Some Class" for c
    by (simp_all add: exporter_module_of_def otlp_exporter_def example_ext_def member_def)
  have nu1: "nullish (config_copy (heap example_world) (exporter_config (otlp_exporter (Some 1)))
               ''url'')"
    and nu: "nullish (config_copy h (exporter_config (otlp_exporter None)) ''url'')" for h
    by (simp_all add: config_copy_def otlp_exporter_def example_world_def example_heap_def
        empty_obj_def)
  have na1: "nullish (config_copy (heap example_world) (exporter_config (otlp_exporter (Some 1)))
               ''headers'') \<or>
       (\<exists>a. config_copy (heap example_world) (exporter_config (otlp_exporter (Some 1))) ''headers''
               = Ref a \<and> a < length (heap example_world)
            \<and> nullish ((heap example_world ! a) ''authorization''))"
    by (simp add: config_copy_def otlp_exporter_def example_world_def example_heap_def
        empty_obj_def)
  have na: "nullish (config_copy h (exporter_config (otlp_exporter None)) ''headers'') \<or>
       (\<exists>a. config_copy h (exporter_config (otlp_exporter None)) ''headers''
               = Ref a \<and> a < length h \<and> nullish ((h ! a) ''authorization''))" for h
    by (simp add: config_copy_def otlp_exporter_def empty_obj_def)
  have names: "exporter_module (otlp_exporter c) = ''@opentelemetry/exporter-trace-otlp-proto''"
    "exporter_class (otlp_exporter c) = ''OTLPTraceExporter''"
    "token_name (?t c) = ''ingest_apitoken''" for c
    by (simp_all add: otlp_exporter_def example_cfg_def)
  have f0: "(heap example_world ! 0) ''ingest_apitoken'' = Str ''dt0c01.XYZ''"
    "(heap example_world ! 0) ''apiurl'' = Str ''https://abc.live.dynatrace.com/api''"
    and f3: "(heap example_world ! 3) ''ingest_apitoken'' = Undefined"
    "(heap example_world ! 3) ''rest_apitoken'' = Undefined"
    and f8: "(heap legacy_world ! 8) ''ingest_apitoken'' = Undefined"
    "(heap legacy_world ! 8) ''rest_apitoken'' = Ref 9"
    "get_prop (heap legacy_world) (Ref 9) ''token'' = Str ''dt0c01.OLD''"
    and len: "length (heap example_world) = 8" "length (heap legacy_world) = 12"
    by (simp_all add: example_world_def example_heap_def legacy_defs empty_obj_def get_prop_def
        own_or_inherited_def)
  have t0: "truthy ((heap example_world ! 0) (token_name (?t (Some 1))))"
    by (simp add: names f0)
  have t8: "\<not> truthy ((heap legacy_world ! 8) (token_name (?t None)))
        \<and> \<not> nullish ((heap legacy_world ! 8) ''rest_apitoken'')
        \<and> truthy (get_prop (heap legacy_world) ((heap legacy_world ! 8) ''rest_apitoken'')
             ''token'')"
    by (simp add: names f8)
  have t3: "\<not> truthy ((heap example_world ! 3) (token_name (?t None)))
        \<and> (nullish ((heap example_world ! 3) ''rest_apitoken'')
            \<or> \<not> truthy (get_prop (heap example_world) ((heap example_world ! 3)
                 ''rest_apitoken'') ''token''))"
    by (simp add: names f3)
  note ok = dynatrace_injection[OF c0 k[of "Some 1"] n r0 cls0 cls nu1 na1, THEN conjunct1,
      THEN mp, OF t0]
  note old = dynatrace_injection[OF c8 k[of None] n r8 cls8 cls nu na, THEN conjunct2,
      THEN conjunct1, THEN mp, OF t8]
  note ko = dynatrace_injection[OF c3 k[of None] n r3 cls3 cls nu na, THEN conjunct2,
      THEN conjunct2, THEN mp, OF t3]
  have 1: "fst (getExporter ?e0 (?t (Some 1)) (otlp_exporter (Some 1)) example_world)
     = Inr (Exporter ''@opentelemetry/exporter-trace-otlp-proto'' ''OTLPTraceExporter'' 8)"
    using ok[THEN conjunct1] by (simp add: names len)
  have 2: "get_prop (heap (snd (getExporter ?e0 (?t (Some 1)) (otlp_exporter (Some 1))
             example_world))) (Ref 8) ''url''
     = Str ''https://abc.live.dynatrace.com/api/v2/otlp/v1/traces''"
    using ok[THEN conjunct2, THEN conjunct1] by (simp add: names len f0)
  have 3: "get_prop (heap (snd (getExporter ?e0 (?t (Some 1)) (otlp_exporter (Some 1))
             example_world)))
        (get_prop (heap (snd (getExporter ?e0 (?t (Some 1)) (otlp_exporter (Some 1))
             example_world))) (Ref 8) ''headers'') ''authorization''
     = Str ''Api-Token dt0c01.XYZ''"
    using ok[THEN conjunct2, THEN conjunct2] by (simp add: names len f0)
  have 4: "fst (getExporter ?e8 (?t None) (otlp_exporter None) legacy_world)
     = Inr (Exporter ''@opentelemetry/exporter-trace-otlp-proto'' ''OTLPTraceExporter'' 12)"
    using old[THEN conjunct1] by (simp add: names len)
  have 5: "get_prop (heap (snd (getExporter ?e8 (?t None) (otlp_exporter None) legacy_world)))
        (get_prop (heap (snd (getExporter ?e8 (?t None) (otlp_exporter None) legacy_world)))
           (Ref 12) ''headers'') ''authorization''
     = Str ''Api-Token dt0c01.OLD''"
    using old[THEN conjunct2, THEN conjunct2] by (simp add: names len f8)
  have 6: "fst (getExporter ?e3 (?t None) (otlp_exporter None) example_world)
     = Inl (no_token_error ''ingest_apitoken'')"
    using ko[THEN conjunct1] by (simp add: names)
  have 7: "fails_naming (fst (getExporter ?e3 (?t None) (otlp_exporter None) example_world))
        ''ingest_apitoken''"
    using ko[THEN conjunct2, THEN conjunct1] by (simp add: names)
  show ?thesis
    by (rule conjI[OF 1 conjI[OF 2 conjI[OF 3 conjI[OF 4 conjI[OF 5 conjI[OF 6 7]]]]]])
qed

text \<open>
  C3 as stated fails in three places. A token field that is present but holds the empty
  string counts as missing, since lines 91 and 92 test truthiness: construction fails. A
  \<^verbatim>\<open>headers\<close> entry that is \<^verbatim>\<open>false\<close> is kept by line 88, and the assignment of line 94
  to a property of a primitive is dropped: no \<^verbatim>\<open>headers.authorization\<close> arrives. And
  with the token field name \<^verbatim>\<open>constructor\<close> the lookup of line 91 finds the member every
  object inherits: construction succeeds on credentials that have neither token field.
\<close>

theorem dynatrace_injection_counterexample:
  "(heap legacy_world ! 10) ''ingest_apitoken'' = Str ''''
   \<and> exporter_config (otlp_exporter None) = None
   \<and> fst (getExporter (example_ext\<lparr>getDynatraceCredentials := Ref 10\<rparr>)
          (example_cfg ''telemetry-to-dynatrace'' None) (otlp_exporter None) legacy_world)
     = Inl (no_token_error ''ingest_apitoken'')
   \<and> (heap legacy_world ! 11) ''headers'' = Bool False
   \<and> (heap legacy_world ! 11) ''url'' = Undefined
   \<and> fst (getExporter (example_ext\<lparr>getDynatraceCredentials := Ref 0\<rparr>)
          (example_cfg ''telemetry-to-dynatrace'' (Some 11)) (otlp_exporter (Some 11)) legacy_world)
     = Inr (Exporter ''@opentelemetry/exporter-trace-otlp-proto'' ''OTLPTraceExporter'' 12)
   \<and> get_prop (heap (snd (getExporter (example_ext\<lparr>getDynatraceCredentials := Ref 0\<rparr>)
          (example_cfg ''telemetry-to-dynatrace'' (Some 11)) (otlp_exporter (Some 11))
          legacy_world))) (Ref 12) ''headers'' = Bool False
   \<and> get_prop (heap (snd (getExporter (example_ext\<lparr>getDynatraceCredentials := Ref 0\<rparr>)
          (example_cfg ''telemetry-to-dynatrace'' (Some 11)) (otlp_exporter (Some 11))
          legacy_world))) (Bool False) ''authorization'' = Undefined
   \<and> (heap example_world ! 3) ''constructor'' = Undefined
   \<and> (heap example_world ! 3) ''rest_apitoken'' = Undefined
   \<and> fst (getExporter (example_ext\<lparr>getDynatraceCredentials := Ref 3\<rparr>)
          ((example_cfg ''telemetry-to-dynatrace'' None)\<lparr>token_name := ''constructor''\<rparr>)
          (otlp_exporter None) example_world)
     = Inr (Exporter ''@opentelemetry/exporter-trace-otlp-proto'' ''OTLPTraceExporter'' 8)"
  by (simp add: example_defs legacy_defs exporter_eval)

subsection \<open>C4: when a token is required\<close>

text \<open>
  C4, as amended. During the Dynatrace injection a token is required whether or not
  \<^verbatim>\<open>headers.authorization\<close> is set. Let the credentials be present, the kind contain
  \<^verbatim>\<open>dynatrace\<close>, the exporter class be a member of its module and the configured token
  field name be none of the names that every object inherits. If the credentials hold no
  token, neither under the configured field name nor under \<^verbatim>\<open>rest_apitoken.token\<close>,
  exporter construction fails with the error naming both token fields, for every exporter
  config, also one whose \<^verbatim>\<open>headers.authorization\<close> the caller set. If they hold a token
  under either and the exporter class is a class, construction succeeds and a
  \<^verbatim>\<open>headers.authorization\<close> the caller set is the one the exporter gets.
\<close>

theorem token_required_regardless:
  assumes creds: "getDynatraceCredentials ext = Ref d" "d < length (heap w)"
    and kind: "kind_matches ''dynatrace'' t"
    and name: "token_name t \<notin> fst ` set object_prototype"
    and rest: "valid_ref (heap w) ((heap w ! d) ''rest_apitoken'')"
    and cls: "exporter_module_of ext x = Inr m" "member m (exporter_class x) = Some e"
  shows "(\<not> truthy ((heap w ! d) (token_name t))
        \<and> (nullish ((heap w ! d) ''rest_apitoken'')
            \<or> \<not> truthy (get_prop (heap w) ((heap w ! d) ''rest_apitoken'') ''token'')) \<longrightarrow>
        fst (getExporter ext t x w) = Inl (no_token_error (token_name t)))
    \<and> ((truthy ((heap w ! d) (token_name t))
         \<or> \<not> nullish ((heap w ! d) ''rest_apitoken'')
            \<and> truthy (get_prop (heap w) ((heap w ! d) ''rest_apitoken'') ''token''))
        \<and> e = Class \<longrightarrow>
        fst (getExporter ext t x w)
          = Inr (Exporter (exporter_module x) (exporter_class x) (length (heap w)))
        \<and> (\<forall>a. config_copy (heap w) (exporter_config x) ''headers'' = Ref a
               \<and> a < length (heap w) \<and> \<not> nullish ((heap w ! a) ''authorization'') \<longrightarrow>
             get_prop (heap (snd (getExporter ext t x w)))
               (get_prop (heap (snd (getExporter ext t x w))) (Ref (length (heap w))) ''headers'')
               ''authorization''
             = (heap w ! a) ''authorization''))"
proof -
  let ?h = "heap w"
  let ?tok = "dynatrace_token ?h (getDynatraceCredentials ext) (token_name t)"
  have tr: "truthy (getDynatraceCredentials ext)"
    and v1: "valid_ref ?h (getDynatraceCredentials ext)"
    using creds by (simp_all add: valid_ref_def)
  have ra: "get_prop ?h (getDynatraceCredentials ext) ''rest_apitoken'' = (?h ! d) ''rest_apitoken''"
    using creds by (simp add: get_prop_own)
  have v2: "valid_ref ?h (get_prop ?h (getDynatraceCredentials ext) ''rest_apitoken'')"
    unfolding ra by (rule rest)
  have tok: "?tok =
     (if truthy ((?h ! d) (token_name t)) then (?h ! d) (token_name t)
      else if nullish ((?h ! d) ''rest_apitoken'') then Undefined
      else get_prop ?h ((?h ! d) ''rest_apitoken'') ''token'')"
    unfolding creds(1) by (rule dynatrace_token_fields[OF creds(2) name])
  note g = getExporter_dynatrace[OF tr kind v1 v2 cls, unfolded Let_def]
  have 1: "\<not> truthy ((heap w ! d) (token_name t))
        \<and> (nullish ((heap w ! d) ''rest_apitoken'')
            \<or> \<not> truthy (get_prop (heap w) ((heap w ! d) ''rest_apitoken'') ''token'')) \<longrightarrow>
        fst (getExporter ext t x w) = Inl (no_token_error (token_name t))"
  proof (intro impI, elim conjE)
    assume a: "\<not> truthy ((heap w ! d) (token_name t))"
      "nullish ((heap w ! d) ''rest_apitoken'')
            \<or> \<not> truthy (get_prop (heap w) ((heap w ! d) ''rest_apitoken'') ''token'')"
    then have "\<not> truthy ?tok" by (auto simp: tok)
    then show "fst (getExporter ext t x w) = Inl (no_token_error (token_name t))"
      by (rule dynatrace_failure(1)[OF tr kind v1 v2 cls])
  qed
  have 2: "(truthy ((heap w ! d) (token_name t))
         \<or> \<not> nullish ((heap w ! d) ''rest_apitoken'')
            \<and> truthy (get_prop (heap w) ((heap w ! d) ''rest_apitoken'') ''token''))
        \<and> e = Class \<longrightarrow>
        fst (getExporter ext t x w)
          = Inr (Exporter (exporter_module x) (exporter_class x) (length (heap w)))
        \<and> (\<forall>a. config_copy (heap w) (exporter_config x) ''headers'' = Ref a
               \<and> a < length (heap w) \<and> \<not> nullish ((heap w ! a) ''authorization'') \<longrightarrow>
             get_prop (heap (snd (getExporter ext t x w)))
               (get_prop (heap (snd (getExporter ext t x w))) (Ref (length (heap w))) ''headers'')
               ''authorization''
             = (heap w ! a) ''authorization'')"
  proof (intro impI, elim conjE)
    assume a: "truthy ((heap w ! d) (token_name t))
         \<or> \<not> nullish ((heap w ! d) ''rest_apitoken'')
            \<and> truthy (get_prop (heap w) ((heap w ! d) ''rest_apitoken'') ''token'')"
      and e: "e = Class"
    from a have t: "truthy ?tok" by (auto simp: tok)
    have r: "fst (getExporter ext t x w)
          = Inr (Exporter (exporter_module x) (exporter_class x) (length (heap w)))"
      using t e by (simp add: g)
    note k = getExporter_keeps[OF r]
    have kept: "get_prop (heap (snd (getExporter ext t x w)))
               (get_prop (heap (snd (getExporter ext t x w))) (Ref (length (heap w))) ''headers'')
               ''authorization''
             = (heap w ! a) ''authorization''"
      if h: "config_copy (heap w) (exporter_config x) ''headers'' = Ref a"
        "a < length (heap w)" "\<not> nullish ((heap w ! a) ''authorization'')" for a
    proof -
      have own: "get_prop ?h (Ref a) ''authorization'' = (?h ! a) ''authorization''"
        using h(2) by (simp add: get_prop_own)
      have "get_prop (heap (snd (getExporter ext t x w))) (Ref (length (heap w))) ''headers''
          = Ref a"
        using k(3)[of "''headers''"] h(1) by simp
      then show ?thesis using k(4)[OF h(2), of "''authorization''"] h(3) own by simp
    qed
    show "fst (getExporter ext t x w)
          = Inr (Exporter (exporter_module x) (exporter_class x) (length (heap w)))
        \<and> (\<forall>a. config_copy (heap w) (exporter_config x) ''headers'' = Ref a
               \<and> a < length (heap w) \<and> \<not> nullish ((heap w ! a) ''authorization'') \<longrightarrow>
             get_prop (heap (snd (getExporter ext t x w)))
               (get_prop (heap (snd (getExporter ext t x w))) (Ref (length (heap w))) ''headers'')
               ''authorization''
             = (heap w ! a) ''authorization'')"
      using r kept by blast
  qed
  show ?thesis by (rule conjI[OF 1 2])
qed

theorem token_required_regardless_witness:
  "fst (getExporter (example_ext\<lparr>getDynatraceCredentials := Ref 3\<rparr>)
          (example_cfg ''telemetry-to-dynatrace'' (Some 4)) (otlp_exporter (Some 4)) example_world)
     = Inl (no_token_error ''ingest_apitoken'')
   \<and> fst (getExporter (example_ext\<lparr>getDynatraceCredentials := Ref 8\<rparr>)
          (example_cfg ''telemetry-to-dynatrace'' (Some 4)) (otlp_exporter (Some 4)) legacy_world)
     = Inr (Exporter ''@opentelemetry/exporter-trace-otlp-proto'' ''OTLPTraceExporter'' 12)
   \<and> get_prop (heap (snd (getExporter (example_ext\<lparr>getDynatraceCredentials := Ref 8\<rparr>)
          (example_cfg ''telemetry-to-dynatrace'' (Some 4)) (otlp_exporter (Some 4)) legacy_world)))
        (get_prop (heap (snd (getExporter (example_ext\<lparr>getDynatraceCredentials := Ref 8\<rparr>)
          (example_cfg ''telemetry-to-dynatrace'' (Some 4)) (otlp_exporter (Some 4)) legacy_world)))
           (Ref 12) ''headers'') ''authorization'' = Str ''Bearer mine''"
proof -
  let ?t = "example_cfg ''telemetry-to-dynatrace'' (Some 4)"
  let ?x = "otlp_exporter (Some 4)"
  let ?e3 = "example_ext\<lparr>getDynatraceCredentials := Ref 3\<rparr>"
  let ?e8 = "example_ext\<lparr>getDynatraceCredentials := Ref 8\<rparr>"
  let ?m = "[(''OTLPTraceExporter'', Class)]"
  have k: "kind_matches ''dynatrace'' ?t"
    by (simp add: kind_matches_def example_cfg_def sublist_Cons_right)
  have n: "token_name ?t \<notin> fst ` set object_prototype"
    by (simp add: example_cfg_def object_prototype_def)
  have c3: "getDynatraceCredentials ?e3 = Ref 3" "3 < length (heap example_world)"
    and c8: "getDynatraceCredentials ?e8 = Ref 8" "8 < length (heap legacy_world)"
    by (simp_all add: example_world_def example_heap_def legacy_defs)
  have r3: "valid_ref (heap example_world) ((heap example_world ! 3) ''rest_apitoken'')"
    and r8: "valid_ref (heap legacy_world) ((heap legacy_world ! 8) ''rest_apitoken'')"
    by (simp_all add: valid_ref_def example_world_def example_heap_def legacy_defs empty_obj_def)
  have cls3: "exporter_module_of ?e3 ?x = Inr ?m"
    and cls8: "exporter_module_of ?e8 ?x = Inr ?m"
    and cls: "member ?m (exporter_class ?x) = Some Class"
    by (simp_all add: exporter_module_of_def otlp_exporter_def example_ext_def member_def)
  have names: "exporter_module ?x = ''@opentelemetry/exporter-trace-otlp-proto''"
    "exporter_class ?x = ''OTLPTraceExporter''"
    "token_name ?t = ''ingest_apitoken''"
    by (simp_all add: otlp_exporter_def example_cfg_def)
  have f3: "(heap example_world ! 3) ''ingest_apitoken'' = Undefined"
    "(heap example_world ! 3) ''rest_apitoken'' = Undefined"
    and f8: "(heap legacy_world ! 8) ''ingest_apitoken'' = Undefined"
    "(heap legacy_world ! 8) ''rest_apitoken'' = Ref 9"
    "get_prop (heap legacy_world) (Ref 9) ''token'' = Str ''dt0c01.OLD''"
    and len: "length (heap legacy_world) = 12"
    and auth: "(heap legacy_world ! 5) ''authorization'' = Str ''Bearer mine''"
    by (simp_all add: example_world_def example_heap_def legacy_defs empty_obj_def get_prop_def
        own_or_inherited_def)
  have t3: "\<not> truthy ((heap example_world ! 3) (token_name ?t))
        \<and> (nullish ((heap example_world ! 3) ''rest_apitoken'')
            \<or> \<not> truthy (get_prop (heap example_world) ((heap example_world ! 3)
                 ''rest_apitoken'') ''token''))"
    by (simp add: names f3)
  have t8: "(truthy ((heap legacy_world ! 8) (token_name ?t))
         \<or> \<not> nullish ((heap legacy_world ! 8) ''rest_apitoken'')
            \<and> truthy (get_prop (heap legacy_world) ((heap legacy_world ! 8) ''rest_apitoken'')
                 ''token''))
        \<and> Class = Class"
    by (simp add: names f8)
  have hdr: "config_copy (heap legacy_world) (exporter_config ?x) ''headers'' = Ref 5
             \<and> 5 < length (heap legacy_world)
             \<and> \<not> nullish ((heap legacy_world ! 5) ''authorization'')"
    by (simp add: config_copy_def otlp_exporter_def example_world_def example_heap_def
        legacy_defs empty_obj_def)
  note ko = token_required_regardless[OF c3 k n r3 cls3 cls, THEN conjunct1, THEN mp, OF t3]
  note ok = token_required_regardless[OF c8 k n r8 cls8 cls, THEN conjunct2, THEN mp, OF t8]
  have 1: "fst (getExporter ?e3 ?t ?x example_world) = Inl (no_token_error ''ingest_apitoken'')"
    using ko by (simp add: names)
  have 2: "fst (getExporter ?e8 ?t ?x legacy_world)
     = Inr (Exporter ''@opentelemetry/exporter-trace-otlp-proto'' ''OTLPTraceExporter'' 12)"
    using ok[THEN conjunct1] by (simp add: names len)
  have 3: "get_prop (heap (snd (getExporter ?e8 ?t ?x legacy_world)))
        (get_prop (heap (snd (getExporter ?e8 ?t ?x legacy_world)))
           (Ref 12) ''headers'') ''authorization'' = Str ''Bearer mine''"
    using ok[THEN conjunct2, THEN spec, THEN mp, OF hdr] by (simp add: len auth)
  show ?thesis by (rule conjI[OF 1 conjI[OF 2 3]])
qed

text \<open>
  C4 as stated fails: with \<^verbatim>\<open>headers.authorization\<close> set to \<^verbatim>\<open>Bearer mine\<close> by the
  caller and credentials that have neither token field, construction fails over the
  missing token. The check of line 92 comes before line 94 looks at the header.
\<close>

theorem token_required_with_authorization_set:
  "get_prop (heap example_world) (Ref 4) ''headers'' = Ref 5
   \<and> get_prop (heap example_world) (Ref 5) ''authorization'' = Str ''Bearer mine''
   \<and> get_prop (heap example_world) (Ref 3) ''ingest_apitoken'' = Undefined
   \<and> get_prop (heap example_world) (Ref 3) ''rest_apitoken'' = Undefined
   \<and> fst (getExporter (example_ext\<lparr>getDynatraceCredentials := Ref 3\<rparr>)
          (example_cfg ''telemetry-to-dynatrace'' (Some 4)) (otlp_exporter (Some 4)) example_world)
       = Inl (Error (''Neither '' @ quoted ''ingest_apitoken'' @ '' nor deprecated ''
               @ quoted ''rest_apitoken.token'' @ '' found in Dynatrace credentials''))"
  by (simp add: example_defs exporter_eval no_token_error_def)

subsection \<open>C5: injection keeps what the caller set\<close>

text \<open>
  C5. Whenever exporter assembly succeeds, the object handed to the exporter constructor
  is a new one, every property of the declared config that holds a value (is neither
  null nor undefined) holds the same value in it, in particular \<^verbatim>\<open>url\<close>, \<^verbatim>\<open>headers\<close>
  and \<^verbatim>\<open>credentials\<close>, and every property of an object that existed before and holds a
  value still holds it, in particular \<^verbatim>\<open>authorization\<close> of the caller's headers.
  Neither the Dynatrace nor the Cloud Logging injection overwrites a value that is set.
\<close>

theorem injection_keeps_explicit_values:
  assumes "fst (getExporter ext t x w) = Inr ex"
  shows "ex = Exporter (exporter_module x) (exporter_class x) (length (heap w))
    \<and> length (heap w) < length (heap (snd (getExporter ext t x w)))
    \<and> (\<forall>k. \<not> nullish (config_copy (heap w) (exporter_config x) k) \<longrightarrow>
          get_prop (heap (snd (getExporter ext t x w))) (Ref (length (heap w))) k
            = config_copy (heap w) (exporter_config x) k)
    \<and> (\<forall>a k. a < length (heap w) \<and> \<not> nullish (get_prop (heap w) (Ref a) k) \<longrightarrow>
          get_prop (heap (snd (getExporter ext t x w))) (Ref a) k = get_prop (heap w) (Ref a) k)"
  using getExporter_keeps[OF assms] by blast

theorem injection_keeps_explicit_values_witness:
  "fst (getExporter
          (example_ext\<lparr>getDynatraceCredentials := Ref 0, getCloudLoggingCredentials := Ref 6\<rparr>)
          (example_cfg ''telemetry-to-dynatrace-and-cloud-logging'' (Some 4))
          (otlp_exporter (Some 4)) example_world)
     = Inr (Exporter ''@opentelemetry/exporter-trace-otlp-proto'' ''OTLPTraceExporter'' 8)
   \<and> get_prop (heap (snd (getExporter
          (example_ext\<lparr>getDynatraceCredentials := Ref 0, getCloudLoggingCredentials := Ref 6\<rparr>)
          (example_cfg ''telemetry-to-dynatrace-and-cloud-logging'' (Some 4))
          (otlp_exporter (Some 4)) example_world))) (Ref 8) ''url''
     = Str ''http://localhost:4318/v1/traces''
   \<and> get_prop (heap (snd (getExporter
          (example_ext\<lparr>getDynatraceCredentials := Ref 0, getCloudLoggingCredentials := Ref 6\<rparr>)
          (example_cfg ''telemetry-to-dynatrace-and-cloud-logging'' (Some 4))
          (otlp_exporter (Some 4)) example_world))) (Ref 8) ''headers''
     = Ref 5
   \<and> get_prop (heap (snd (getExporter
          (example_ext\<lparr>getDynatraceCredentials := Ref 0, getCloudLoggingCredentials := Ref 6\<rparr>)
          (example_cfg ''telemetry-to-dynatrace-and-cloud-logging'' (Some 4))
          (otlp_exporter (Some 4)) example_world))) (Ref 5) ''authorization''
     = Str ''Bearer mine''
   \<and> get_prop (heap (snd (getExporter
          (example_ext\<lparr>getDynatraceCredentials := Ref 0, getCloudLoggingCredentials := Ref 6\<rparr>)
          (example_cfg ''telemetry-to-dynatrace-and-cloud-logging'' (Some 4))
          (otlp_exporter (Some 4)) example_world))) (Ref 8) ''credentials''
     = Ref 7"
proof -
  let ?t = "example_cfg ''telemetry-to-dynatrace-and-cloud-logging'' (Some 4)"
  let ?e = "example_ext\<lparr>getDynatraceCredentials := Ref 0, getCloudLoggingCredentials := Ref 6\<rparr>"
  let ?w' = "snd (getExporter ?e ?t (otlp_exporter (Some 4)) example_world)"
  have run: "fst (getExporter ?e ?t (otlp_exporter (Some 4)) example_world)
     = Inr (Exporter ''@opentelemetry/exporter-trace-otlp-proto'' ''OTLPTraceExporter'' 8)"
    and injected: "get_prop (heap ?w') (Ref 8) ''credentials'' = Ref 7"
    by (simp_all add: example_defs exporter_eval)
  note kept = injection_keeps_explicit_values[OF run]
  have len: "length (heap example_world) = 8"
    by (simp add: example_world_def example_heap_def)
  have cfg: "config_copy (heap example_world) (exporter_config (otlp_exporter (Some 4))) ''url''
               = Str ''http://localhost:4318/v1/traces''"
    "config_copy (heap example_world) (exporter_config (otlp_exporter (Some 4))) ''headers''
               = Ref 5"
    "get_prop (heap example_world) (Ref 5) ''authorization'' = Str ''Bearer mine''"
    by (simp_all add: config_copy_def otlp_exporter_def example_world_def example_heap_def
        get_prop_def empty_obj_def)
  have 1: "get_prop (heap ?w') (Ref 8) ''url'' = Str ''http://localhost:4318/v1/traces''"
    using kept[THEN conjunct2, THEN conjunct2, THEN conjunct1, THEN spec, of "''url''"]
    by (simp add: cfg len)
  have 2: "get_prop (heap ?w') (Ref 8) ''headers'' = Ref 5"
    using kept[THEN conjunct2, THEN conjunct2, THEN conjunct1, THEN spec, of "''headers''"]
    by (simp add: cfg len)
  have 3: "get_prop (heap ?w') (Ref 5) ''authorization'' = Str ''Bearer mine''"
    using kept[THEN conjunct2, THEN conjunct2, THEN conjunct2, THEN spec, THEN spec,
        of 5 "''authorization''"]
    by (simp add: cfg len)
  show ?thesis by (rule conjI[OF run conjI[OF 1 conjI[OF 2 conjI[OF 3 injected]]]])
qed

subsection \<open>C6: the span processor of a run\<close>

text \<open>
  C6, as amended. A run of the bootstrap function with a \<^verbatim>\<open>tracing.exporter\<close> entry that
  returns normally leaves a provider in use and has added to its span processors exactly
  one, a \<^verbatim>\<open>BatchSpanProcessor\<close> exactly when \<^verbatim>\<open>NODE_ENV\<close> is \<^verbatim>\<open>production\<close> and a
  \<^verbatim>\<open>SimpleSpanProcessor\<close> otherwise, on the exporter built from the copy of the config;
  unless \<^verbatim>\<open>DT_NODE_PRELOAD_OPTIONS\<close> is set to a non-empty value and the telemetry kind
  contains \<^verbatim>\<open>dynatrace\<close>, in which case the run adds none and the store is untouched, no
  exporter config being copied. A run that fails adds none, and neither does a run
  without a \<^verbatim>\<open>tracing.exporter\<close> entry.
\<close>

theorem one_processor_per_run:
  "(\<forall>tr x. tracing t = Some tr \<and> exporter tr = Some x
        \<and> fst (module_exports ext t res w) = Inr () \<longrightarrow>
      delegate (snd (module_exports ext t res w)) \<noteq> None
      \<and> attached (snd (module_exports ext t res w)) = attached w @
        (if oneagent_bypass ext t then []
         else [if env_NODE_ENV ext = Some ''production''
               then BatchSpanProcessor
                      (Exporter (exporter_module x) (exporter_class x) (length (heap w)))
               else SimpleSpanProcessor
                      (Exporter (exporter_module x) (exporter_class x) (length (heap w)))])
      \<and> (oneagent_bypass ext t \<longrightarrow> heap (snd (module_exports ext t res w)) = heap w))
   \<and> (\<forall>e. fst (module_exports ext t res w) = Inl e \<longrightarrow>
        attached (snd (module_exports ext t res w)) = attached w)
   \<and> (tracing t = None \<or> (\<exists>tr. tracing t = Some tr \<and> exporter tr = None) \<longrightarrow>
        attached (snd (module_exports ext t res w)) = attached w)"
proof -
  have 1: "delegate (snd (module_exports ext t res w)) \<noteq> None
      \<and> attached (snd (module_exports ext t res w)) = attached w @
        (if oneagent_bypass ext t then []
         else [if env_NODE_ENV ext = Some ''production''
               then BatchSpanProcessor
                      (Exporter (exporter_module x) (exporter_class x) (length (heap w)))
               else SimpleSpanProcessor
                      (Exporter (exporter_module x) (exporter_class x) (length (heap w)))])
      \<and> (oneagent_bypass ext t \<longrightarrow> heap (snd (module_exports ext t res w)) = heap w)"
    if h: "tracing t = Some tr" "exporter tr = Some x"
      "fst (module_exports ext t res w) = Inr ()" for tr x
  proof -
    have m: "module_exports ext t res w = (Inr (), snd (module_exports ext t res w))"
      using h(3) by (simp add: prod_eq_iff)
    from h(1,2) m obtain w1 w2 where i: "install_provider ext t tr res w = (Inr (), w1)"
      and a: "attach_processor ext t x w1 = (Inr (), w2)"
      and w': "snd (module_exports ext t res w) = expose_tracer ext w2"
      by (rule module_exports_Inr)
    note i' = install_provider_Inr[OF i]
    note a' = attach_processor_Inr[OF a i'(2)]
    show ?thesis
      unfolding w' using i'(1,2,3) a' by (simp add: new_spanProcessor_def)
  qed
  have 2: "attached (snd (module_exports ext t res w)) = attached w"
    if h: "fst (module_exports ext t res w) = Inl e" for e
  proof -
    have m: "module_exports ext t res w = (Inl e, snd (module_exports ext t res w))"
      using h by (simp add: prod_eq_iff)
    from h obtain tr x where "tracing t = Some tr" "exporter tr = Some x"
      by (auto simp: module_exports_def split: option.splits)
    then show ?thesis using module_exports_Inl[OF _ _ m] by simp
  qed
  have 3: "attached (snd (module_exports ext t res w)) = attached w"
    if "tracing t = None \<or> (\<exists>tr. tracing t = Some tr \<and> exporter tr = None)"
    using module_exports_no_entry[OF that] by simp
  show ?thesis using 1 2 3 by blast
qed

theorem one_processor_per_run_witness:
  "attached example_world = []
   \<and> attached (snd (module_exports example_ext (example_cfg ''telemetry-to-dynatrace'' None)
        (Resource []) example_world))
     = [SimpleSpanProcessor (Exporter ''@opentelemetry/exporter-trace-otlp-proto''
          ''OTLPTraceExporter'' 8)]
   \<and> attached (snd (module_exports (example_ext\<lparr>env_NODE_ENV := Some ''production''\<rparr>)
        (example_cfg ''telemetry-to-dynatrace'' None) (Resource []) example_world))
     = [BatchSpanProcessor (Exporter ''@opentelemetry/exporter-trace-otlp-proto''
          ''OTLPTraceExporter'' 8)]
   \<and> attached (snd (module_exports
        (example_ext\<lparr>env_DT_NODE_PRELOAD_OPTIONS := Some ''-javaagent''\<rparr>)
        (example_cfg ''telemetry-to-dynatrace'' None) (Resource []) example_world))
     = []
   \<and> heap (snd (module_exports
        (example_ext\<lparr>env_DT_NODE_PRELOAD_OPTIONS := Some ''-javaagent''\<rparr>)
        (example_cfg ''telemetry-to-dynatrace'' None) (Resource []) example_world))
     = heap example_world
   \<and> attached (snd (module_exports example_ext
        ((example_cfg ''telemetry-to-dynatrace'' None)
           \<lparr>tracing := Some ((example_tracing None)
              \<lparr>exporter := Some ((otlp_exporter None)\<lparr>exporter_class := ''NoSuchExporter''\<rparr>)\<rparr>)\<rparr>)
        (Resource []) example_world))
     = []
   \<and> attached (snd (module_exports example_ext
        ((example_cfg ''telemetry-to-dynatrace'' None)\<lparr>tracing := None\<rparr>)
        (Resource []) example_world))
     = []"
proof -
  let ?t = "example_cfg ''telemetry-to-dynatrace'' None"
  let ?bad = "?t\<lparr>tracing := Some ((example_tracing None)
              \<lparr>exporter := Some ((otlp_exporter None)\<lparr>exporter_class := ''NoSuchExporter''\<rparr>)\<rparr>)\<rparr>"
  let ?none = "?t\<lparr>tracing := None\<rparr>"
  have t: "tracing ?t = Some (example_tracing None)
      \<and> exporter (example_tracing None) = Some (otlp_exporter None)"
    by (simp add: example_cfg_def example_tracing_def)
  have facts: "attached example_world = []" "length (heap example_world) = 8"
    "exporter_module (otlp_exporter None) = ''@opentelemetry/exporter-trace-otlp-proto''"
    "exporter_class (otlp_exporter None) = ''OTLPTraceExporter''"
    by (simp_all add: attached_def example_world_def example_heap_def otlp_exporter_def)
  have by_pass: "\<not> oneagent_bypass example_ext ?t"
    "\<not> oneagent_bypass (example_ext\<lparr>env_NODE_ENV := Some ''production''\<rparr>) ?t"
    "oneagent_bypass (example_ext\<lparr>env_DT_NODE_PRELOAD_OPTIONS := Some ''-javaagent''\<rparr>) ?t"
    by (simp_all add: oneagent_bypass_def env_truthy_def example_ext_def kind_matches_def
        example_cfg_def sublist_Cons_right)
  have env: "env_NODE_ENV example_ext = None"
    by (simp add: example_ext_def)
  have none: "tracing ?none = None \<or> (\<exists>tr. tracing ?none = Some tr \<and> exporter tr = None)"
    by simp
  note dev = one_processor_per_run[of ?t example_ext "Resource []" example_world,
      THEN conjunct1, THEN spec, THEN spec, THEN mp, OF conjI[OF conjunct1[OF t]
        conjI[OF conjunct2[OF t] example_run]], THEN conjunct2]
  note prod = one_processor_per_run[of ?t "example_ext\<lparr>env_NODE_ENV := Some ''production''\<rparr>"
      "Resource []" example_world,
      THEN conjunct1, THEN spec, THEN spec, THEN mp, OF conjI[OF conjunct1[OF t]
        conjI[OF conjunct2[OF t] example_run_production]], THEN conjunct2]
  note agent = one_processor_per_run[of ?t
      "example_ext\<lparr>env_DT_NODE_PRELOAD_OPTIONS := Some ''-javaagent''\<rparr>"
      "Resource []" example_world,
      THEN conjunct1, THEN spec, THEN spec, THEN mp, OF conjI[OF conjunct1[OF t]
        conjI[OF conjunct2[OF t] example_run_oneagent]], THEN conjunct2]
  note failed = one_processor_per_run[of ?bad example_ext "Resource []" example_world,
      THEN conjunct2, THEN conjunct1, THEN spec, THEN mp, OF example_run_unknown_exporter]
  note absent = one_processor_per_run[of ?none example_ext "Resource []" example_world,
      THEN conjunct2, THEN conjunct2, THEN mp, OF none]
  have 1: "attached (snd (module_exports example_ext ?t (Resource []) example_world))
     = [SimpleSpanProcessor (Exporter ''@opentelemetry/exporter-trace-otlp-proto''
          ''OTLPTraceExporter'' 8)]"
    using dev[THEN conjunct1] by (simp add: facts by_pass env)
  have 2: "attached (snd (module_exports (example_ext\<lparr>env_NODE_ENV := Some ''production''\<rparr>)
        ?t (Resource []) example_world))
     = [BatchSpanProcessor (Exporter ''@opentelemetry/exporter-trace-otlp-proto''
          ''OTLPTraceExporter'' 8)]"
    using prod[THEN conjunct1] by (simp add: facts by_pass)
  have 3: "attached (snd (module_exports
        (example_ext\<lparr>env_DT_NODE_PRELOAD_OPTIONS := Some ''-javaagent''\<rparr>)
        ?t (Resource []) example_world)) = []"
    using agent[THEN conjunct1] by (simp add: facts by_pass)
  have 4: "heap (snd (module_exports
        (example_ext\<lparr>env_DT_NODE_PRELOAD_OPTIONS := Some ''-javaagent''\<rparr>)
        ?t (Resource []) example_world)) = heap example_world"
    using agent[THEN conjunct2] by_pass(3) by simp
  have 5: "attached (snd (module_exports example_ext ?bad (Resource []) example_world)) = []"
    using failed by (simp add: facts)
  have 6: "attached (snd (module_exports example_ext ?none (Resource []) example_world)) = []"
    using absent by (simp add: facts)
  show ?thesis
    by (rule conjI[OF facts(1) conjI[OF 1 conjI[OF 2 conjI[OF 3 conjI[OF 4 conjI[OF 5 6]]]]]])
qed

text \<open>
  C6 as stated fails in three places, none of them under the bypass. A run whose exporter
  class is unknown fails at line 130 after line 119 has registered the provider: a
  provider with no span processor is left in use. With \<^verbatim>\<open>DT_NODE_PRELOAD_OPTIONS\<close> set
  to the empty string the marker is present but line 126 tests its truthiness: one span
  processor is attached although the kind contains \<^verbatim>\<open>dynatrace\<close>. And a run without a
  \<^verbatim>\<open>tracing\<close> section returns at line 109 and attaches none.
\<close>

theorem one_processor_counterexample:
  "oneagent_bypass example_ext (example_cfg ''telemetry-to-dynatrace'' None) = False
   \<and> delegate example_world = None
   \<and> fst (module_exports example_ext
        ((example_cfg ''telemetry-to-dynatrace'' None)
           \<lparr>tracing := Some ((example_tracing None)
              \<lparr>exporter := Some ((otlp_exporter None)\<lparr>exporter_class := ''NoSuchExporter''\<rparr>)\<rparr>)\<rparr>)
        (Resource []) example_world)
     = Inl (Error (''Unknown tracing exporter '' @ quoted ''NoSuchExporter'' @ '' in module ''
                   @ quoted ''@opentelemetry/exporter-trace-otlp-proto''))
   \<and> providers_constructed (snd (module_exports example_ext
        ((example_cfg ''telemetry-to-dynatrace'' None)
           \<lparr>tracing := Some ((example_tracing None)
              \<lparr>exporter := Some ((otlp_exporter None)\<lparr>exporter_class := ''NoSuchExporter''\<rparr>)\<rparr>)\<rparr>)
        (Resource []) example_world)) = 1
   \<and> map_option processors (delegate (snd (module_exports example_ext
        ((example_cfg ''telemetry-to-dynatrace'' None)
           \<lparr>tracing := Some ((example_tracing None)
              \<lparr>exporter := Some ((otlp_exporter None)\<lparr>exporter_class := ''NoSuchExporter''\<rparr>)\<rparr>)\<rparr>)
        (Resource []) example_world))) = Some []
   \<and> env_DT_NODE_PRELOAD_OPTIONS (example_ext\<lparr>env_DT_NODE_PRELOAD_OPTIONS := Some ''''\<rparr>)
       = Some ''''
   \<and> kind_matches ''dynatrace'' (example_cfg ''telemetry-to-dynatrace'' None)
   \<and> attached (snd (module_exports (example_ext\<lparr>env_DT_NODE_PRELOAD_OPTIONS := Some ''''\<rparr>)
        (example_cfg ''telemetry-to-dynatrace'' None) (Resource []) example_world))
     = [SimpleSpanProcessor (Exporter ''@opentelemetry/exporter-trace-otlp-proto''
          ''OTLPTraceExporter'' 8)]
   \<and> module_exports example_ext
        ((example_cfg ''telemetry-to-dynatrace'' None)\<lparr>tracing := None\<rparr>)
        (Resource []) example_world = (Inr (), example_world)
   \<and> attached example_world = []"
  by (simp add: example_defs bootstrap_eval exporter_eval unknown_in_module_def)

subsection \<open>C7: unknown kinds and classes\<close>

text \<open>
  C7, as amended. Take a name to be unknown to a module if the module does not export it
  and it is none of the names that every object inherits. Construction fails with an
  \<^verbatim>\<open>Error\<close> whose message contains the offending name in each of these cases: a sampler
  kind unknown to the SDK module; with the kind \<^verbatim>\<open>ParentBasedSampler\<close>, and only with it,
  a root kind unknown to the SDK module (an absent root reads as \<^verbatim>\<open>undefined\<close>); a
  built-in propagator name unknown to \<^verbatim>\<open>@opentelemetry/core\<close>; a custom propagator class,
  an instrumentation class or an exporter class unknown to the loaded module, where the
  message also contains the module name. In the two loops the entries before the
  offending one are taken to construct, so that the loop reaches it.
\<close>

theorem unknown_names_fail:
  "(kind s \<notin> fst ` set (sdk_trace_base ext) \<and> kind s \<notin> fst ` set object_prototype \<longrightarrow>
      getSampler ext t s = Inl (Error (''Unknown sampler '' @ kind s))
      \<and> fails_naming (getSampler ext t s) (kind s))
 \<and> (kind s = ''ParentBasedSampler'' \<and> kind s \<in> fst ` set (sdk_trace_base ext)
      \<and> undefined_or (root s) \<notin> fst ` set (sdk_trace_base ext)
      \<and> undefined_or (root s) \<notin> fst ` set object_prototype \<longrightarrow>
      getSampler ext t s = Inl (Error (''Unknown sampler '' @ undefined_or (root s)))
      \<and> fails_naming (getSampler ext t s) (undefined_or (root s)))
 \<and> (list_all2 (\<lambda>e p. new_propagator ext e = Inr p) pre ps
      \<and> n \<notin> fst ` set (otel_core ext) \<and> n \<notin> fst ` set object_prototype \<longrightarrow>
      getPropagator ext (pre @ Builtin n # post)
        = Inl (unknown_in_module ''propagator'' n ''@opentelemetry/core'')
      \<and> fails_naming (getPropagator ext (pre @ Builtin n # post)) n)
 \<and> (list_all2 (\<lambda>e p. new_propagator ext e = Inr p) pre ps
      \<and> load_module ext (mod_name c) = Inr m
      \<and> cls_name c \<notin> fst ` set m \<and> cls_name c \<notin> fst ` set object_prototype \<longrightarrow>
      getPropagator ext (pre @ Custom c # post)
        = Inl (unknown_in_module ''propagator'' (cls_name c) (mod_name c))
      \<and> fails_naming (getPropagator ext (pre @ Custom c # post)) (cls_name c)
      \<and> fails_naming (getPropagator ext (pre @ Custom c # post)) (mod_name c))
 \<and> (instrumentations t = Some (ipre @ (name, c) # ipost)
      \<and> list_all2 (\<lambda>e i. new_instrumentation ext (snd e) = Inr i) ipre insts
      \<and> load_module ext (mod_name c) = Inr m
      \<and> cls_name c \<notin> fst ` set m \<and> cls_name c \<notin> fst ` set object_prototype \<longrightarrow>
      getInstrumentations ext t
        = Inl (unknown_in_module ''instrumentation'' (cls_name c) (mod_name c))
      \<and> fails_naming (getInstrumentations ext t) (cls_name c)
      \<and> fails_naming (getInstrumentations ext t) (mod_name c))
 \<and> (exporter_module_of ext x = Inr m
      \<and> exporter_class x \<notin> fst ` set m \<and> exporter_class x \<notin> fst ` set object_prototype \<longrightarrow>
      getExporter ext t x w
        = (Inl (unknown_in_module ''tracing exporter'' (exporter_class x) (exporter_module x)), w)
      \<and> fails_naming (fst (getExporter ext t x w)) (exporter_class x)
      \<and> fails_naming (fst (getExporter ext t x w)) (exporter_module x))"
proof -
  have own: "member mm nn \<noteq> None" if "nn \<in> fst ` set mm" for mm nn
    using that by (auto simp: member_def map_of_eq_None_iff split: option.splits)
  have 1: "getSampler ext t s = Inl (Error (''Unknown sampler '' @ kind s))"
    if "kind s \<notin> fst ` set (sdk_trace_base ext)" "kind s \<notin> fst ` set object_prototype"
    using member_unknown[OF that] by (simp add: getSampler_def Let_def)
  have 2: "getSampler ext t s = Inl (Error (''Unknown sampler '' @ undefined_or (root s)))"
    if "kind s = ''ParentBasedSampler''" "kind s \<in> fst ` set (sdk_trace_base ext)"
      "undefined_or (root s) \<notin> fst ` set (sdk_trace_base ext)"
      "undefined_or (root s) \<notin> fst ` set object_prototype"
    using member_unknown[OF that(3,4)] own[OF that(2)] that(1)
    by (auto simp: getSampler_def Let_def split: option.splits)
  have 3: "getPropagator ext (pre @ Builtin n # post)
        = Inl (unknown_in_module ''propagator'' n ''@opentelemetry/core'')"
    if "list_all2 (\<lambda>e p. new_propagator ext e = Inr p) pre ps"
      "n \<notin> fst ` set (otel_core ext)" "n \<notin> fst ` set object_prototype"
    using push_propagators_fail[OF that(1), of "Builtin n" _ post "[]"] member_unknown[OF that(2,3)]
    by (simp add: getPropagator_def)
  have 4: "getPropagator ext (pre @ Custom c # post)
        = Inl (unknown_in_module ''propagator'' (cls_name c) (mod_name c))"
    if "list_all2 (\<lambda>e p. new_propagator ext e = Inr p) pre ps"
      "load_module ext (mod_name c) = Inr m"
      "cls_name c \<notin> fst ` set m" "cls_name c \<notin> fst ` set object_prototype"
    using push_propagators_fail[OF that(1), of "Custom c" _ post "[]"] that(2)
      member_unknown[OF that(3,4)]
    by (simp add: getPropagator_def)
  have 5: "getInstrumentations ext t
        = Inl (unknown_in_module ''instrumentation'' (cls_name c) (mod_name c))"
    if "instrumentations t = Some (ipre @ (name, c) # ipost)"
      "list_all2 (\<lambda>e i. new_instrumentation ext (snd e) = Inr i) ipre insts"
      "load_module ext (mod_name c) = Inr m"
      "cls_name c \<notin> fst ` set m" "cls_name c \<notin> fst ` set object_prototype"
  proof -
    have l: "list_all2 (\<lambda>e i. new_instrumentation ext e = Inr i) (map snd ipre) insts"
      using that(2) by (simp add: list_all2_map1)
    have "new_instrumentation ext c
            = Inl (unknown_in_module ''instrumentation'' (cls_name c) (mod_name c))"
      using that(3) member_unknown[OF that(4,5)] by (simp add: new_instrumentation_def)
    from push_instrumentations_fail[OF l this, of "map snd ipost" "[]"] show ?thesis
      using that(1) by (simp add: getInstrumentations_def)
  qed
  have 6: "getExporter ext t x w
        = (Inl (unknown_in_module ''tracing exporter'' (exporter_class x) (exporter_module x)), w)"
    if "exporter_module_of ext x = Inr m"
      "exporter_class x \<notin> fst ` set m" "exporter_class x \<notin> fst ` set object_prototype"
    using that(1) member_unknown[OF that(2,3)] by (simp add: getExporter_def)
  have c1: "kind s \<notin> fst ` set (sdk_trace_base ext) \<and> kind s \<notin> fst ` set object_prototype \<longrightarrow>
      getSampler ext t s = Inl (Error (''Unknown sampler '' @ kind s))
      \<and> fails_naming (getSampler ext t s) (kind s)"
  proof (intro impI, elim conjE)
    assume a: "kind s \<notin> fst ` set (sdk_trace_base ext)" "kind s \<notin> fst ` set object_prototype"
    show "getSampler ext t s = Inl (Error (''Unknown sampler '' @ kind s))
      \<and> fails_naming (getSampler ext t s) (kind s)"
      unfolding 1[OF a] by (intro conjI refl fails_naming_suffix)
  qed
  have c2: "kind s = ''ParentBasedSampler'' \<and> kind s \<in> fst ` set (sdk_trace_base ext)
      \<and> undefined_or (root s) \<notin> fst ` set (sdk_trace_base ext)
      \<and> undefined_or (root s) \<notin> fst ` set object_prototype \<longrightarrow>
      getSampler ext t s = Inl (Error (''Unknown sampler '' @ undefined_or (root s)))
      \<and> fails_naming (getSampler ext t s) (undefined_or (root s))"
  proof (intro impI, elim conjE)
    assume a: "kind s = ''ParentBasedSampler''" "kind s \<in> fst ` set (sdk_trace_base ext)"
      "undefined_or (root s) \<notin> fst ` set (sdk_trace_base ext)"
      "undefined_or (root s) \<notin> fst ` set object_prototype"
    show "getSampler ext t s = Inl (Error (''Unknown sampler '' @ undefined_or (root s)))
      \<and> fails_naming (getSampler ext t s) (undefined_or (root s))"
      unfolding 2[OF a] by (intro conjI refl fails_naming_suffix)
  qed
  have c3: "list_all2 (\<lambda>e p. new_propagator ext e = Inr p) pre ps
      \<and> n \<notin> fst ` set (otel_core ext) \<and> n \<notin> fst ` set object_prototype \<longrightarrow>
      getPropagator ext (pre @ Builtin n # post)
        = Inl (unknown_in_module ''propagator'' n ''@opentelemetry/core'')
      \<and> fails_naming (getPropagator ext (pre @ Builtin n # post)) n"
    using 3 by (simp add: fails_naming_unknown)
  have c4: "list_all2 (\<lambda>e p. new_propagator ext e = Inr p) pre ps
      \<and> load_module ext (mod_name c) = Inr m
      \<and> cls_name c \<notin> fst ` set m \<and> cls_name c \<notin> fst ` set object_prototype \<longrightarrow>
      getPropagator ext (pre @ Custom c # post)
        = Inl (unknown_in_module ''propagator'' (cls_name c) (mod_name c))
      \<and> fails_naming (getPropagator ext (pre @ Custom c # post)) (cls_name c)
      \<and> fails_naming (getPropagator ext (pre @ Custom c # post)) (mod_name c)"
    using 4 by (simp add: fails_naming_unknown)
  have c5: "instrumentations t = Some (ipre @ (name, c) # ipost)
      \<and> list_all2 (\<lambda>e i. new_instrumentation ext (snd e) = Inr i) ipre insts
      \<and> load_module ext (mod_name c) = Inr m
      \<and> cls_name c \<notin> fst ` set m \<and> cls_name c \<notin> fst ` set object_prototype \<longrightarrow>
      getInstrumentations ext t
        = Inl (unknown_in_module ''instrumentation'' (cls_name c) (mod_name c))
      \<and> fails_naming (getInstrumentations ext t) (cls_name c)
      \<and> fails_naming (getInstrumentations ext t) (mod_name c)"
  proof (intro impI, elim conjE)
    assume a: "instrumentations t = Some (ipre @ (name, c) # ipost)"
      "list_all2 (\<lambda>e i. new_instrumentation ext (snd e) = Inr i) ipre insts"
      "load_module ext (mod_name c) = Inr m"
      "cls_name c \<notin> fst ` set m" "cls_name c \<notin> fst ` set object_prototype"
    show "getInstrumentations ext t
        = Inl (unknown_in_module ''instrumentation'' (cls_name c) (mod_name c))
      \<and> fails_naming (getInstrumentations ext t) (cls_name c)
      \<and> fails_naming (getInstrumentations ext t) (mod_name c)"
      unfolding 5[OF a] by (simp add: fails_naming_unknown)
  qed
  have c6: "exporter_module_of ext x = Inr m
      \<and> exporter_class x \<notin> fst ` set m \<and> exporter_class x \<notin> fst ` set object_prototype \<longrightarrow>
      getExporter ext t x w
        = (Inl (unknown_in_module ''tracing exporter'' (exporter_class x) (exporter_module x)), w)
      \<and> fails_naming (fst (getExporter ext t x w)) (exporter_class x)
      \<and> fails_naming (fst (getExporter ext t x w)) (exporter_module x)"
    using 6 by (simp add: fails_naming_unknown)
  show ?thesis
    by (rule conjI[OF c1 conjI[OF c2 conjI[OF c3 conjI[OF c4 conjI[OF c5 c6]]]]])
qed

theorem unknown_names_fail_witness:
  "getSampler example_ext (example_cfg ''telemetry-to-dynatrace'' None)
       \<lparr>kind = ''FooSampler'', root = None, ratio = None\<rparr>
     = Inl (Error ''Unknown sampler FooSampler'')
   \<and> fails_naming (getSampler example_ext (example_cfg ''telemetry-to-dynatrace'' None)
       \<lparr>kind = ''FooSampler'', root = None, ratio = None\<rparr>) ''FooSampler''
   \<and> getSampler example_ext (example_cfg ''telemetry-to-dynatrace'' None)
       \<lparr>kind = ''ParentBasedSampler'', root = Some ''BarSampler'', ratio = None\<rparr>
     = Inl (Error ''Unknown sampler BarSampler'')
   \<and> fails_naming (getSampler example_ext (example_cfg ''telemetry-to-dynatrace'' None)
       \<lparr>kind = ''ParentBasedSampler'', root = Some ''BarSampler'', ratio = None\<rparr>) ''BarSampler''
   \<and> fails_naming (getPropagator example_ext
        [Builtin ''W3CTraceContextPropagator'', Builtin ''JaegerPropagator'', Custom b3_propagator])
        ''JaegerPropagator''
   \<and> fails_naming (getPropagator example_ext
        [Builtin ''W3CTraceContextPropagator'', Custom (b3_propagator\<lparr>cls_name := ''B4Propagator''\<rparr>)])
        ''B4Propagator''
   \<and> fails_naming (getPropagator example_ext
        [Builtin ''W3CTraceContextPropagator'', Custom (b3_propagator\<lparr>cls_name := ''B4Propagator''\<rparr>)])
        ''@opentelemetry/propagator-b3''
   \<and> fails_naming (getInstrumentations example_ext
        ((example_cfg ''telemetry-to-dynatrace'' None)
           \<lparr>instrumentations := Some [(''http'', http_instrumentation []),
               (''pg'', (http_instrumentation [])\<lparr>cls_name := ''PgInstrumentation''\<rparr>)]\<rparr>))
        ''PgInstrumentation''
   \<and> fails_naming (fst (getExporter example_ext (example_cfg ''telemetry-to-dynatrace'' None)
        ((otlp_exporter None)\<lparr>exporter_class := ''NoSuchExporter''\<rparr>) example_world))
        ''NoSuchExporter''
   \<and> fails_naming (fst (getExporter example_ext (example_cfg ''telemetry-to-dynatrace'' None)
        ((otlp_exporter None)\<lparr>exporter_class := ''NoSuchExporter''\<rparr>) example_world))
        ''@opentelemetry/exporter-trace-otlp-proto''"
proof -
  let ?t = "example_cfg ''telemetry-to-dynatrace'' None"
  note kind_unknown = unknown_names_fail[where s="\<lparr>kind = ''FooSampler'', root = None, ratio = None\<rparr>"
        and ext=example_ext and t="?t", THEN conjunct1, THEN mp]
  have 1: "getSampler example_ext ?t \<lparr>kind = ''FooSampler'', root = None, ratio = None\<rparr>
     = Inl (Error ''Unknown sampler FooSampler'')"
    using kind_unknown[THEN conjunct1] by (simp add: example_ext_def object_prototype_def member_def)
  have 2: "fails_naming (getSampler example_ext ?t
       \<lparr>kind = ''FooSampler'', root = None, ratio = None\<rparr>) ''FooSampler''"
    using kind_unknown[THEN conjunct2] by (simp add: example_ext_def object_prototype_def member_def)
  note root_unknown = unknown_names_fail[where
        s="\<lparr>kind = ''ParentBasedSampler'', root = Some ''BarSampler'', ratio = None\<rparr>"
        and ext=example_ext and t="?t", THEN conjunct2, THEN conjunct1, THEN mp]
  have 3: "getSampler example_ext ?t
       \<lparr>kind = ''ParentBasedSampler'', root = Some ''BarSampler'', ratio = None\<rparr>
     = Inl (Error ''Unknown sampler BarSampler'')"
    using root_unknown[THEN conjunct1] by (simp add: example_ext_def object_prototype_def member_def undefined_or_def)
  have 4: "fails_naming (getSampler example_ext ?t
       \<lparr>kind = ''ParentBasedSampler'', root = Some ''BarSampler'', ratio = None\<rparr>) ''BarSampler''"
    using root_unknown[THEN conjunct2] by (simp add: example_ext_def object_prototype_def member_def undefined_or_def)
  have 5: "fails_naming (getPropagator example_ext
        [Builtin ''W3CTraceContextPropagator'', Builtin ''JaegerPropagator'', Custom b3_propagator])
        ''JaegerPropagator''"
    using unknown_names_fail[where ext=example_ext
        and pre="[Builtin ''W3CTraceContextPropagator'']"
        and ps="[Core_propagator ''W3CTraceContextPropagator'']"
        and n="''JaegerPropagator''" and post="[Custom b3_propagator]",
        THEN conjunct2, THEN conjunct2, THEN conjunct1, THEN mp, THEN conjunct2]
    by (simp add: example_ext_def object_prototype_def member_def)
  note class_unknown = unknown_names_fail[where ext=example_ext
        and pre="[Builtin ''W3CTraceContextPropagator'']"
        and ps="[Core_propagator ''W3CTraceContextPropagator'']"
        and c="b3_propagator\<lparr>cls_name := ''B4Propagator''\<rparr>" and m="[(''B3Propagator'', Class)]"
        and post="[]",
        THEN conjunct2, THEN conjunct2, THEN conjunct2, THEN conjunct1, THEN mp, THEN conjunct2]
  have 6: "fails_naming (getPropagator example_ext
        [Builtin ''W3CTraceContextPropagator'', Custom (b3_propagator\<lparr>cls_name := ''B4Propagator''\<rparr>)])
        ''B4Propagator''"
    using class_unknown[THEN conjunct1] by (simp add: example_ext_def object_prototype_def member_def b3_propagator_def)
  have 7: "fails_naming (getPropagator example_ext
        [Builtin ''W3CTraceContextPropagator'', Custom (b3_propagator\<lparr>cls_name := ''B4Propagator''\<rparr>)])
        ''@opentelemetry/propagator-b3''"
    using class_unknown[THEN conjunct2] by (simp add: example_ext_def object_prototype_def member_def b3_propagator_def)
  have 8: "fails_naming (getInstrumentations example_ext
        (?t\<lparr>instrumentations := Some [(''http'', http_instrumentation []),
               (''pg'', (http_instrumentation [])\<lparr>cls_name := ''PgInstrumentation''\<rparr>)]\<rparr>))
        ''PgInstrumentation''"
    using unknown_names_fail[where ext=example_ext
        and t="?t\<lparr>instrumentations := Some [(''http'', http_instrumentation []),
               (''pg'', (http_instrumentation [])\<lparr>cls_name := ''PgInstrumentation''\<rparr>)]\<rparr>"
        and ipre="[(''http'', http_instrumentation [])]" and name="''pg''"
        and c="(http_instrumentation [])\<lparr>cls_name := ''PgInstrumentation''\<rparr>"
        and ipost="[]" and m="[(''HttpInstrumentation'', Class)]"
        and insts="[Instrumentation ''@opentelemetry/instrumentation-http'' ''HttpInstrumentation''
                    [(''ignoreIncomingPaths'', CArr [])]]",
        THEN conjunct2, THEN conjunct2, THEN conjunct2, THEN conjunct2, THEN conjunct1, THEN mp,
        THEN conjunct2, THEN conjunct1]
    by (simp add: example_ext_def object_prototype_def member_def http_instrumentation_def new_instrumentation_def spread_def)
  note exporter_unknown = unknown_names_fail[where ext=example_ext and t="?t"
        and x="(otlp_exporter None)\<lparr>exporter_class := ''NoSuchExporter''\<rparr>"
        and m="[(''OTLPTraceExporter'', Class)]" and w=example_world,
        THEN conjunct2, THEN conjunct2, THEN conjunct2, THEN conjunct2, THEN conjunct2, THEN mp,
        THEN conjunct2]
  have 9: "fails_naming (fst (getExporter example_ext ?t
        ((otlp_exporter None)\<lparr>exporter_class := ''NoSuchExporter''\<rparr>) example_world))
        ''NoSuchExporter''"
    using exporter_unknown[THEN conjunct1]
    by (simp add: example_ext_def object_prototype_def member_def otlp_exporter_def exporter_module_of_def)
  have 10: "fails_naming (fst (getExporter example_ext ?t
        ((otlp_exporter None)\<lparr>exporter_class := ''NoSuchExporter''\<rparr>) example_world))
        ''@opentelemetry/exporter-trace-otlp-proto''"
    using exporter_unknown[THEN conjunct2]
    by (simp add: example_ext_def object_prototype_def member_def otlp_exporter_def exporter_module_of_def)
  show ?thesis
    by (rule conjI[OF 1 conjI[OF 2 conjI[OF 3 conjI[OF 4 conjI[OF 5 conjI[OF 6 conjI[OF 7
          conjI[OF 8 conjI[OF 9 10]]]]]]]]])
qed

text \<open>
  C7 as stated fails for a root kind: line 41 looks the root up only when the kind is
  \<^verbatim>\<open>ParentBasedSampler\<close>, so with the kind \<^verbatim>\<open>AlwaysOnSampler\<close> an unknown root is never
  noticed and the sampler is built. The tests of lines 39, 41, 55, 59, 70 and 81 also
  accept the names that every object inherits: \<^verbatim>\<open>constructor\<close> constructs a plain
  object, and \<^verbatim>\<open>toString\<close> is no constructor, so that \<^verbatim>\<open>new\<close> throws a \<^verbatim>\<open>TypeError\<close>
  that does not contain the name.
\<close>

theorem unknown_names_counterexample:
  "map_of (sdk_trace_base example_ext) ''constructor'' = None
   \<and> getSampler example_ext (example_cfg ''telemetry-to-dynatrace'' None)
       \<lparr>kind = ''constructor'', root = None, ratio = None\<rparr>
     = Inr (FilterSampler (Ignore_paths [''/health'']) (New_sampler ''constructor''))
   \<and> map_of (sdk_trace_base example_ext) ''toString'' = None
   \<and> getSampler example_ext (example_cfg ''telemetry-to-dynatrace'' None)
       \<lparr>kind = ''toString'', root = None, ratio = None\<rparr>
     = Inl (TypeError ''base[kind] is not a constructor'')
   \<and> map_of (sdk_trace_base example_ext) ''NoSuchSampler'' = None
   \<and> getSampler example_ext (example_cfg ''telemetry-to-dynatrace'' None)
       \<lparr>kind = ''AlwaysOnSampler'', root = Some ''NoSuchSampler'', ratio = None\<rparr>
     = Inr (FilterSampler (Ignore_paths [''/health'']) (New_sampler ''AlwaysOnSampler''))
   \<and> map_of (otel_core example_ext) ''constructor'' = None
   \<and> getPropagator example_ext [Builtin ''constructor'']
     = Inr (CompositePropagator [Core_propagator ''constructor''])"
  by (simp add: getSampler_def example_defs http_ignoreIncomingPaths_def
      select_shouldSample_def undefined_or_def object_prototype_def not_a_constructor_def
      getPropagator_def)

subsection \<open>C8: the order of the propagators\<close>

text \<open>
  C8. For every ordered list of propagator entries each of which can be constructed,
  \<^verbatim>\<open>_getPropagator\<close> returns the composite of exactly the propagators constructed from
  the entries, in the order of the list. Hence, for two entries A then B, the composite
  lets A write first and B second, so what B writes to a key is the final value.
\<close>

theorem propagator_order:
  assumes "list_all2 (\<lambda>e p. new_propagator ext e = Inr p) entries ps"
  shows "getPropagator ext entries = Inr (CompositePropagator ps)
     \<and> length ps = length entries
     \<and> (\<forall>i < length entries. new_propagator ext (entries ! i) = Inr (ps ! i))
     \<and> (\<forall>a b. entries = [a, b] \<longrightarrow>
          (\<exists>pa pb. new_propagator ext a = Inr pa \<and> new_propagator ext b = Inr pb
             \<and> ps = [pa, pb]
             \<and> composite_inject write (CompositePropagator ps) c = write pb (write pa c)))"
proof -
  have 1: "getPropagator ext entries = Inr (CompositePropagator ps)"
    using assms by (simp add: getPropagator_iff)
  have 2: "length ps = length entries"
    using assms by (simp add: list_all2_lengthD)
  have 3: "\<forall>i < length entries. new_propagator ext (entries ! i) = Inr (ps ! i)"
    using assms by (simp add: list_all2_conv_all_nth)
  have 4: "\<exists>pa pb. new_propagator ext a = Inr pa \<and> new_propagator ext b = Inr pb
             \<and> ps = [pa, pb]
             \<and> composite_inject write (CompositePropagator ps) c = write pb (write pa c)"
    if "entries = [a, b]" for a b
    using assms unfolding that by (auto simp: list_all2_Cons1)
  show ?thesis using 1 2 3 4 by blast
qed

theorem propagator_order_witness:
  "getPropagator example_ext [Builtin ''W3CTraceContextPropagator'', Custom b3_propagator]
     = Inr (CompositePropagator [Core_propagator ''W3CTraceContextPropagator'',
              Module_propagator ''@opentelemetry/propagator-b3'' ''B3Propagator'' []])
   \<and> composite_inject example_write
        (CompositePropagator [Core_propagator ''W3CTraceContextPropagator'',
              Module_propagator ''@opentelemetry/propagator-b3'' ''B3Propagator'' []])
        Map.empty ''traceparent'' = Some ''b3''"
proof -
  have l: "list_all2 (\<lambda>e p. new_propagator example_ext e = Inr p)
             [Builtin ''W3CTraceContextPropagator'', Custom b3_propagator]
             [Core_propagator ''W3CTraceContextPropagator'',
              Module_propagator ''@opentelemetry/propagator-b3'' ''B3Propagator'' []]"
    by (simp add: example_defs spread_def)
  show ?thesis
    using propagator_order[OF l, of example_write Map.empty] by simp
qed

subsection \<open>C9: the declared configuration after exporter assembly\<close>

text \<open>
  C9 does not hold of the code. The copy of line 83 is shallow: for an exporter config
  \<^verbatim>\<open>{ headers: { 'x-tenant': 't1' } }\<close> the copy's \<^verbatim>\<open>headers\<close> is the caller's own
  headers object, and line 94 writes \<^verbatim>\<open>authorization\<close> into it. Evaluated on the worked
  configuration: the config is object 1, its headers are object 2, which has no
  \<^verbatim>\<open>authorization\<close> before the call and has the injected one after it.
\<close>

theorem caller_headers_written:
  "exporter_config (otlp_exporter (Some 1)) = Some 1
   \<and> get_prop (heap example_world) (Ref 1) ''headers'' = Ref 2
   \<and> get_prop (heap example_world) (Ref 2) ''authorization'' = Undefined
   \<and> fst (getExporter (example_ext\<lparr>getDynatraceCredentials := Ref 0\<rparr>)
          (example_cfg ''telemetry-to-dynatrace'' (Some 1)) (otlp_exporter (Some 1)) example_world)
       = Inr (Exporter ''@opentelemetry/exporter-trace-otlp-proto'' ''OTLPTraceExporter'' 8)
   \<and> get_prop (heap (snd (getExporter (example_ext\<lparr>getDynatraceCredentials := Ref 0\<rparr>)
          (example_cfg ''telemetry-to-dynatrace'' (Some 1)) (otlp_exporter (Some 1)) example_world)))
        (Ref 1) ''headers'' = Ref 2
   \<and> get_prop (heap (snd (getExporter (example_ext\<lparr>getDynatraceCredentials := Ref 0\<rparr>)
          (example_cfg ''telemetry-to-dynatrace'' (Some 1)) (otlp_exporter (Some 1)) example_world)))
        (Ref 2) ''authorization'' = Str ''Api-Token dt0c01.XYZ''"
  by (simp add: example_defs exporter_eval)

subsection \<open>C10: no exporter entry\<close>

text \<open>
  C10. If the configuration has no \<^verbatim>\<open>tracing\<close> section or no \<^verbatim>\<open>tracing.exporter\<close>
  entry, the bootstrap function returns normally and the state of the process is the one
  it started in: no provider, sampler, propagator, instrumentation or exporter is
  constructed or registered, and no tracer handle is set.
\<close>

theorem no_exporter_no_effect:
  assumes "tracing t = None \<or> (\<exists>tr. tracing t = Some tr \<and> exporter tr = None)"
  shows "module_exports ext t res w = (Inr (), w)"
  using assms by (auto simp: module_exports_def)

theorem no_exporter_no_effect_witness:
  "module_exports example_ext
     ((example_cfg ''telemetry-to-dynatrace'' None)\<lparr>tracing := None\<rparr>) (Resource []) example_world
     = (Inr (), example_world)
   \<and> module_exports example_ext
     ((example_cfg ''telemetry-to-dynatrace'' None)
        \<lparr>tracing := Some ((example_tracing None)\<lparr>exporter := None\<rparr>)\<rparr>) (Resource []) example_world
     = (Inr (), example_world)"
  using no_exporter_no_effect[of "(example_cfg ''telemetry-to-dynatrace'' None)\<lparr>tracing := None\<rparr>"
           example_ext "Resource []" example_world]
    no_exporter_no_effect[of "(example_cfg ''telemetry-to-dynatrace'' None)
        \<lparr>tracing := Some ((example_tracing None)\<lparr>exporter := None\<rparr>)\<rparr>"
           example_ext "Resource []" example_world]
  by simp

end
